theory Spec2Isabelle
  imports Complex_Main "HOL-Library.Word"
begin

section \<open>Basic types of the render core\<close>

text \<open>
  The engine's scalar types. \<open>U64\<close> is the 64-bit node hash. \<open>double\<close> values (times of
  the actions cache, canonical coordinates) are only copied and compared by the code
  modelled here, never computed with, so they are modelled by \<open>real\<close> (no NaN).
  \<open>SequenceTime\<close> and \<open>int\<close> are only copied and compared as well and are modelled by
  \<open>int\<close>; \<open>unsigned int\<close> mipmap levels by \<open>nat\<close>.
\<close>

type_synonym U64 = "64 word"

text \<open>\<open>RectD\<close>: a rectangle in canonical coordinates, \<open>(x1, y1)\<close> bottom-left and
  \<open>(x2, y2)\<close> top-right.\<close>

record RectD =
  dx1 :: real
  dy1 :: real
  dx2 :: real
  dy2 :: real

text \<open>\<open>RectI\<close>: a rectangle in pixel coordinates.\<close>

record RectI =
  ix1 :: int
  iy1 :: int
  ix2 :: int
  iy2 :: int

text \<open>
  Modelled from the spec: the rectangle classes (\<open>Engine/Rect.h\<close>) are not under
  \<open>src/\<close>. A rectangle is null (empty) when it has no interior; \<open>merge\<close> is the
  bounding box of two rectangles, a null rectangle being replaced by the other one;
  \<open>intersect\<close> returns \<open>false\<close> (here \<open>None\<close>) when either rectangle is null or
  the two are apart, and otherwise the common part; \<open>clear\<close> resets to the
  default-constructed rectangle.
\<close>

definition RectD_isNull :: "RectD \<Rightarrow> bool" where
  "RectD_isNull r = (dx2 r \<le> dx1 r \<or> dy2 r \<le> dy1 r)"

definition RectD_merge :: "RectD \<Rightarrow> RectD \<Rightarrow> RectD" where
  "RectD_merge r box =
     (if RectD_isNull r then box
      else \<lparr>dx1 = min (dx1 r) (dx1 box), dy1 = min (dy1 r) (dy1 box),
            dx2 = max (dx2 r) (dx2 box), dy2 = max (dy2 r) (dy2 box)\<rparr>)"

definition RectD_null :: RectD where
  "RectD_null = \<lparr>dx1 = 0, dy1 = 0, dx2 = 0, dy2 = 0\<rparr>"

definition RectI_null :: RectI where
  "RectI_null = \<lparr>ix1 = 0, iy1 = 0, ix2 = 0, iy2 = 0\<rparr>"

definition RectI_isNull :: "RectI \<Rightarrow> bool" where
  "RectI_isNull r = (ix2 r \<le> ix1 r \<or> iy2 r \<le> iy1 r)"

definition RectI_merge :: "RectI \<Rightarrow> RectI \<Rightarrow> RectI" where
  "RectI_merge r box =
     (if RectI_isNull r then box
      else \<lparr>ix1 = min (ix1 r) (ix1 box), iy1 = min (iy1 r) (iy1 box),
            ix2 = max (ix2 r) (ix2 box), iy2 = max (iy2 r) (iy2 box)\<rparr>)"

definition RectI_intersect :: "RectI \<Rightarrow> RectI \<Rightarrow> RectI option" where
  "RectI_intersect a r =
     (if RectI_isNull a \<or> RectI_isNull r then None
      else if ix1 a > ix2 r \<or> ix1 r > ix2 a \<or> iy1 a > iy2 r \<or> iy1 r > iy2 a then None
      else Some \<lparr>ix1 = max (ix1 a) (ix1 r), iy1 = max (iy1 a) (iy1 r),
                 ix2 = min (ix2 a) (ix2 r), iy2 = min (iy2 a) (iy2 r)\<rparr>)"

definition RectI_contains :: "RectI \<Rightarrow> RectI \<Rightarrow> bool" where
  "RectI_contains a other =
     (ix1 other \<ge> ix1 a \<and> iy1 other \<ge> iy1 a \<and> ix2 other \<le> ix2 a \<and> iy2 other \<le> iy2 a)"

section \<open>std::map with a comparator\<close>

text \<open>
  A \<open>std::map<K, V, Compare>\<close> is modelled by the list of its entries in iteration order.
  Two keys are the same key of the map when neither is less than the other; \<open>find\<close>
  returns the entry of the equivalent key and \<open>insert\<close> leaves the map unchanged when an
  equivalent key is present.
\<close>

fun std_map_find :: "('k \<Rightarrow> 'k \<Rightarrow> bool) \<Rightarrow> 'k \<Rightarrow> ('k \<times> 'v) list \<Rightarrow> 'v option" where
  "std_map_find lt k [] = None"
| "std_map_find lt k ((k', v) # m) =
     (if \<not> lt k k' \<and> \<not> lt k' k then Some v else std_map_find lt k m)"

fun std_map_place :: "('k \<Rightarrow> 'k \<Rightarrow> bool) \<Rightarrow> 'k \<Rightarrow> 'v \<Rightarrow> ('k \<times> 'v) list \<Rightarrow> ('k \<times> 'v) list" where
  "std_map_place lt k v [] = [(k, v)]"
| "std_map_place lt k v ((k', v') # m) =
     (if lt k k' then (k, v) # (k', v') # m else (k', v') # std_map_place lt k v m)"

definition std_map_insert :: "('k \<Rightarrow> 'k \<Rightarrow> bool) \<Rightarrow> 'k \<Rightarrow> 'v \<Rightarrow> ('k \<times> 'v) list \<Rightarrow> ('k \<times> 'v) list" where
  "std_map_insert lt k v m =
     (case std_map_find lt k m of Some _ \<Rightarrow> m | None \<Rightarrow> std_map_place lt k v m)"

text \<open>Assignment through the iterator returned by \<open>find\<close>: \<open>found->second = v\<close>.\<close>

fun std_map_assign :: "('k \<Rightarrow> 'k \<Rightarrow> bool) \<Rightarrow> 'k \<Rightarrow> 'v \<Rightarrow> ('k \<times> 'v) list \<Rightarrow> ('k \<times> 'v) list" where
  "std_map_assign lt k v [] = []"
| "std_map_assign lt k v ((k', v') # m) =
     (if \<not> lt k k' \<and> \<not> lt k' k then (k', v) # m else (k', v') # std_map_assign lt k v m)"

section \<open>ActionsCache\<close>

record ActionKey =
  ak_time :: real
  ak_view :: int
  ak_mipMapLevel :: nat

record IdentityResults =
  inputIdentityNb :: int
  inputIdentityTime :: real

definition CompareActionsCacheKeys :: "ActionKey \<Rightarrow> ActionKey \<Rightarrow> bool" where
  "CompareActionsCacheKeys lhs rhs =
     (if ak_time lhs < ak_time rhs then True
      else if ak_time lhs = ak_time rhs then
        (if ak_mipMapLevel lhs < ak_mipMapLevel rhs then True
         else if ak_mipMapLevel lhs = ak_mipMapLevel rhs then
           (if ak_view lhs < ak_view rhs then True else False)
         else False)
      else False)"

record OfxRangeD =
  range_min :: real
  range_max :: real

record ActionsCache =
  cacheHash :: U64
  timeDomain :: OfxRangeD
  timeDomainSet :: bool
  identityCache :: "(ActionKey \<times> IdentityResults) list"
  rodCache :: "(ActionKey \<times> RectD) list"

text \<open>The constructor \<open>ActionsCache()\<close>.\<close>

definition ActionsCache_new :: ActionsCache where
  "ActionsCache_new =
     \<lparr>cacheHash = 0, timeDomain = \<lparr>range_min = 0, range_max = 0\<rparr>, timeDomainSet = False,
      identityCache = [], rodCache = []\<rparr>"

definition mkActionKey :: "real \<Rightarrow> int \<Rightarrow> nat \<Rightarrow> ActionKey" where
  "mkActionKey t v m = \<lparr>ak_time = t, ak_view = v, ak_mipMapLevel = m\<rparr>"

definition invalidateAll :: "U64 \<Rightarrow> ActionsCache \<Rightarrow> ActionsCache" where
  "invalidateAll newHash c =
     c\<lparr>cacheHash := newHash, rodCache := [], identityCache := [], timeDomainSet := False\<rparr>"

text \<open>The getters return \<open>bool\<close> and write through out-parameters: \<open>None\<close> is \<open>false\<close>,
  \<open>Some\<close> carries what was written.\<close>

definition getIdentityResult :: "ActionsCache \<Rightarrow> U64 \<Rightarrow> real \<Rightarrow> int \<Rightarrow> nat \<Rightarrow> IdentityResults option" where
  "getIdentityResult c hash t v m =
     (if hash \<noteq> cacheHash c then None
      else std_map_find CompareActionsCacheKeys (mkActionKey t v m) (identityCache c))"

definition setIdentityResult :: "real \<Rightarrow> int \<Rightarrow> nat \<Rightarrow> int \<Rightarrow> real \<Rightarrow> ActionsCache \<Rightarrow> ActionsCache" where
  "setIdentityResult t v m inputNbIdentity identityTime c =
     (let key = mkActionKey t v m;
          r = \<lparr>inputIdentityNb = inputNbIdentity, inputIdentityTime = identityTime\<rparr>
      in case std_map_find CompareActionsCacheKeys key (identityCache c) of
           Some _ \<Rightarrow> c\<lparr>identityCache := std_map_assign CompareActionsCacheKeys key r (identityCache c)\<rparr>
         | None \<Rightarrow> c\<lparr>identityCache := std_map_insert CompareActionsCacheKeys key r (identityCache c)\<rparr>)"

definition getRoDResult :: "ActionsCache \<Rightarrow> U64 \<Rightarrow> real \<Rightarrow> int \<Rightarrow> nat \<Rightarrow> RectD option" where
  "getRoDResult c hash t v m =
     (if hash \<noteq> cacheHash c then None
      else std_map_find CompareActionsCacheKeys (mkActionKey t v m) (rodCache c))"

definition setRoDResult :: "real \<Rightarrow> int \<Rightarrow> nat \<Rightarrow> RectD \<Rightarrow> ActionsCache \<Rightarrow> ActionsCache" where
  "setRoDResult t v m rod c =
     (let key = mkActionKey t v m
      in case std_map_find CompareActionsCacheKeys key (rodCache c) of
           Some _ \<Rightarrow> c
         | None \<Rightarrow> c\<lparr>rodCache := std_map_insert CompareActionsCacheKeys key rod (rodCache c)\<rparr>)"

definition getTimeDomainResult :: "ActionsCache \<Rightarrow> U64 \<Rightarrow> (real \<times> real) option" where
  "getTimeDomainResult c hash =
     (if hash \<noteq> cacheHash c \<or> \<not> timeDomainSet c then None
      else Some (range_min (timeDomain c), range_max (timeDomain c)))"

definition setTimeDomainResult :: "real \<Rightarrow> real \<Rightarrow> ActionsCache \<Rightarrow> ActionsCache" where
  "setTimeDomainResult first last' c =
     c\<lparr>timeDomainSet := True, timeDomain := \<lparr>range_min = first, range_max = last'\<rparr>\<rparr>"

text \<open>The writes that leave the hash tag alone, as a datatype, to speak about any
  sequence of them.\<close>

datatype ActionsCacheWrite =
    SetRoD real int nat RectD
  | SetIdentity real int nat int real
  | SetTimeDomain real real

fun applyWrite :: "ActionsCacheWrite \<Rightarrow> ActionsCache \<Rightarrow> ActionsCache" where
  "applyWrite (SetRoD t v m rod) c = setRoDResult t v m rod c"
| "applyWrite (SetIdentity t v m nb idt) c = setIdentityResult t v m nb idt c"
| "applyWrite (SetTimeDomain first last') c = setTimeDomainResult first last' c"

text \<open>Two rectangles for concrete runs.\<close>

definition R1 :: RectD where "R1 = \<lparr>dx1 = 0, dy1 = 0, dx2 = 10, dy2 = 10\<rparr>"

definition R2 :: RectD where "R2 = \<lparr>dx1 = 0, dy1 = 0, dx2 = 20, dy2 = 20\<rparr>"

subsection \<open>Properties of the actions cache\<close>

lemma CompareActionsCacheKeys_equiv:
  "(\<not> CompareActionsCacheKeys a b \<and> \<not> CompareActionsCacheKeys b a) = (a = b)"
  by (cases a; cases b) (auto simp: CompareActionsCacheKeys_def)

lemma CompareActionsCacheKeys_irrefl [simp]: "\<not> CompareActionsCacheKeys a a"
  by (simp add: CompareActionsCacheKeys_def)

lemma std_map_find_place:
  "std_map_find CompareActionsCacheKeys k' m = None \<Longrightarrow>
   std_map_find CompareActionsCacheKeys k (std_map_place CompareActionsCacheKeys k' v m) =
     (if k = k' then Some v else std_map_find CompareActionsCacheKeys k m)"
proof (induction m)
  case Nil
  show ?case by (simp add: CompareActionsCacheKeys_equiv)
next
  case (Cons e m)
  obtain k0 v0 where e: "e = (k0, v0)" by (cases e)
  from Cons.prems have ne: "k' \<noteq> k0" and absent: "std_map_find CompareActionsCacheKeys k' m = None"
    by (auto simp: e CompareActionsCacheKeys_equiv split: if_splits)
  show ?case
  proof (cases "CompareActionsCacheKeys k' k0")
    case True
    with ne show ?thesis
      by (simp add: e CompareActionsCacheKeys_equiv)
  next
    case False
    with Cons.IH [OF absent] ne show ?thesis
      by (auto simp: e CompareActionsCacheKeys_equiv)
  qed
qed

lemma getRoDResult_setRoDResult:
  "getRoDResult (setRoDResult t' v' m' rod c) hash t v m =
     (case getRoDResult c hash t v m of
        Some r \<Rightarrow> Some r
      | None \<Rightarrow> if hash = cacheHash c \<and> t = t' \<and> v = v' \<and> m = m' then Some rod else None)"
  by (auto simp: getRoDResult_def setRoDResult_def std_map_insert_def std_map_find_place
      mkActionKey_def Let_def split: option.splits)

lemma getRoDResult_applyWrite:
  "getRoDResult c hash t v m = Some r \<Longrightarrow> getRoDResult (applyWrite w c) hash t v m = Some r"
proof (cases w)
  case (SetRoD t' v' m' rod)
  assume "getRoDResult c hash t v m = Some r"
  then show ?thesis
    using SetRoD by (simp add: getRoDResult_setRoDResult)
next
  case (SetIdentity t' v' m' nb idt)
  assume "getRoDResult c hash t v m = Some r"
  then show ?thesis
    using SetIdentity
    by (simp add: getRoDResult_def setIdentityResult_def Let_def split: option.splits if_splits)
next
  case (SetTimeDomain first last')
  assume "getRoDResult c hash t v m = Some r"
  then show ?thesis
    using SetTimeDomain by (simp add: getRoDResult_def setTimeDomainResult_def split: if_splits)
qed

lemma getRoDResult_writes:
  "getRoDResult c hash t v m = Some r \<Longrightarrow> getRoDResult (fold applyWrite ws c) hash t v m = Some r"
  by (induction ws arbitrary: c) (simp_all add: getRoDResult_applyWrite)

text \<open>
  Claim C3. (1) A lookup of the region of definition, of the identity verdict or of the
  time domain with a hash other than the cache's current tag misses. (2) \<open>invalidateAll\<close>
  empties the two tables, unsets the time domain and adopts the new hash, so that every
  lookup misses afterwards. (3) \<open>setRoDResult\<close> on a key that is present leaves the cache
  as it is; on an absent key it stores the rectangle. (4) Once a region of definition is
  returned for a key, it is returned again after any sequence of writes that leaves the
  hash alone (further \<open>setRoDResult\<close>, \<open>setIdentityResult\<close>, \<open>setTimeDomainResult\<close>).
\<close>

theorem ActionsCache_tag_and_first_write:
  "(hash \<noteq> cacheHash c \<longrightarrow>
      getRoDResult c hash t v m = None \<and> getIdentityResult c hash t v m = None \<and>
      getTimeDomainResult c hash = None)
   \<and> (rodCache (invalidateAll newHash c) = [] \<and> identityCache (invalidateAll newHash c) = [] \<and>
      \<not> timeDomainSet (invalidateAll newHash c) \<and> cacheHash (invalidateAll newHash c) = newHash \<and>
      getRoDResult (invalidateAll newHash c) hash t v m = None \<and>
      getIdentityResult (invalidateAll newHash c) hash t v m = None \<and>
      getTimeDomainResult (invalidateAll newHash c) hash = None)
   \<and> (getRoDResult c (cacheHash c) t v m = Some r \<longrightarrow>
      setRoDResult t v m r' c = c \<and>
      getRoDResult (setRoDResult t v m r' c) (cacheHash c) t v m = Some r)
   \<and> (getRoDResult c (cacheHash c) t v m = None \<longrightarrow>
      getRoDResult (setRoDResult t v m r' c) (cacheHash c) t v m = Some r')
   \<and> (getRoDResult c hash t v m = Some r \<longrightarrow>
      getRoDResult (fold applyWrite ws c) hash t v m = Some r)"
proof -
  have tag: "hash \<noteq> cacheHash c \<longrightarrow>
      getRoDResult c hash t v m = None \<and> getIdentityResult c hash t v m = None \<and>
      getTimeDomainResult c hash = None"
    by (simp add: getRoDResult_def getIdentityResult_def getTimeDomainResult_def)
  have inv: "rodCache (invalidateAll newHash c) = [] \<and> identityCache (invalidateAll newHash c) = [] \<and>
      \<not> timeDomainSet (invalidateAll newHash c) \<and> cacheHash (invalidateAll newHash c) = newHash \<and>
      getRoDResult (invalidateAll newHash c) hash t v m = None \<and>
      getIdentityResult (invalidateAll newHash c) hash t v m = None \<and>
      getTimeDomainResult (invalidateAll newHash c) hash = None"
    by (simp add: invalidateAll_def getRoDResult_def getIdentityResult_def getTimeDomainResult_def)
  have first: "getRoDResult c (cacheHash c) t v m = Some r \<longrightarrow>
      setRoDResult t v m r' c = c \<and>
      getRoDResult (setRoDResult t v m r' c) (cacheHash c) t v m = Some r"
    by (simp add: getRoDResult_def setRoDResult_def Let_def)
  have fresh: "getRoDResult c (cacheHash c) t v m = None \<longrightarrow>
      getRoDResult (setRoDResult t v m r' c) (cacheHash c) t v m = Some r'"
    by (simp add: getRoDResult_setRoDResult)
  have stable: "getRoDResult c hash t v m = Some r \<longrightarrow>
      getRoDResult (fold applyWrite ws c) hash t v m = Some r"
    by (simp add: getRoDResult_writes)
  from tag inv first fresh stable show ?thesis by blast
qed

text \<open>A run of the claim: a fresh cache invalidated to hash 7, a region of definition
  stored at (5, 0, 0), then looked up under hash 8 and hash 7, overwritten and looked up
  again.\<close>

theorem ActionsCache_tag_and_first_write_witness:
  "(8::U64) \<noteq> cacheHash (setRoDResult 5 0 0 R1 (invalidateAll 7 ActionsCache_new))
   \<and> getRoDResult (setRoDResult 5 0 0 R1 (invalidateAll 7 ActionsCache_new)) 8 5 0 0 = None
   \<and> getIdentityResult (setRoDResult 5 0 0 R1 (invalidateAll 7 ActionsCache_new)) 8 5 0 0 = None
   \<and> getTimeDomainResult (setRoDResult 5 0 0 R1 (invalidateAll 7 ActionsCache_new)) 8 = None
   \<and> getRoDResult (invalidateAll 7 ActionsCache_new) 7 5 0 0 = None
   \<and> getRoDResult (setRoDResult 5 0 0 R1 (invalidateAll 7 ActionsCache_new)) 7 5 0 0 = Some R1
   \<and> setRoDResult 5 0 0 R2 (setRoDResult 5 0 0 R1 (invalidateAll 7 ActionsCache_new))
       = setRoDResult 5 0 0 R1 (invalidateAll 7 ActionsCache_new)
   \<and> getRoDResult (fold applyWrite [SetRoD 5 0 0 R2, SetIdentity 5 0 0 (-1) 5, SetTimeDomain 1 9]
         (setRoDResult 5 0 0 R1 (invalidateAll 7 ActionsCache_new))) 7 5 0 0 = Some R1"
proof -
  let ?init = "invalidateAll 7 ActionsCache_new"
  let ?cur = "setRoDResult 5 0 0 R1 ?init"
  have h0: "cacheHash ?init = 7" by (simp add: invalidateAll_def ActionsCache_new_def)
  have h1: "cacheHash ?cur = 7" by (simp add: setRoDResult_def invalidateAll_def ActionsCache_new_def std_map_insert_def mkActionKey_def)
  have ne: "(8::U64) \<noteq> cacheHash ?cur" by (simp add: h1)
  have miss: "getRoDResult ?init (cacheHash ?init) 5 0 0 = None"
    by (simp add: getRoDResult_def invalidateAll_def ActionsCache_new_def)
  from ActionsCache_tag_and_first_write [of 8 ?cur 5 0 0 7 R1 R2 "[]"] ne
  have a: "getRoDResult ?cur 8 5 0 0 = None \<and> getIdentityResult ?cur 8 5 0 0 = None \<and> getTimeDomainResult ?cur 8 = None"
    by blast
  from ActionsCache_tag_and_first_write [of 7 ?init 5 0 0 7 R1 R1 "[]"] miss
  have b: "getRoDResult ?cur (cacheHash ?init) 5 0 0 = Some R1" by blast
  then have b': "getRoDResult ?cur (cacheHash ?cur) 5 0 0 = Some R1" by (simp add: h0 h1)
  from ActionsCache_tag_and_first_write [of 7 ?cur 5 0 0 7 R1 R2 "[SetRoD 5 0 0 R2, SetIdentity 5 0 0 (-1) 5, SetTimeDomain 1 9]"] b'
  have c: "setRoDResult 5 0 0 R2 ?cur = ?cur"
    and d: "getRoDResult (fold applyWrite [SetRoD 5 0 0 R2, SetIdentity 5 0 0 (-1) 5, SetTimeDomain 1 9] ?cur) 7 5 0 0 = Some R1"
    unfolding h1 by blast+
  from miss have miss': "getRoDResult ?init 7 5 0 0 = None" unfolding h0 .
  from b' have b'': "getRoDResult ?cur 7 5 0 0 = Some R1" unfolding h1 .
  from ne a miss' b'' c d show ?thesis by blast
qed


section \<open>Images and the image cache\<close>

datatype ImageBitDepthEnum =
  eImageBitDepthNone | eImageBitDepthByte | eImageBitDepthShort | eImageBitDepthFloat

text \<open>An \<open>ImageComponents\<close> value names a plane: a layer and its channels. Its class is
  not under \<open>src/\<close>; its operations are taken as parameters (record \<open>Host\<close> below).\<close>

datatype ImageComponents = ImageComponents (getLayerName: string) (getComponentsNames: "string list")

text \<open>\<open>FramesNeededMap\<close>: for an input number, for a view, the frame ranges needed.\<close>

type_synonym FramesNeededMap = "(int \<times> (int \<times> (real \<times> real) list) list) list"

record ImageKey =
  key_nodeHash :: U64
  key_frameVaryingOrAnimated :: bool
  key_time :: int
  key_view :: int

text \<open>The tile bitmap of an image: a state for every pixel.\<close>

datatype CellState = Unrendered | Rendering | Rendered

text \<open>An image: its key, its parameters (\<open>ImageParams\<close>) and its bitmap. Pixel values are
  not modelled.\<close>

record Image =
  img_key :: ImageKey
  img_cost :: int
  img_rod :: RectD
  img_bounds :: RectI
  img_par :: real
  img_mipMapLevel :: nat
  img_isRodProjectFormat :: bool
  img_components :: ImageComponents
  img_bitDepth :: ImageBitDepthEnum
  img_framesNeeded :: FramesNeededMap
  img_usesBitMap :: bool
  img_bitmap :: "int \<times> int \<Rightarrow> CellState"

text \<open>A \<open>boost::shared_ptr<Image>\<close> is an address into the store of images; a null
  pointer is \<open>None\<close>.\<close>

type_synonym ImagePtr = nat

type_synonym NodeId = nat

text \<open>
  What the engine calls that is not under \<open>src/\<close>, taken as parameters: the operations
  of \<open>ImageComponents\<close>, \<open>getSizeOfForBitDepth\<close>, the two OpenFX constants, the project
  format (\<open>getRenderFormat\<close>) and the same in canonical coordinates
  (\<open>toCanonicalFormat\<close>), the conversions between mipmap levels and render scales and
  between pixel and canonical rectangles (floating point), whether the calling thread is
  a render thread (\<open>QThread::currentThread() != qApp->thread()\<close>), the pixel work of
  \<open>Image::downscaleMipMap\<close>, whether the cache can allocate one more image, three
  settings of the application, and the rounding of a \<open>double\<close> to a frame number
  (\<open>std::floor(x + 0.5)\<close> computed in floating point and assigned to a \<open>SequenceTime\<close>, a
  32-bit integer). A \<open>RenderScale\<close> has two components that this code always
  sets to the same value: it is modelled by that value.
\<close>

record Host =
  isColorPlane :: "ImageComponents \<Rightarrow> bool"
  isConvertibleTo :: "ImageComponents \<Rightarrow> ImageComponents \<Rightarrow> bool"
  ImageComponents_less :: "ImageComponents \<Rightarrow> ImageComponents \<Rightarrow> bool"
  getSizeOfForBitDepth :: "ImageBitDepthEnum \<Rightarrow> nat"
  kOfxFlagInfiniteMin :: real
  kOfxFlagInfiniteMax :: real
  projectFormat :: RectI
  projectFormatCanonical :: RectD
  getScaleFromMipMapLevel :: "nat \<Rightarrow> real"
  getLevelFromScale :: "real \<Rightarrow> nat"
  isRenderThread :: bool
  toCanonical :: "RectI \<Rightarrow> nat \<Rightarrow> real \<Rightarrow> RectD \<Rightarrow> RectD"
  toCanonical_noClipping :: "RectI \<Rightarrow> nat \<Rightarrow> real \<Rightarrow> RectD"
  toPixelEnclosing :: "RectD \<Rightarrow> nat \<Rightarrow> real \<Rightarrow> RectI"
  downscaleMipMap :: "RectD \<Rightarrow> RectI \<Rightarrow> nat \<Rightarrow> nat \<Rightarrow> bool \<Rightarrow> Image \<Rightarrow> Image \<Rightarrow> Image"
  cacheCanAllocate :: "ImageKey \<Rightarrow> bool"
  isNodeCacheAlmostFull :: bool
  isTransformConcatenationEnabled :: bool
  isBackground :: bool
  floorToSequenceTime :: "real \<Rightarrow> int"

text \<open>
  The part of the store of the application that the cache look-up reads and writes: the
  images by address, the next free address, and the entries of the node cache and of the
  disk cache.
\<close>

record ImageStore =
  st_images :: "ImagePtr \<Rightarrow> Image"
  st_nextImage :: ImagePtr
  st_nodeCache :: "ImagePtr list"
  st_diskCache :: "ImagePtr list"

text \<open>
  Modelled from the spec: the cache (\<open>AppManager\<close>, \<open>Cache\<close>) is not under \<open>src/\<close>.
  \<open>getImageFromCache\<close> returns the entries stored under a key, \<open>removeFromNodeCache\<close>
  evicts one entry, or every entry of a node hash.
\<close>

definition getImageFromCache :: "ImageKey \<Rightarrow> 's ImageStore_scheme \<Rightarrow> ImagePtr list" where
  "getImageFromCache key s = filter (\<lambda>p. img_key (st_images s p) = key) (st_nodeCache s)"

definition getImageFromDiskCache :: "ImageKey \<Rightarrow> 's ImageStore_scheme \<Rightarrow> ImagePtr list" where
  "getImageFromDiskCache key s = filter (\<lambda>p. img_key (st_images s p) = key) (st_diskCache s)"

definition removeFromNodeCache :: "ImagePtr \<Rightarrow> 's ImageStore_scheme \<Rightarrow> 's ImageStore_scheme" where
  "removeFromNodeCache p s = s\<lparr>st_nodeCache := removeAll p (st_nodeCache s)\<rparr>"

definition removeFromNodeCache_hash :: "U64 \<Rightarrow> 's ImageStore_scheme \<Rightarrow> 's ImageStore_scheme" where
  "removeFromNodeCache_hash h s =
     s\<lparr>st_nodeCache := filter (\<lambda>p. key_nodeHash (img_key (st_images s p)) \<noteq> h) (st_nodeCache s)\<rparr>"

subsection \<open>The selection loop of getImageFromCacheAndConvertIfNeeded\<close>

text \<open>
  The loop over \<open>cachedImages\<close> (lines 1612 to 1666). It carries the out-parameter
  \<open>*image\<close> and the local \<open>imageToConvert\<close>; \<open>continue\<close> goes to the next entry and
  \<open>break\<close> ends the loop.
\<close>

fun cachedImagesLoop ::
  "Host \<Rightarrow> nat \<Rightarrow> ImageBitDepthEnum \<Rightarrow> ImageComponents \<Rightarrow> ImageBitDepthEnum \<Rightarrow> ImageComponents \<Rightarrow>
   ImagePtr list \<Rightarrow> ImagePtr option \<Rightarrow> ImagePtr option \<Rightarrow> 's ImageStore_scheme \<Rightarrow>
   ImagePtr option \<times> ImagePtr option \<times> 's ImageStore_scheme" where
  "cachedImagesLoop h mipMapLevel bitdepth components nodePrefDepth nodePrefComps [] outImage imageToConvert s =
     (outImage, imageToConvert, s)"
| "cachedImagesLoop h mipMapLevel bitdepth components nodePrefDepth nodePrefComps (it # rest) outImage imageToConvert s =
     (let imgMMlevel = img_mipMapLevel (st_images s it);
          imgComps = img_components (st_images s it);
          imgDepth = img_bitDepth (st_images s it)
      in if img_isRodProjectFormat (st_images s it) \<and> projectFormatCanonical h \<noteq> img_rod (st_images s it)
         then cachedImagesLoop h mipMapLevel bitdepth components nodePrefDepth nodePrefComps rest
                outImage imageToConvert (removeFromNodeCache it s)
         else if (isColorPlane h imgComps \<and> isColorPlane h nodePrefComps \<and> imgComps \<noteq> nodePrefComps)
                 \<or> imgDepth \<noteq> nodePrefDepth
         then cachedImagesLoop h mipMapLevel bitdepth components nodePrefDepth nodePrefComps rest
                outImage imageToConvert (removeFromNodeCache it s)
         else if imgMMlevel = mipMapLevel \<and> isConvertibleTo h imgComps components \<and>
                 getSizeOfForBitDepth h imgDepth \<ge> getSizeOfForBitDepth h bitdepth
         then (Some it, imageToConvert, s)
         else if imgMMlevel \<ge> mipMapLevel \<or> \<not> isConvertibleTo h imgComps components \<or>
                 getSizeOfForBitDepth h imgDepth < getSizeOfForBitDepth h bitdepth
         then cachedImagesLoop h mipMapLevel bitdepth components nodePrefDepth nodePrefComps rest
                outImage imageToConvert s
         else (case imageToConvert of
                 None \<Rightarrow> cachedImagesLoop h mipMapLevel bitdepth components nodePrefDepth nodePrefComps rest
                           outImage (Some it) s
               | Some c \<Rightarrow>
                   if imgMMlevel > img_mipMapLevel (st_images s c)
                   then cachedImagesLoop h mipMapLevel bitdepth components nodePrefDepth nodePrefComps rest
                          outImage (Some it) s
                   else cachedImagesLoop h mipMapLevel bitdepth components nodePrefDepth nodePrefComps rest
                          outImage imageToConvert s))"




subsection \<open>A host and a store for concrete runs\<close>

definition sizeOfBitDepth :: "ImageBitDepthEnum \<Rightarrow> nat" where
  "sizeOfBitDepth d = (case d of eImageBitDepthByte \<Rightarrow> 1 | eImageBitDepthShort \<Rightarrow> 2
                       | eImageBitDepthFloat \<Rightarrow> 4 | eImageBitDepthNone \<Rightarrow> 0)"

definition RGBA :: ImageComponents where
  "RGBA = ImageComponents ''Color'' [''R'', ''G'', ''B'', ''A'']"


definition testHost :: Host where
  "testHost =
     \<lparr>isColorPlane = (\<lambda>c. getLayerName c = ''Color''),
      isConvertibleTo = (\<lambda>a b. a = b \<or> (getLayerName a = ''Color'' \<and> getLayerName b = ''Color'')),
      ImageComponents_less = (\<lambda>a b. length (getComponentsNames a) < length (getComponentsNames b)),
      getSizeOfForBitDepth = sizeOfBitDepth,
      kOfxFlagInfiniteMin = - 2147483648,
      kOfxFlagInfiniteMax = 2147483647,
      projectFormat = \<lparr>ix1 = 0, iy1 = 0, ix2 = 1920, iy2 = 1080\<rparr>,
      projectFormatCanonical = \<lparr>dx1 = 0, dy1 = 0, dx2 = 1920, dy2 = 1080\<rparr>,
      getScaleFromMipMapLevel = (\<lambda>l. 1 / 2 ^ l),
      getLevelFromScale = (\<lambda>x. if x = 1 then 0 else if x = 1 / 2 then 1 else if x = 1 / 4 then 2 else 3),
      isRenderThread = True,
      toCanonical = (\<lambda>r l par rod. \<lparr>dx1 = of_int (ix1 r), dy1 = of_int (iy1 r), dx2 = of_int (ix2 r), dy2 = of_int (iy2 r)\<rparr>),
      toCanonical_noClipping = (\<lambda>r l par. \<lparr>dx1 = of_int (ix1 r), dy1 = of_int (iy1 r), dx2 = of_int (ix2 r), dy2 = of_int (iy2 r)\<rparr>),
      toPixelEnclosing = (\<lambda>r l par. \<lparr>ix1 = \<lfloor>dx1 r\<rfloor>, iy1 = \<lfloor>dy1 r\<rfloor>, ix2 = \<lceil>dx2 r\<rceil>, iy2 = \<lceil>dy2 r\<rceil>\<rparr>),
      downscaleMipMap = (\<lambda>rod roi fromLevel toLevel copyBitMap src dst. dst),
      cacheCanAllocate = (\<lambda>k. True),
      isNodeCacheAlmostFull = False,
      isTransformConcatenationEnabled = False,
      isBackground = False,
      floorToSequenceTime = (\<lambda>x. \<lfloor>x + 1 / 2\<rfloor>)\<rparr>"

definition testKey :: ImageKey where
  "testKey = \<lparr>key_nodeHash = 7, key_frameVaryingOrAnimated = False, key_time = 5, key_view = 0\<rparr>"

definition testImage :: "nat \<Rightarrow> ImageBitDepthEnum \<Rightarrow> Image" where
  "testImage level depth =
     \<lparr>img_key = testKey, img_cost = 0, img_rod = R1,
      img_bounds = \<lparr>ix1 = 0, iy1 = 0, ix2 = 10, iy2 = 10\<rparr>, img_par = 1, img_mipMapLevel = level,
      img_isRodProjectFormat = False, img_components = RGBA, img_bitDepth = depth,
      img_framesNeeded = [], img_usesBitMap = True, img_bitmap = (\<lambda>p. Unrendered)\<rparr>"


subsection \<open>Properties of the selection loop\<close>

lemma st_images_removeFromNodeCache [simp]:
  "st_images (removeFromNodeCache p s) = st_images s"
  by (simp add: removeFromNodeCache_def)




section \<open>Effects and the state of a render\<close>

datatype StatusEnum = eStatusOK | eStatusReplyDefault | eStatusFailed | eStatusOutOfMemory

datatype SupportsEnum = eSupportsMaybe | eSupportsNo | eSupportsYes

datatype RenderRoIRetCode = eRenderRoIRetCodeOk | eRenderRoIRetCodeAborted | eRenderRoIRetCodeFailed

text \<open>An action of a plug-in returns or throws.\<close>

datatype 'a ActionResult = Throws | Returns 'a

record PlaneToRender =
  fullscaleImage :: "ImagePtr option"
  downscaleImage :: "ImagePtr option"
  renderMappedImage :: "ImagePtr option"
  tmpImage :: "ImagePtr option"
  originalCachedImage :: "ImagePtr option"
  isAllocatedOnTheFly :: bool

text \<open>\<open>EffectInstance::RenderArgs\<close>, the thread-local arguments of a \<open>renderRoI\<close> call (the
  fields \<open>_rod\<close>, \<open>_regionOfInterestResults\<close>, ...). A \<open>RoIMap\<close> is keyed by effect
  pointers, null included.\<close>

record RenderArgs =
  ra_rod :: RectD
  ra_regionOfInterestResults :: "(NodeId option \<times> RectD) list"
  ra_renderWindowPixel :: RectI
  ra_time :: int
  ra_view :: int
  ra_validArgs :: bool
  ra_channelForAlpha :: int
  ra_isIdentity :: bool
  ra_identityTime :: int
  ra_identityInputNb :: int
  ra_outputPlanes :: "(ImageComponents \<times> PlaneToRender) list"
  ra_firstFrame :: int
  ra_lastFrame :: int

text \<open>The constructor \<open>RenderArgs()\<close>.\<close>

definition RenderArgs_new :: RenderArgs where
  "RenderArgs_new =
     \<lparr>ra_rod = RectD_null, ra_regionOfInterestResults = [], ra_renderWindowPixel = RectI_null,
      ra_time = 0, ra_view = 0, ra_validArgs = False, ra_channelForAlpha = 3, ra_isIdentity = False,
      ra_identityTime = 0, ra_identityInputNb = - 1, ra_outputPlanes = [], ra_firstFrame = 0,
      ra_lastFrame = 0\<rparr>"

text \<open>\<open>ParallelRenderArgs\<close>, the thread-local arguments of the render of a frame; only
  the fields \<open>renderRoI\<close> uses.\<close>

record ParallelRenderArgs =
  pa_time :: int
  pa_view :: int
  pa_nodeHash :: U64
  pa_rotoAge :: U64
  pa_isSequentialRender :: bool
  pa_isRenderResponseToUserInteraction :: bool
  pa_canAbort :: bool
  pa_validArgs :: int

text \<open>
  An effect, as the engine sees it: its place in the graph, what it declares, and its
  actions. The actions are the virtual functions a plug-in implements; they are given
  the value of \<open>supportsRenderScale\<close> and return it, since a plug-in may set it during
  \<open>getRegionOfDefinition\<close> or \<open>isIdentity\<close>. An effect without an action of its own for
  the region of definition (\<open>None\<close>) runs \<open>EffectInstance::getRegionOfDefinition\<close>.
  \<open>getComponentsAvailable\<close>, \<open>getPreferredDepthAndComponents\<close>, \<open>getFrameRange\<close> and
  \<open>getFramesNeeded\<close> are taken with their results.
\<close>

record Effect =
  getHash :: U64
  isEffectCreated :: bool
  inputs :: "NodeId option list"
  getPreferredInput :: int
  isNodeDisabled :: bool
  isDiskCacheNode :: bool
  isGenerator :: bool
  isWriter :: bool
  onlySequential :: bool
  supportsTiles :: bool
  supportsMultiResolution :: bool
  useScaleOneImagesWhenRenderScaleSupportIsDisabled :: bool
  shouldCacheOutput :: bool
  isFrameVaryingOrAnimated_Recursive :: bool
  getPreferredAspectRatio :: real
  getRotoAge :: "U64 option"
  regionOfDefinitionAction ::
    "(U64 \<Rightarrow> int \<Rightarrow> real \<Rightarrow> int \<Rightarrow> SupportsEnum \<Rightarrow> StatusEnum \<times> RectD \<times> SupportsEnum) option"
  isIdentityAction ::
    "int \<Rightarrow> real \<Rightarrow> RectD \<Rightarrow> real \<Rightarrow> int \<Rightarrow> SupportsEnum \<Rightarrow> (bool \<times> int \<times> int \<times> SupportsEnum) ActionResult"
  getFrameRange :: "int \<times> int"
  getFramesNeeded :: "int \<Rightarrow> int \<Rightarrow> FramesNeededMap"
  getComponentsAvailable :: "int \<Rightarrow> (ImageComponents \<times> NodeId option) list"
  isSupportedComponent :: "int \<Rightarrow> ImageComponents \<Rightarrow> bool"
  getPreferredDepthAndComponents :: "ImageComponents list \<times> ImageBitDepthEnum"

type_synonym Graph = "NodeId \<Rightarrow> Effect"

text \<open>
  The state a render reads and writes: the image store, and for every node its actions
  cache, its two thread-local argument records (of the rendering thread), its
  \<open>supportsRenderScale\<close>, the hash and planes it rendered last, and the calls made to its
  render action (time and rectangle), the most recent first.
\<close>

record State = ImageStore +
  st_actionsCache :: "NodeId \<Rightarrow> ActionsCache"
  st_frameRenderArgs :: "NodeId \<Rightarrow> ParallelRenderArgs"
  st_renderArgs :: "NodeId \<Rightarrow> RenderArgs"
  st_supportsRenderScale :: "NodeId \<Rightarrow> SupportsEnum"
  st_lastRenderHash :: "NodeId \<Rightarrow> U64"
  st_lastPlanesRendered :: "NodeId \<Rightarrow> ImagePtr list"
  st_renderCalls :: "(NodeId \<times> int \<times> RectI) list"

text \<open>
  Modelled from the spec: \<open>Node::getInput\<close> is not under \<open>src/\<close>. Input \<open>n\<close> is the node
  connected to it; an input that is not connected, or a number that is not one of the
  inputs, has none.
\<close>

definition getInput :: "Effect \<Rightarrow> int \<Rightarrow> NodeId option" where
  "getInput e n = (if 0 \<le> n \<and> nat n < length (inputs e) then inputs e ! nat n else None)"


section \<open>The region of definition\<close>

text \<open>
  \<open>getRegionOfDefinition_public\<close> and \<open>ifInfiniteApplyHeuristic\<close> call each other through
  the inputs of a node. The bodies below take the call on another node as a parameter
  (\<open>rodPub\<close>); the recursion is tied further down. A call returns \<open>None\<close> when the
  recursion does not end within the fuel it is given. The out-parameter \<open>*rod\<close> is passed
  in and returned; \<open>*isProjectFormat\<close> is returned when the function writes it.
\<close>

type_synonym RoDCall =
  "NodeId \<Rightarrow> U64 \<Rightarrow> int \<Rightarrow> real \<Rightarrow> int \<Rightarrow> RectD \<Rightarrow> State \<Rightarrow>
   ((StatusEnum \<times> RectD \<times> bool option) \<times> State) option"

definition calcDefaultRegionOfDefinition :: "Host \<Rightarrow> RectD" where
  "calcDefaultRegionOfDefinition h =
     \<lparr>dx1 = of_int (ix1 (projectFormat h)), dy1 = of_int (iy1 (projectFormat h)),
      dx2 = of_int (ix2 (projectFormat h)), dy2 = of_int (iy2 (projectFormat h))\<rparr>"

text \<open>The loop of \<open>ifInfiniteApplyHeuristic\<close> over the inputs (lines 1365 to 1384), carrying
  \<open>firstInput\<close> and \<open>inputsUnion\<close>.\<close>

fun inputsUnionLoop ::
  "RoDCall \<Rightarrow> U64 \<Rightarrow> int \<Rightarrow> real \<Rightarrow> int \<Rightarrow> NodeId option list \<Rightarrow> bool \<Rightarrow> RectD \<Rightarrow> State \<Rightarrow>
   (RectD \<times> State) option" where
  "inputsUnionLoop rodPub hash t scale v [] firstInput inputsUnion s = Some (inputsUnion, s)"
| "inputsUnionLoop rodPub hash t scale v (None # rest) firstInput inputsUnion s =
     inputsUnionLoop rodPub hash t scale v rest firstInput inputsUnion s"
| "inputsUnionLoop rodPub hash t scale v (Some inp # rest) firstInput inputsUnion s =
     (let inputScale = (if st_supportsRenderScale s inp = eSupportsNo then 1 else scale)
      in case rodPub inp hash t inputScale v RectD_null s of
           None \<Rightarrow> None
         | Some ((st, inputRod, _), s') \<Rightarrow>
             if st \<noteq> eStatusFailed then
               (if firstInput then inputsUnionLoop rodPub hash t scale v rest False inputRod s'
                else inputsUnionLoop rodPub hash t scale v rest False (RectD_merge inputsUnion inputRod) s')
             else inputsUnionLoop rodPub hash t scale v rest firstInput inputsUnion s')"

text \<open>The four clipping steps (lines 1391 to 1426), each on \<open>*rod\<close> and the local
  \<open>isProjectFormat\<close>. The four flags are computed from the rectangle passed in.\<close>

definition clipX1 :: "Host \<Rightarrow> RectD \<Rightarrow> RectD \<times> bool \<Rightarrow> RectD \<times> bool" where
  "clipX1 h inputsUnion = (\<lambda>(rod, isProjectFormat).
     let (x1, ipf) = (if \<not> RectD_isNull inputsUnion
                      then (min (dx1 inputsUnion) (dx1 (projectFormatCanonical h)), isProjectFormat)
                      else (dx1 (projectFormatCanonical h), True))
     in (rod\<lparr>dx1 := x1, dx2 := max x1 (dx2 rod)\<rparr>, ipf))"

definition clipY1 :: "Host \<Rightarrow> RectD \<Rightarrow> RectD \<times> bool \<Rightarrow> RectD \<times> bool" where
  "clipY1 h inputsUnion = (\<lambda>(rod, isProjectFormat).
     let (y1, ipf) = (if \<not> RectD_isNull inputsUnion
                      then (min (dy1 inputsUnion) (dy1 (projectFormatCanonical h)), isProjectFormat)
                      else (dy1 (projectFormatCanonical h), True))
     in (rod\<lparr>dy1 := y1, dy2 := max y1 (dy2 rod)\<rparr>, ipf))"

definition clipX2 :: "Host \<Rightarrow> RectD \<Rightarrow> RectD \<times> bool \<Rightarrow> RectD \<times> bool" where
  "clipX2 h inputsUnion = (\<lambda>(rod, isProjectFormat).
     let (x2, ipf) = (if \<not> RectD_isNull inputsUnion
                      then (max (dx2 inputsUnion) (dx2 (projectFormatCanonical h)), isProjectFormat)
                      else (dx2 (projectFormatCanonical h), True))
     in (rod\<lparr>dx2 := x2, dx1 := min (dx1 rod) x2\<rparr>, ipf))"

definition clipY2 :: "Host \<Rightarrow> RectD \<Rightarrow> RectD \<times> bool \<Rightarrow> RectD \<times> bool" where
  "clipY2 h inputsUnion = (\<lambda>(rod, isProjectFormat).
     let (y2, ipf) = (if \<not> RectD_isNull inputsUnion
                      then (max (dy2 inputsUnion) (dy2 (projectFormatCanonical h)), isProjectFormat)
                      else (dy2 (projectFormatCanonical h), True))
     in (rod\<lparr>dy2 := y2, dy1 := min (dy1 rod) y2\<rparr>, ipf))"

definition x1Infinite :: "Host \<Rightarrow> RectD \<Rightarrow> bool" where
  "x1Infinite h rod = (dx1 rod \<le> kOfxFlagInfiniteMin h)"

definition y1Infinite :: "Host \<Rightarrow> RectD \<Rightarrow> bool" where
  "y1Infinite h rod = (dy1 rod \<le> kOfxFlagInfiniteMin h)"

definition x2Infinite :: "Host \<Rightarrow> RectD \<Rightarrow> bool" where
  "x2Infinite h rod = (dx2 rod \<ge> kOfxFlagInfiniteMax h)"

definition y2Infinite :: "Host \<Rightarrow> RectD \<Rightarrow> bool" where
  "y2Infinite h rod = (dy2 rod \<ge> kOfxFlagInfiniteMax h)"

definition clipInfiniteSides :: "Host \<Rightarrow> RectD \<Rightarrow> RectD \<Rightarrow> RectD \<times> bool" where
  "clipInfiniteSides h inputsUnion rod =
     (let r0 = (rod, False);
          r1 = (if x1Infinite h rod then clipX1 h inputsUnion r0 else r0);
          r2 = (if y1Infinite h rod then clipY1 h inputsUnion r1 else r1);
          r3 = (if x2Infinite h rod then clipX2 h inputsUnion r2 else r2);
          r4 = (if y2Infinite h rod then clipY2 h inputsUnion r3 else r3)
      in r4)"

text \<open>The union of the inputs as \<open>ifInfiniteApplyHeuristic\<close> computes it (lines 1358 to
  1385): the default-constructed rectangle when no side is infinite.\<close>

definition inputsUnionOf ::
  "Host \<Rightarrow> Graph \<Rightarrow> RoDCall \<Rightarrow> NodeId \<Rightarrow> U64 \<Rightarrow> int \<Rightarrow> real \<Rightarrow> int \<Rightarrow> RectD \<Rightarrow> State \<Rightarrow>
   (RectD \<times> State) option" where
  "inputsUnionOf h g rodPub n hash t scale v rod s =
     (if x1Infinite h rod \<or> y1Infinite h rod \<or> x2Infinite h rod \<or> y2Infinite h rod
      then inputsUnionLoop rodPub hash t scale v (inputs (g n)) True (calcDefaultRegionOfDefinition h) s
      else Some (RectD_null, s))"

definition ifInfiniteApplyHeuristic ::
  "Host \<Rightarrow> Graph \<Rightarrow> RoDCall \<Rightarrow> NodeId \<Rightarrow> U64 \<Rightarrow> int \<Rightarrow> real \<Rightarrow> int \<Rightarrow> RectD \<Rightarrow> State \<Rightarrow>
   ((bool \<times> RectD) \<times> State) option" where
  "ifInfiniteApplyHeuristic h g rodPub n hash t scale v rod s =
     (case inputsUnionOf h g rodPub n hash t scale v rod s of
        None \<Rightarrow> None
      | Some (inputsUnion, s') \<Rightarrow>
          (let (rod', isProjectFormat) = clipInfiniteSides h inputsUnion rod
           in Some ((if isProjectFormat \<and> \<not> isGenerator (g n) then False else isProjectFormat, rod'), s')))"


text \<open>\<open>EffectInstance::getRegionOfDefinition\<close>, the action of an effect that has none of its
  own: the union of the regions of definition of its inputs (lines 1301 to 1333).\<close>

fun getRegionOfDefinition_inputs ::
  "RoDCall \<Rightarrow> U64 \<Rightarrow> int \<Rightarrow> real \<Rightarrow> int \<Rightarrow> NodeId option list \<Rightarrow> bool \<Rightarrow> RectD \<Rightarrow> State \<Rightarrow>
   ((StatusEnum \<times> RectD) \<times> State) option" where
  "getRegionOfDefinition_inputs rodPub hash t scale v [] firstInput rod s =
     Some ((eStatusReplyDefault, rod), s)"
| "getRegionOfDefinition_inputs rodPub hash t scale v (None # rest) firstInput rod s =
     getRegionOfDefinition_inputs rodPub hash t scale v rest firstInput rod s"
| "getRegionOfDefinition_inputs rodPub hash t scale v (Some inp # rest) firstInput rod s =
     (case rodPub inp hash t scale v RectD_null s of
        None \<Rightarrow> None
      | Some ((st, inputRod, _), s') \<Rightarrow>
          if st = eStatusFailed then Some ((st, rod), s')
          else if firstInput then getRegionOfDefinition_inputs rodPub hash t scale v rest False inputRod s'
          else getRegionOfDefinition_inputs rodPub hash t scale v rest False (RectD_merge rod inputRod) s')"

definition getRegionOfDefinition ::
  "Graph \<Rightarrow> RoDCall \<Rightarrow> NodeId \<Rightarrow> U64 \<Rightarrow> int \<Rightarrow> real \<Rightarrow> int \<Rightarrow> RectD \<Rightarrow> State \<Rightarrow>
   ((StatusEnum \<times> RectD) \<times> State) option" where
  "getRegionOfDefinition g rodPub n hash t scale v rod s =
     (case regionOfDefinitionAction (g n) of
        None \<Rightarrow> getRegionOfDefinition_inputs rodPub hash t scale v (inputs (g n)) True rod s
      | Some act \<Rightarrow>
          (let (st, rod', rs) = act hash t scale v (st_supportsRenderScale s n)
           in Some ((st, rod'), s\<lparr>st_supportsRenderScale := (st_supportsRenderScale s)(n := rs)\<rparr>)))"

definition updActionsCache :: "NodeId \<Rightarrow> (ActionsCache \<Rightarrow> ActionsCache) \<Rightarrow> State \<Rightarrow> State" where
  "updActionsCache n f s = s\<lparr>st_actionsCache := (st_actionsCache s)(n := f (st_actionsCache s n))\<rparr>"

text \<open>\<open>getRegionOfDefinition_public\<close> (lines 4503 to 4575). The thread-local \<open>renderArgs\<close>
  of a thread that never set them are the default-constructed ones, whose \<open>_validArgs\<close> is
  false.\<close>

definition getRegionOfDefinition_public_body :: "Host \<Rightarrow> Graph \<Rightarrow> RoDCall \<Rightarrow> RoDCall" where
  "getRegionOfDefinition_public_body h g rodPub n hash t scale v rod s =
     (if \<not> isEffectCreated (g n) then Some ((eStatusFailed, rod, None), s)
      else
        let mipMapLevel = getLevelFromScale h scale
        in case getRoDResult (st_actionsCache s n) hash (of_int t) v mipMapLevel of
             Some r \<Rightarrow>
               if RectD_isNull r then Some ((eStatusFailed, r, Some False), s)
               else Some ((eStatusOK, r, Some False), s)
           | None \<Rightarrow>
               if isRenderThread h \<and> ra_validArgs (st_renderArgs s n)
               then Some ((eStatusOK, ra_rod (st_renderArgs s n), Some False), s)
               else
                 (case getRegionOfDefinition g rodPub n hash t
                         (if st_supportsRenderScale s n = eSupportsNo then 1 else scale) v rod s of
                    None \<Rightarrow> None
                  | Some ((ret, rod1), s1) \<Rightarrow>
                      if ret \<noteq> eStatusOK \<and> ret \<noteq> eStatusReplyDefault
                      then Some ((ret, rod1, None),
                                 updActionsCache n (setRoDResult (of_int t) v mipMapLevel RectD_null)
                                   (updActionsCache n (invalidateAll hash) s1))
                      else if RectD_isNull rod1
                      then Some ((eStatusFailed, rod1, None),
                                 updActionsCache n (setRoDResult (of_int t) v mipMapLevel RectD_null)
                                   (updActionsCache n (invalidateAll hash) s1))
                      else
                        (case ifInfiniteApplyHeuristic h g rodPub n hash t scale v rod1 s1 of
                           None \<Rightarrow> None
                         | Some ((isProjectFormat, rod2), s2) \<Rightarrow>
                             Some ((ret, rod2, Some isProjectFormat),
                                   updActionsCache n (setRoDResult (of_int t) v mipMapLevel rod2) s2))))"

primrec getRegionOfDefinition_public :: "nat \<Rightarrow> Host \<Rightarrow> Graph \<Rightarrow> RoDCall" where
  "getRegionOfDefinition_public 0 h g = (\<lambda>n hash t scale v rod s. None)"
| "getRegionOfDefinition_public (Suc fuel) h g =
     getRegionOfDefinition_public_body h g (getRegionOfDefinition_public fuel h g)"

subsection \<open>Fixtures and abbreviations for the infinity heuristic\<close>

definition clipLow :: "Host \<Rightarrow> RectD \<Rightarrow> (RectD \<Rightarrow> real) \<Rightarrow> real" where
  "clipLow h inputsUnion side =
     (if \<not> RectD_isNull inputsUnion then min (side inputsUnion) (side (projectFormatCanonical h))
      else side (projectFormatCanonical h))"

definition clipHigh :: "Host \<Rightarrow> RectD \<Rightarrow> (RectD \<Rightarrow> real) \<Rightarrow> real" where
  "clipHigh h inputsUnion side =
     (if \<not> RectD_isNull inputsUnion then max (side inputsUnion) (side (projectFormatCanonical h))
      else side (projectFormatCanonical h))"

definition R100 :: RectD where "R100 = \<lparr>dx1 = 100, dy1 = 100, dx2 = 200, dy2 = 200\<rparr>"

definition infiniteRoD :: RectD where
  "infiniteRoD = \<lparr>dx1 = - 2147483648, dy1 = - 2147483648, dx2 = 2147483647, dy2 = 2147483647\<rparr>"

definition testEffect :: Effect where
  "testEffect =
     \<lparr>getHash = 7, isEffectCreated = True, inputs = [], getPreferredInput = - 1,
      isNodeDisabled = False, isDiskCacheNode = False, isGenerator = False, isWriter = False,
      onlySequential = False, supportsTiles = True, supportsMultiResolution = True,
      useScaleOneImagesWhenRenderScaleSupportIsDisabled = False, shouldCacheOutput = True,
      isFrameVaryingOrAnimated_Recursive = False, getPreferredAspectRatio = 1, getRotoAge = None,
      regionOfDefinitionAction = Some (\<lambda>hash t scale v rs. (eStatusOK, R100, rs)),
      isIdentityAction = (\<lambda>t scale rod par v rs. Returns (False, 0, - 1, rs)),
      getFrameRange = (1, 10), getFramesNeeded = (\<lambda>t v. []),
      getComponentsAvailable = (\<lambda>t. []), isSupportedComponent = (\<lambda>n c. True),
      getPreferredDepthAndComponents = ([RGBA], eImageBitDepthFloat)\<rparr>"

definition ParallelRenderArgs_new :: ParallelRenderArgs where
  "ParallelRenderArgs_new =
     \<lparr>pa_time = 0, pa_view = 0, pa_nodeHash = 0, pa_rotoAge = 0, pa_isSequentialRender = False,
      pa_isRenderResponseToUserInteraction = False, pa_canAbort = False, pa_validArgs = 0\<rparr>"

definition testState :: State where
  "testState =
     \<lparr>st_images = (\<lambda>p. testImage 0 eImageBitDepthFloat), st_nextImage = 0, st_nodeCache = [],
      st_diskCache = [],
      st_actionsCache = (\<lambda>n. ActionsCache_new),
      st_frameRenderArgs = (\<lambda>n. ParallelRenderArgs_new),
      st_renderArgs = (\<lambda>n. RenderArgs_new),
      st_supportsRenderScale = (\<lambda>n. eSupportsYes),
      st_lastRenderHash = (\<lambda>n. 0),
      st_lastPlanesRendered = (\<lambda>n. []),
      st_renderCalls = []\<rparr>"

definition rodGraph :: Graph where
  "rodGraph = (\<lambda>n. if n = 0
     then testEffect\<lparr>inputs := [Some 1],
            regionOfDefinitionAction := Some (\<lambda>hash t scale v rs. (eStatusOK, infiniteRoD, rs))\<rparr>
     else testEffect)"

definition anyInfinite :: "Host \<Rightarrow> RectD \<Rightarrow> bool" where
  "anyInfinite h rod = (x1Infinite h rod \<or> y1Infinite h rod \<or> x2Infinite h rod \<or> y2Infinite h rod)"

text \<open>
  The inputs' union in the words of the specification: the regions of definition of the
  connected inputs whose query does not fail, in the order of the inputs, each queried in
  the state the query before it left (an input that does not support render scale is
  queried at scale one); their union is the bounding box of all of them, and the default
  region of definition of the effect (the project format) when there is none.
\<close>

fun inputRoDs ::
  "RoDCall \<Rightarrow> U64 \<Rightarrow> int \<Rightarrow> real \<Rightarrow> int \<Rightarrow> NodeId option list \<Rightarrow> State \<Rightarrow> (RectD list \<times> State) option" where
  "inputRoDs rodPub hash t scale v [] s = Some ([], s)"
| "inputRoDs rodPub hash t scale v (None # rest) s = inputRoDs rodPub hash t scale v rest s"
| "inputRoDs rodPub hash t scale v (Some inp # rest) s =
     (case rodPub inp hash t (if st_supportsRenderScale s inp = eSupportsNo then 1 else scale) v RectD_null s of
        None \<Rightarrow> None
      | Some ((st, inputRod, _), s') \<Rightarrow>
          (case inputRoDs rodPub hash t scale v rest s' of
             None \<Rightarrow> None
           | Some (rods, s'') \<Rightarrow> Some (if st \<noteq> eStatusFailed then inputRod # rods else rods, s'')))"

definition unionOfRoDs :: "Host \<Rightarrow> RectD list \<Rightarrow> RectD" where
  "unionOfRoDs h rods =
     (case rods of [] \<Rightarrow> calcDefaultRegionOfDefinition h | r # others \<Rightarrow> foldl RectD_merge r others)"

text \<open>A node with an infinite region of definition and two connected inputs, one of
  which reaches beyond the project format on three sides; and a region of definition
  whose right side alone is infinite.\<close>

definition wideRoD :: RectD where
  "wideRoD = \<lparr>dx1 = - 100, dy1 = - 50, dx2 = 2500, dy2 = 500\<rparr>"

definition halfInfiniteRoD :: RectD where
  "halfInfiniteRoD = \<lparr>dx1 = 3000, dy1 = 0, dx2 = 2147483647, dy2 = 10\<rparr>"

definition wideGraph :: Graph where
  "wideGraph = (\<lambda>n. if n = 0
     then testEffect\<lparr>inputs := [Some 1, None, Some 2],
            regionOfDefinitionAction := Some (\<lambda>hash t scale v rs. (eStatusOK, infiniteRoD, rs))\<rparr>
     else if n = 2
     then testEffect\<lparr>regionOfDefinitionAction := Some (\<lambda>hash t scale v rs. (eStatusOK, wideRoD, rs))\<rparr>
     else testEffect)"

definition wideState :: State where
  "wideState = updActionsCache 2 (setRoDResult 5 0 0 wideRoD)
                 (updActionsCache 1 (setRoDResult 5 0 0 R100) testState)"

subsection \<open>Properties of ifInfiniteApplyHeuristic\<close>

lemma clipInfiniteSides_x:
  assumes "\<not> RectD_isNull (projectFormatCanonical h)" "dx1 rod \<le> dx2 rod"
  shows "dx1 (fst (clipInfiniteSides h U rod)) =
           (if x1Infinite h rod then clipLow h U dx1
            else if x2Infinite h rod then min (dx1 rod) (clipHigh h U dx2) else dx1 rod)"
    and "dx2 (fst (clipInfiniteSides h U rod)) =
           (if x2Infinite h rod then clipHigh h U dx2
            else if x1Infinite h rod then max (clipLow h U dx1) (dx2 rod) else dx2 rod)"
  using assms
  by (auto simp: clipInfiniteSides_def clipX1_def clipX2_def clipY1_def clipY2_def Let_def
      clipLow_def clipHigh_def RectD_isNull_def split: prod.splits)

lemma clipInfiniteSides_y:
  assumes "\<not> RectD_isNull (projectFormatCanonical h)" "dy1 rod \<le> dy2 rod"
  shows "dy1 (fst (clipInfiniteSides h U rod)) =
           (if y1Infinite h rod then clipLow h U dy1
            else if y2Infinite h rod then min (dy1 rod) (clipHigh h U dy2) else dy1 rod)"
    and "dy2 (fst (clipInfiniteSides h U rod)) =
           (if y2Infinite h rod then clipHigh h U dy2
            else if y1Infinite h rod then max (clipLow h U dy1) (dy2 rod) else dy2 rod)"
  using assms
  by (auto simp: clipInfiniteSides_def clipX1_def clipX2_def clipY1_def clipY2_def Let_def
      clipLow_def clipHigh_def RectD_isNull_def split: prod.splits)

lemma cx_run:
  "map_option fst (ifInfiniteApplyHeuristic testHost rodGraph (getRegionOfDefinition_public 1 testHost rodGraph)
       0 7 5 1 0 infiniteRoD testState)
     = Some (False, \<lparr>dx1 = 0, dy1 = 0, dx2 = 1920, dy2 = 1080\<rparr>)"
  by (simp add: ifInfiniteApplyHeuristic_def inputsUnionOf_def x1Infinite_def y1Infinite_def x2Infinite_def y2Infinite_def
      infiniteRoD_def testHost_def rodGraph_def testEffect_def testState_def
      getRegionOfDefinition_public_body_def getRoDResult_def ActionsCache_new_def
      RenderArgs_new_def getRegionOfDefinition_def R100_def RectD_isNull_def
      updActionsCache_def setRoDResult_def std_map_insert_def mkActionKey_def
      calcDefaultRegionOfDefinition_def clipInfiniteSides_def clipX1_def clipX2_def clipY1_def clipY2_def RectD_null_def)

lemma cx_union:
  "map_option fst (inputsUnionOf testHost rodGraph (getRegionOfDefinition_public 1 testHost rodGraph)
       0 7 5 1 0 infiniteRoD testState)
     = Some R100"
  by (simp add: ifInfiniteApplyHeuristic_def inputsUnionOf_def x1Infinite_def y1Infinite_def x2Infinite_def y2Infinite_def
      infiniteRoD_def testHost_def rodGraph_def testEffect_def testState_def
      getRegionOfDefinition_public_body_def getRoDResult_def ActionsCache_new_def
      RenderArgs_new_def getRegionOfDefinition_def R100_def RectD_isNull_def
      updActionsCache_def setRoDResult_def std_map_insert_def mkActionKey_def
      calcDefaultRegionOfDefinition_def clipInfiniteSides_def clipX1_def clipX2_def clipY1_def clipY2_def RectD_null_def)

lemma clipInfiniteSides_finite:
  "\<not> anyInfinite h rod \<Longrightarrow> clipInfiniteSides h U rod = (rod, False)"
  by (simp add: clipInfiniteSides_def anyInfinite_def)

lemma inputsUnionLoop_inputRoDs:
  "inputsUnionLoop rodPub hash t scale v ins first U s =
     (case inputRoDs rodPub hash t scale v ins s of
        None \<Rightarrow> None
      | Some (rods, s') \<Rightarrow>
          Some (if first then (case rods of [] \<Rightarrow> U | r # others \<Rightarrow> foldl RectD_merge r others)
                else foldl RectD_merge U rods, s'))"
proof (induction ins arbitrary: first U s)
  case Nil
  then show ?case by simp
next
  case (Cons i ins)
  show ?case
  proof (cases i)
    case None
    then show ?thesis using Cons.IH by simp
  next
    case (Some inp)
    show ?thesis
    proof (cases "rodPub inp hash t (if st_supportsRenderScale s inp = eSupportsNo then 1 else scale) v RectD_null s")
      case None
      with Some show ?thesis by (simp add: Let_def)
    next
      case call: (Some r)
      obtain st inputRod ipf s1 where r: "r = ((st, inputRod, ipf), s1)"
        by (cases r) auto
      show ?thesis
        using Some call r Cons.IH
        by (auto simp: Let_def split: option.splits list.splits)
    qed
  qed
qed

lemma inputsUnionOf_inputRoDs:
  "anyInfinite h rod \<Longrightarrow> inputRoDs rodPub hash t scale v (inputs (g n)) s = Some (rods, s') \<Longrightarrow>
   inputsUnionOf h g rodPub n hash t scale v rod s = Some (unionOfRoDs h rods, s')"
  by (simp add: inputsUnionOf_def anyInfinite_def inputsUnionLoop_inputRoDs unionOfRoDs_def)

lemma clipInfiniteSides_flag:
  "snd (clipInfiniteSides h U rod) = (anyInfinite h rod \<and> RectD_isNull U)"
  by (auto simp: clipInfiniteSides_def clipX1_def clipX2_def clipY1_def clipY2_def Let_def
      anyInfinite_def split: prod.splits)

text \<open>
  Claim C6, as the code has it. The code asserts that the project default is not null and
  that the rectangle passed in is well formed. With no infinite side the rectangle is
  returned as it is, and no input is queried. With an infinite side, and the queries of
  the inputs returning, the call returns: every infinite side becomes the side of the
  bounding box of the project default and the inputs' union (\<open>clipLow\<close>, \<open>clipHigh\<close>:
  the smaller of the two for \<open>x1\<close> and \<open>y1\<close>, the larger for \<open>x2\<close> and \<open>y2\<close>), and
  the side of the project default alone only when the inputs' union is null. The inputs'
  union is \<open>unionOfRoDs\<close> of the regions of definition of the connected inputs whose
  query does not fail. A finite side is kept, except that when the opposite side is
  infinite and is clipped beyond it, it is moved onto the clipped side. The flag returned
  says that the inputs' union was null for a generator. So an infinite side is not
  clipped to the inputs' union, as the claim and the comment at line 1386 have it, but to
  the bounding box of that union and the project default.
\<close>

theorem ifInfiniteApplyHeuristic_sides:
  assumes wf: "dx1 rod \<le> dx2 rod" "dy1 rod \<le> dy2 rod"
    and proj: "\<not> RectD_isNull (projectFormatCanonical h)"
  shows "(\<not> anyInfinite h rod \<longrightarrow>
            ifInfiniteApplyHeuristic h g rodPub n hash t scale v rod s = Some ((False, rod), s))
     \<and> (anyInfinite h rod \<longrightarrow>
          (\<forall>rods s'. inputRoDs rodPub hash t scale v (inputs (g n)) s = Some (rods, s') \<longrightarrow>
             (\<exists>rod'. ifInfiniteApplyHeuristic h g rodPub n hash t scale v rod s
                        = Some ((RectD_isNull (unionOfRoDs h rods) \<and> isGenerator (g n), rod'), s') \<and>
                dx1 rod' = (if x1Infinite h rod then clipLow h (unionOfRoDs h rods) dx1
                            else if x2Infinite h rod then min (dx1 rod) (clipHigh h (unionOfRoDs h rods) dx2)
                            else dx1 rod) \<and>
                dx2 rod' = (if x2Infinite h rod then clipHigh h (unionOfRoDs h rods) dx2
                            else if x1Infinite h rod then max (clipLow h (unionOfRoDs h rods) dx1) (dx2 rod)
                            else dx2 rod) \<and>
                dy1 rod' = (if y1Infinite h rod then clipLow h (unionOfRoDs h rods) dy1
                            else if y2Infinite h rod then min (dy1 rod) (clipHigh h (unionOfRoDs h rods) dy2)
                            else dy1 rod) \<and>
                dy2 rod' = (if y2Infinite h rod then clipHigh h (unionOfRoDs h rods) dy2
                            else if y1Infinite h rod then max (clipLow h (unionOfRoDs h rods) dy1) (dy2 rod)
                            else dy2 rod))))"
proof (intro conjI impI allI)
  assume fin: "\<not> anyInfinite h rod"
  then have "inputsUnionOf h g rodPub n hash t scale v rod s = Some (RectD_null, s)"
    by (simp add: inputsUnionOf_def anyInfinite_def)
  with fin show "ifInfiniteApplyHeuristic h g rodPub n hash t scale v rod s = Some ((False, rod), s)"
    by (simp add: ifInfiniteApplyHeuristic_def clipInfiniteSides_finite)
next
  fix rods s'
  assume inf: "anyInfinite h rod"
    and q: "inputRoDs rodPub hash t scale v (inputs (g n)) s = Some (rods, s')"
  let ?U = "unionOfRoDs h rods"
  let ?rod' = "fst (clipInfiniteSides h ?U rod)"
  from inputsUnionOf_inputRoDs [where g = g and n = n, OF inf q]
  have U: "inputsUnionOf h g rodPub n hash t scale v rod s = Some (?U, s')" .
  have run: "ifInfiniteApplyHeuristic h g rodPub n hash t scale v rod s
               = Some ((RectD_isNull ?U \<and> isGenerator (g n), ?rod'), s')"
    using U clipInfiniteSides_flag [of h ?U rod] inf
    by (auto simp: ifInfiniteApplyHeuristic_def Let_def split: prod.splits)
  from run clipInfiniteSides_x [OF proj wf(1), of ?U] clipInfiniteSides_y [OF proj wf(2), of ?U]
  show "\<exists>rod'. ifInfiniteApplyHeuristic h g rodPub n hash t scale v rod s
                        = Some ((RectD_isNull (unionOfRoDs h rods) \<and> isGenerator (g n), rod'), s') \<and>
                dx1 rod' = (if x1Infinite h rod then clipLow h (unionOfRoDs h rods) dx1
                            else if x2Infinite h rod then min (dx1 rod) (clipHigh h (unionOfRoDs h rods) dx2)
                            else dx1 rod) \<and>
                dx2 rod' = (if x2Infinite h rod then clipHigh h (unionOfRoDs h rods) dx2
                            else if x1Infinite h rod then max (clipLow h (unionOfRoDs h rods) dx1) (dx2 rod)
                            else dx2 rod) \<and>
                dy1 rod' = (if y1Infinite h rod then clipLow h (unionOfRoDs h rods) dy1
                            else if y2Infinite h rod then min (dy1 rod) (clipHigh h (unionOfRoDs h rods) dy2)
                            else dy1 rod) \<and>
                dy2 rod' = (if y2Infinite h rod then clipHigh h (unionOfRoDs h rods) dy2
                            else if y1Infinite h rod then max (clipLow h (unionOfRoDs h rods) dy1) (dy2 rod)
                            else dy2 rod)"
    by blast
qed

lemmas rod_defs =
  inputsUnionOf_def x1Infinite_def y1Infinite_def x2Infinite_def y2Infinite_def anyInfinite_def
  infiniteRoD_def halfInfiniteRoD_def wideRoD_def testHost_def rodGraph_def wideGraph_def wideState_def
  testEffect_def testState_def
  getRegionOfDefinition_public_body_def getRoDResult_def ActionsCache_new_def
  RenderArgs_new_def getRegionOfDefinition_def R100_def RectD_isNull_def RectD_merge_def
  updActionsCache_def ifInfiniteApplyHeuristic_def setRoDResult_def std_map_insert_def mkActionKey_def
  calcDefaultRegionOfDefinition_def clipInfiniteSides_def clipX1_def clipX2_def clipY1_def clipY2_def
  RectD_null_def unionOfRoDs_def clipLow_def clipHigh_def

lemma wide_inputRoDs:
  "inputRoDs (getRegionOfDefinition_public 1 testHost wideGraph) 7 5 1 0 (inputs (wideGraph 0)) testState
     = Some ([R100, wideRoD], wideState)"
  by (simp add: rod_defs fun_eq_iff)

text \<open>
  Three runs of node 0 of \<open>wideGraph\<close> in a project of 1920 by 1080; the inputs' union is
  (-100, -50, 2500, 500). An infinite rectangle becomes (-100, -50, 2500, 1080): its top is
  the top of the project default, its three other sides are those of the inputs' union.
  The rectangle (3000, 0, infinite, 10) becomes (2500, 0, 2500, 10): its finite left side is
  moved. A finite rectangle is returned as it is.
\<close>

theorem ifInfiniteApplyHeuristic_sides_witness:
  "inputRoDs (getRegionOfDefinition_public 1 testHost wideGraph) 7 5 1 0 (inputs (wideGraph 0)) testState
     = Some ([R100, wideRoD], wideState)
   \<and> unionOfRoDs testHost [R100, wideRoD] = \<lparr>dx1 = - 100, dy1 = - 50, dx2 = 2500, dy2 = 500\<rparr>
   \<and> projectFormatCanonical testHost = \<lparr>dx1 = 0, dy1 = 0, dx2 = 1920, dy2 = 1080\<rparr>
   \<and> ifInfiniteApplyHeuristic testHost wideGraph (getRegionOfDefinition_public 1 testHost wideGraph)
       0 7 5 1 0 infiniteRoD testState
     = Some ((False, \<lparr>dx1 = - 100, dy1 = - 50, dx2 = 2500, dy2 = 1080\<rparr>), wideState)
   \<and> ifInfiniteApplyHeuristic testHost wideGraph (getRegionOfDefinition_public 1 testHost wideGraph)
       0 7 5 1 0 halfInfiniteRoD testState
     = Some ((False, \<lparr>dx1 = 2500, dy1 = 0, dx2 = 2500, dy2 = 10\<rparr>), wideState)
   \<and> ifInfiniteApplyHeuristic testHost wideGraph (getRegionOfDefinition_public 1 testHost wideGraph)
       0 7 5 1 0 R100 testState
     = Some ((False, R100), testState)"
proof -
  let ?pub = "getRegionOfDefinition_public 1 testHost wideGraph"
  have proj: "\<not> RectD_isNull (projectFormatCanonical testHost)"
    by (simp add: testHost_def RectD_isNull_def)
  have u: "unionOfRoDs testHost [R100, wideRoD] = \<lparr>dx1 = - 100, dy1 = - 50, dx2 = 2500, dy2 = 500\<rparr>"
    by (simp add: rod_defs)
  have p: "projectFormatCanonical testHost = \<lparr>dx1 = 0, dy1 = 0, dx2 = 1920, dy2 = 1080\<rparr>"
    by (simp add: testHost_def)
  have gen: "\<not> isGenerator (wideGraph 0)"
    by (simp add: wideGraph_def testEffect_def)
  have inf1: "anyInfinite testHost infiniteRoD" "x1Infinite testHost infiniteRoD" "x2Infinite testHost infiniteRoD"
    "y1Infinite testHost infiniteRoD" "y2Infinite testHost infiniteRoD"
    by (simp_all add: rod_defs)
  have inf2: "anyInfinite testHost halfInfiniteRoD" "\<not> x1Infinite testHost halfInfiniteRoD"
    "x2Infinite testHost halfInfiniteRoD"
    "\<not> y1Infinite testHost halfInfiniteRoD" "\<not> y2Infinite testHost halfInfiniteRoD"
    by (simp_all add: rod_defs)
  have fin: "\<not> anyInfinite testHost R100"
    by (simp add: rod_defs)
  have clips: "clipLow testHost \<lparr>dx1 = - 100, dy1 = - 50, dx2 = 2500, dy2 = 500\<rparr> dx1 = - 100"
    "clipLow testHost \<lparr>dx1 = - 100, dy1 = - 50, dx2 = 2500, dy2 = 500\<rparr> dy1 = - 50"
    "clipHigh testHost \<lparr>dx1 = - 100, dy1 = - 50, dx2 = 2500, dy2 = 500\<rparr> dx2 = 2500"
    "clipHigh testHost \<lparr>dx1 = - 100, dy1 = - 50, dx2 = 2500, dy2 = 500\<rparr> dy2 = 1080"
    by (simp_all add: rod_defs)
  have a: "ifInfiniteApplyHeuristic testHost wideGraph ?pub 0 7 5 1 0 infiniteRoD testState
     = Some ((False, \<lparr>dx1 = - 100, dy1 = - 50, dx2 = 2500, dy2 = 1080\<rparr>), wideState)"
    using ifInfiniteApplyHeuristic_sides [where h = testHost and rod = infiniteRoD and g = wideGraph
            and rodPub = ?pub and n = 0 and hash = 7 and t = 5 and scale = 1 and v = 0 and s = testState,
            OF _ _ proj]
          wide_inputRoDs inf1 gen u clips
    by (auto simp: infiniteRoD_def)
  have b: "ifInfiniteApplyHeuristic testHost wideGraph ?pub 0 7 5 1 0 halfInfiniteRoD testState
     = Some ((False, \<lparr>dx1 = 2500, dy1 = 0, dx2 = 2500, dy2 = 10\<rparr>), wideState)"
    using ifInfiniteApplyHeuristic_sides [where h = testHost and rod = halfInfiniteRoD and g = wideGraph
            and rodPub = ?pub and n = 0 and hash = 7 and t = 5 and scale = 1 and v = 0 and s = testState,
            OF _ _ proj]
          wide_inputRoDs inf2 gen u clips
    by (auto simp: halfInfiniteRoD_def)
  have c: "ifInfiniteApplyHeuristic testHost wideGraph ?pub 0 7 5 1 0 R100 testState
     = Some ((False, R100), testState)"
    using ifInfiniteApplyHeuristic_sides [where h = testHost and rod = R100 and g = wideGraph
            and rodPub = ?pub and n = 0 and hash = 7 and t = 5 and scale = 1 and v = 0 and s = testState,
            OF _ _ proj] fin
    by (simp add: R100_def)
  from wide_inputRoDs u p a b c show ?thesis by simp
qed

text \<open>
  The run of the comment at line 1386 (\<open>clip to inputsUnion if not null, otherwise to
  project default\<close>): node 0 has an infinite region of definition and one input whose
  region of definition is (100, 100, 200, 200), in a project of 1920 by 1080. The inputs'
  union is (100, 100, 200, 200) and is not null, and the four infinite sides are set to
  (0, 0, 1920, 1080), the sides of the project default.
\<close>

theorem ifInfiniteApplyHeuristic_not_inputs_union:
  "map_option fst (inputsUnionOf testHost rodGraph (getRegionOfDefinition_public 1 testHost rodGraph)
       0 7 5 1 0 infiniteRoD testState)
     = Some \<lparr>dx1 = 100, dy1 = 100, dx2 = 200, dy2 = 200\<rparr>
   \<and> map_option fst (ifInfiniteApplyHeuristic testHost rodGraph (getRegionOfDefinition_public 1 testHost rodGraph)
       0 7 5 1 0 infiniteRoD testState)
     = Some (False, \<lparr>dx1 = 0, dy1 = 0, dx2 = 1920, dy2 = 1080\<rparr>)"
  using cx_run cx_union by (simp add: R100_def)


section \<open>Looking an image up in the cache\<close>

text \<open>
  Modelled from the spec: \<open>Image\<close> and the cache are not under \<open>src/\<close>.
  \<open>ensureBounds\<close> grows the bounds of an image to cover the new ones and never shrinks
  them. \<open>getImageFromCacheOrCreate\<close> returns the entry stored under the key (the key of
  the spec's store is the key of the code with the plane and the mipmap level of the
  parameters), and otherwise allocates an image with the parameters and inserts it; it
  returns no image when the allocation fails. \<open>allocateMemory\<close> changes nothing that is
  modelled. A new image has a bitmap with every cell unrendered.
\<close>

definition ensureBounds :: "ImagePtr \<Rightarrow> RectI \<Rightarrow> 's ImageStore_scheme \<Rightarrow> 's ImageStore_scheme" where
  "ensureBounds p newBounds s =
     s\<lparr>st_images := (st_images s)
          (p := (st_images s p)\<lparr>img_bounds := RectI_merge (img_bounds (st_images s p)) newBounds\<rparr>)\<rparr>"

definition newImage :: "Image \<Rightarrow> 's ImageStore_scheme \<Rightarrow> ImagePtr \<times> 's ImageStore_scheme" where
  "newImage img s =
     (st_nextImage s, s\<lparr>st_images := (st_images s)(st_nextImage s := img), st_nextImage := Suc (st_nextImage s)\<rparr>)"

definition sameEntry :: "ImageKey \<Rightarrow> Image \<Rightarrow> Image \<Rightarrow> bool" where
  "sameEntry key params img =
     (img_key img = key \<and> img_mipMapLevel img = img_mipMapLevel params \<and>
      img_components img = img_components params)"

definition getImageFromCacheOrCreate ::
  "Host \<Rightarrow> ImageKey \<Rightarrow> Image \<Rightarrow> 's ImageStore_scheme \<Rightarrow> ImagePtr option \<times> 's ImageStore_scheme" where
  "getImageFromCacheOrCreate h key params s =
     (case filter (\<lambda>p. sameEntry key params (st_images s p)) (st_nodeCache s) of
        p # _ \<Rightarrow> (Some p, s)
      | [] \<Rightarrow>
          if cacheCanAllocate h key then
            (let (p, s') = newImage params s in (Some p, s'\<lparr>st_nodeCache := st_nodeCache s' @ [p]\<rparr>))
          else (None, s))"

definition getImageFromDiskCacheOrCreate ::
  "Host \<Rightarrow> ImageKey \<Rightarrow> Image \<Rightarrow> 's ImageStore_scheme \<Rightarrow> ImagePtr option \<times> 's ImageStore_scheme" where
  "getImageFromDiskCacheOrCreate h key params s =
     (case filter (\<lambda>p. sameEntry key params (st_images s p)) (st_diskCache s) of
        p # _ \<Rightarrow> (Some p, s)
      | [] \<Rightarrow>
          if cacheCanAllocate h key then
            (let (p, s') = newImage params s in (Some p, s'\<lparr>st_diskCache := st_diskCache s' @ [p]\<rparr>))
          else (None, s))"

text \<open>\<open>Image::makeParams\<close> with the key of the image to be.\<close>

definition makeParams ::
  "ImageKey \<Rightarrow> int \<Rightarrow> RectD \<Rightarrow> RectI \<Rightarrow> real \<Rightarrow> nat \<Rightarrow> bool \<Rightarrow> ImageComponents \<Rightarrow> ImageBitDepthEnum \<Rightarrow>
   FramesNeededMap \<Rightarrow> Image" where
  "makeParams key cost rod bounds par mipMapLevel isRoDProjectFormat components bitdepth framesNeeded =
     \<lparr>img_key = key, img_cost = cost, img_rod = rod, img_bounds = bounds, img_par = par,
      img_mipMapLevel = mipMapLevel, img_isRodProjectFormat = isRoDProjectFormat,
      img_components = components, img_bitDepth = bitdepth, img_framesNeeded = framesNeeded,
      img_usesBitMap = True, img_bitmap = (\<lambda>c. Unrendered)\<rparr>"

text \<open>The static function \<open>getOrCreateFromCacheInternal\<close> (lines 1530 to 1570).\<close>

definition getOrCreateFromCacheInternal ::
  "Host \<Rightarrow> ImageKey \<Rightarrow> Image \<Rightarrow> bool \<Rightarrow> bool \<Rightarrow> 's ImageStore_scheme \<Rightarrow>
   ImagePtr option \<times> 's ImageStore_scheme" where
  "getOrCreateFromCacheInternal h key params useCache useDiskCache s =
     (if useCache then
        (case (if \<not> useDiskCache then getImageFromCacheOrCreate h key params s
               else getImageFromDiskCacheOrCreate h key params s) of
           (None, s') \<Rightarrow> (None, s')
         | (Some p, s') \<Rightarrow> (Some p, ensureBounds p (img_bounds params) s'))
      else (let (p, s') = newImage params s in (Some p, s')))"

text \<open>The conversion of the image found at a higher resolution (lines 1668 to 1730).\<close>

definition convertFound ::
  "Host \<Rightarrow> bool \<Rightarrow> bool \<Rightarrow> ImageKey \<Rightarrow> nat \<Rightarrow> RectI \<Rightarrow> RectD \<Rightarrow> ImagePtr \<Rightarrow> 's ImageStore_scheme \<Rightarrow>
   ImagePtr option \<times> 's ImageStore_scheme" where
  "convertFound h useCache useDiskCache key mipMapLevel bounds rod imageToConvert s =
     (let old = st_images s imageToConvert
      in if img_mipMapLevel old \<noteq> mipMapLevel then
           (let imgToConvertCanonical = toCanonical h (img_bounds old) (img_mipMapLevel old) (img_par old) rod;
                imgToConvertBounds = toPixelEnclosing h imgToConvertCanonical (img_mipMapLevel old) (img_par old);
                downscaledBounds0 = RectI_merge
                  (toPixelEnclosing h imgToConvertCanonical mipMapLevel (img_par old)) bounds;
                pixelRoD = toPixelEnclosing h rod mipMapLevel (img_par old);
                downscaledBounds = (case RectI_intersect downscaledBounds0 pixelRoD of
                                      Some r \<Rightarrow> r | None \<Rightarrow> downscaledBounds0);
                imageParams = makeParams key (img_cost old) rod downscaledBounds (img_par old) mipMapLevel
                  (img_isRodProjectFormat old) (img_components old) (img_bitDepth old) (img_framesNeeded old)
            in case getOrCreateFromCacheInternal h key imageParams useCache useDiskCache s of
                 (None, s1) \<Rightarrow> (None, s1)
               | (Some img, s1) \<Rightarrow>
                   (let s2 = s1\<lparr>st_images := (st_images s1)
                               (img := downscaleMipMap h rod imgToConvertBounds (img_mipMapLevel old)
                                         (img_mipMapLevel (st_images s1 img))
                                         (useCache \<and> img_usesBitMap old) old (st_images s1 img))\<rparr>
                    in (Some img, ensureBounds img bounds s2)))
         else (Some imageToConvert, s))"

text \<open>The entries the look-up chooses from (lines 1589 to 1606): the input images of the
  key when there are some, else the entries of the key in the cache. \<open>inputImages\<close> may
  hold null pointers.\<close>

definition cachedImagesOf ::
  "bool \<Rightarrow> ImageKey \<Rightarrow> ImagePtr option list \<Rightarrow> 's ImageStore_scheme \<Rightarrow> ImagePtr list" where
  "cachedImagesOf useDiskCache key inputImages s =
     (let fromInputs = filter (\<lambda>p. img_key (st_images s p) = key) (List.map_filter id inputImages)
      in if fromInputs \<noteq> [] then fromInputs
         else if \<not> useDiskCache then getImageFromCache key s
         else getImageFromDiskCache key s)"

text \<open>\<open>getImageFromCacheAndConvertIfNeeded\<close> (lines 1572 to 1749); \<open>*image\<close> is passed in and
  returned.\<close>

definition getImageFromCacheAndConvertIfNeeded ::
  "Host \<Rightarrow> bool \<Rightarrow> bool \<Rightarrow> ImageKey \<Rightarrow> nat \<Rightarrow> RectI \<Rightarrow> RectD \<Rightarrow> ImageBitDepthEnum \<Rightarrow> ImageComponents \<Rightarrow>
   ImageBitDepthEnum \<Rightarrow> ImageComponents \<Rightarrow> ImagePtr option list \<Rightarrow> ImagePtr option \<Rightarrow>
   's ImageStore_scheme \<Rightarrow> ImagePtr option \<times> 's ImageStore_scheme" where
  "getImageFromCacheAndConvertIfNeeded h useCache useDiskCache key mipMapLevel bounds rod bitdepth
       components nodePrefDepth nodePrefComps inputImages outImage s =
     (let cachedImages = cachedImagesOf useDiskCache key inputImages s
      in if cachedImages \<noteq> [] then
           (case cachedImagesLoop h mipMapLevel bitdepth components nodePrefDepth nodePrefComps
                   cachedImages outImage None s of
              (None, Some imageToConvert, s1) \<Rightarrow>
                convertFound h useCache useDiskCache key mipMapLevel bounds rod imageToConvert s1
            | (None, None, s1) \<Rightarrow> (None, s1)
            | (Some img, _, s1) \<Rightarrow> (Some img, ensureBounds img bounds s1))
         else (outImage, s))"


subsection \<open>What the look-up selects\<close>










section \<open>renderRoI\<close>

text \<open>\<open>RenderRoIArgs\<close>; the list of input images may hold null pointers.\<close>

record RenderRoIArgs =
  a_time :: int
  a_scale :: real
  a_mipMapLevel :: nat
  a_view :: int
  a_byPassCache :: bool
  a_roi :: RectI
  a_preComputedRoD :: RectD
  a_components :: "ImageComponents list"
  a_bitdepth :: ImageBitDepthEnum
  a_channelForAlpha :: int
  a_inputImagesList :: "ImagePtr option list"

text \<open>
  How a call of \<open>renderRoI\<close> ends: it returns a code, an exception leaves it, or it
  dereferences a null pointer. With that go the planes appended to \<open>*outputPlanes\<close> and
  the state. \<open>None\<close> is a call whose recursion does not end within its fuel.
\<close>

datatype RenderRoIResult = Returned RenderRoIRetCode | Thrown | NullDereference

type_synonym RenderRoIOutcome = "((RenderRoIResult \<times> ImagePtr list) \<times> State) option"

type_synonym RenderCall = "NodeId \<Rightarrow> RenderRoIArgs \<Rightarrow> ImagePtr list \<Rightarrow> State \<Rightarrow> RenderRoIOutcome"

text \<open>The locals of \<open>renderRoI\<close> that live across its sections.\<close>

record RoILocals =
  l_nodeHash :: U64
  l_par :: real
  l_rod :: RectD
  l_isProjectFormat :: bool
  l_supportsRS :: SupportsEnum
  l_renderFullScaleThenDownscale :: bool
  l_renderMappedMipMapLevel :: nat
  l_renderMappedScale :: real
  l_renderScaleOneUpstreamIfRenderScaleSupportDisabled :: bool
  l_byPassCache :: bool

text \<open>Lines 1994 to 2009: the frame arguments are set on the spot when the caller did not
  set them.\<close>

definition initFrameRenderArgs :: "Graph \<Rightarrow> NodeId \<Rightarrow> RenderRoIArgs \<Rightarrow> State \<Rightarrow> State" where
  "initFrameRenderArgs g n args s =
     (if pa_validArgs (st_frameRenderArgs s n) = 0 then
        s\<lparr>st_frameRenderArgs := (st_frameRenderArgs s)
             (n := (st_frameRenderArgs s n)
                \<lparr>pa_time := a_time args, pa_nodeHash := getHash (g n), pa_view := a_view args,
                 pa_isSequentialRender := False, pa_isRenderResponseToUserInteraction := True,
                 pa_rotoAge := (case getRotoAge (g n) of Some age \<Rightarrow> age | None \<Rightarrow> 0),
                 pa_validArgs := 1\<rparr>)\<rparr>
      else s)"

text \<open>Lines 2016 to 2053.\<close>

definition initLocals :: "Host \<Rightarrow> Graph \<Rightarrow> NodeId \<Rightarrow> RenderRoIArgs \<Rightarrow> State \<Rightarrow> RoILocals" where
  "initLocals h g n args s =
     (let supportsRS = st_supportsRenderScale s n;
          renderFullScaleThenDownscale = (supportsRS = eSupportsNo \<and> a_mipMapLevel args \<noteq> 0);
          renderMappedMipMapLevel = (if renderFullScaleThenDownscale then 0 else a_mipMapLevel args)
      in \<lparr>l_nodeHash = pa_nodeHash (st_frameRenderArgs s n),
          l_par = getPreferredAspectRatio (g n),
          l_rod = RectD_null,
          l_isProjectFormat = False,
          l_supportsRS = supportsRS,
          l_renderFullScaleThenDownscale = renderFullScaleThenDownscale,
          l_renderMappedMipMapLevel = renderMappedMipMapLevel,
          l_renderMappedScale = getScaleFromMipMapLevel h renderMappedMipMapLevel,
          l_renderScaleOneUpstreamIfRenderScaleSupportDisabled =
            (renderFullScaleThenDownscale \<and>
             (useScaleOneImagesWhenRenderScaleSupportIsDisabled (g n) \<or> \<not> supportsMultiResolution (g n))),
          l_byPassCache = a_byPassCache args\<rparr>)"

text \<open>Lines 2075 to 2083 and 2102 to 2110: \<open>supportsRenderScaleMaybe\<close> may have changed.\<close>

definition refreshSupportsRS :: "NodeId \<Rightarrow> RenderRoIArgs \<Rightarrow> State \<Rightarrow> RoILocals \<Rightarrow> RoILocals" where
  "refreshSupportsRS n args s l =
     (if l_supportsRS l = eSupportsMaybe \<and> l_renderMappedMipMapLevel l \<noteq> 0 then
        (let supportsRS = st_supportsRenderScale s n;
             renderFullScaleThenDownscale = (supportsRS = eSupportsNo \<and> a_mipMapLevel args \<noteq> 0);
             l' = l\<lparr>l_supportsRS := supportsRS, l_renderFullScaleThenDownscale := renderFullScaleThenDownscale\<rparr>
         in if renderFullScaleThenDownscale
            then l'\<lparr>l_renderMappedScale := 1, l_renderMappedMipMapLevel := 0\<rparr> else l')
      else l)"

text \<open>A \<open>double\<close> assigned to a \<open>SequenceTime\<close> is truncated.\<close>

definition double_to_int :: "real \<Rightarrow> int" where
  "double_to_int x = (if x \<ge> 0 then \<lfloor>x\<rfloor> else \<lceil>x\<rceil>)"

text \<open>\<open>isIdentity_public\<close> (lines 4418 to 4491): the verdict, \<open>*inputTime\<close> and
  \<open>*inputNb\<close>. An exception of the action of the plug-in leaves the function.\<close>

definition isIdentity_public ::
  "Host \<Rightarrow> Graph \<Rightarrow> NodeId \<Rightarrow> U64 \<Rightarrow> int \<Rightarrow> real \<Rightarrow> RectD \<Rightarrow> real \<Rightarrow> int \<Rightarrow> State \<Rightarrow>
   (bool \<times> int \<times> int) ActionResult \<times> State" where
  "isIdentity_public h g n hash t scale rod par v s =
     (let mipMapLevel = getLevelFromScale h scale
      in case getIdentityResult (st_actionsCache s n) hash (of_int t) v mipMapLevel of
           Some r \<Rightarrow>
             (Returns (inputIdentityNb r \<ge> 0 \<or> inputIdentityNb r = - 2,
                       double_to_int (inputIdentityTime r), inputIdentityNb r), s)
         | None \<Rightarrow>
             if isRenderThread h \<and> ra_validArgs (st_renderArgs s n)
             then (Returns (ra_identityInputNb (st_renderArgs s n) \<noteq> - 1,
                            ra_identityTime (st_renderArgs s n), ra_identityInputNb (st_renderArgs s n)), s)
             else
               (case (if isBackground h \<and> isDiskCacheNode (g n)
                      then Returns (True, t, 0, st_supportsRenderScale s n)
                      else if isNodeDisabled (g n)
                      then Returns (True, t, getPreferredInput (g n), st_supportsRenderScale s n)
                      else if \<not> onlySequential (g n)
                      then isIdentityAction (g n) t scale rod par v (st_supportsRenderScale s n)
                      else Returns (False, t, - 1, st_supportsRenderScale s n)) of
                  Throws \<Rightarrow> (Throws, s)
                | Returns (ret, inputTime, inputNb, rs) \<Rightarrow>
                    (let inputNb' = (if \<not> ret then - 1 else inputNb);
                         inputTime' = (if \<not> ret then t else inputTime)
                     in (Returns (ret, inputTime', inputNb'),
                         updActionsCache n
                           (setIdentityResult (of_int t) v mipMapLevel inputNb' (of_int inputTime'))
                           (s\<lparr>st_supportsRenderScale := (st_supportsRenderScale s)(n := rs)\<rparr>)))))"

text \<open>\<open>getFrameRange_public\<close> (lines 4616 to 4647), called without \<open>bypasscache\<close>. The
  rounding of the two cached \<open>double\<close>s to frame numbers is a parameter.\<close>

definition getFrameRange_public :: "Host \<Rightarrow> Graph \<Rightarrow> NodeId \<Rightarrow> U64 \<Rightarrow> State \<Rightarrow> (int \<times> int) \<times> State" where
  "getFrameRange_public h g n hash s =
     (case getTimeDomainResult (st_actionsCache s n) hash of
        Some (fFirst, fLast) \<Rightarrow> ((floorToSequenceTime h fFirst, floorToSequenceTime h fLast), s)
      | None \<Rightarrow>
          if isRenderThread h \<and> ra_validArgs (st_renderArgs s n)
          then ((ra_firstFrame (st_renderArgs s n), ra_lastFrame (st_renderArgs s n)), s)
          else (getFrameRange (g n),
                updActionsCache n (setTimeDomainResult (of_int (fst (getFrameRange (g n))))
                                                       (of_int (snd (getFrameRange (g n))))) s))"


subsection \<open>The region of definition and the identity check\<close>

text \<open>A section of \<open>renderRoI\<close> either returns from the function (\<open>Inl\<close>, with what the
  call ends with) or goes on (\<open>Inr\<close>).\<close>

text \<open>Lines 2060 to 2084.\<close>

definition getRoDSection ::
  "RoDCall \<Rightarrow> NodeId \<Rightarrow> RenderRoIArgs \<Rightarrow> RoILocals \<Rightarrow> ImagePtr list \<Rightarrow> State \<Rightarrow>
   (((RenderRoIResult \<times> ImagePtr list) + RoILocals) \<times> State) option" where
  "getRoDSection rodPub n args l outputPlanes s =
     (if \<not> RectD_isNull (a_preComputedRoD args) then Some (Inr (l\<lparr>l_rod := a_preComputedRoD args\<rparr>), s)
      else
        case rodPub n (l_nodeHash l) (a_time args) (l_renderMappedScale l) (a_view args) (l_rod l) s of
          None \<Rightarrow> None
        | Some ((stat, rod, isProjectFormat), s') \<Rightarrow>
            if stat = eStatusFailed then Some (Inl (Returned eRenderRoIRetCodeOk, outputPlanes), s')
            else if RectD_isNull rod then Some (Inl (Returned eRenderRoIRetCodeOk, outputPlanes), s')
            else Some (Inr (refreshSupportsRS n args s'
                              (l\<lparr>l_rod := rod,
                                 l_isProjectFormat := (case isProjectFormat of Some b \<Rightarrow> b
                                                       | None \<Rightarrow> l_isProjectFormat l)\<rparr>)), s'))"

text \<open>The constructor and the destructor of \<open>ScopedRenderArgs\<close> (lines 527 to 584).\<close>

definition ScopedRenderArgs_enter ::
  "NodeId \<Rightarrow> (NodeId option \<times> RectD) list \<Rightarrow> RectD \<Rightarrow> RectI \<Rightarrow> int \<Rightarrow> int \<Rightarrow> int \<Rightarrow> bool \<Rightarrow> int \<Rightarrow> int \<Rightarrow>
   (ImageComponents \<times> PlaneToRender) list \<Rightarrow> int \<Rightarrow> int \<Rightarrow> State \<Rightarrow> State" where
  "ScopedRenderArgs_enter n roiMap rod renderWindow t v channelForAlpha isIdentity identityTime
       inputNbIdentity outputPlanes firstFrame lastFrame s =
     s\<lparr>st_renderArgs := (st_renderArgs s)
          (n := \<lparr>ra_rod = rod, ra_regionOfInterestResults = roiMap, ra_renderWindowPixel = renderWindow,
                 ra_time = t, ra_view = v, ra_validArgs = True, ra_channelForAlpha = channelForAlpha,
                 ra_isIdentity = isIdentity, ra_identityTime = identityTime,
                 ra_identityInputNb = inputNbIdentity, ra_outputPlanes = outputPlanes,
                 ra_firstFrame = firstFrame, ra_lastFrame = lastFrame\<rparr>)\<rparr>"

definition ScopedRenderArgs_leave :: "NodeId \<Rightarrow> State \<Rightarrow> State" where
  "ScopedRenderArgs_leave n s =
     s\<lparr>st_renderArgs := (st_renderArgs s)
          (n := (st_renderArgs s n)\<lparr>ra_outputPlanes := [], ra_validArgs := False\<rparr>)\<rparr>"

text \<open>The state in which the identity section calls \<open>renderRoI\<close> on the input: the frame
  range has been asked for and the scoped arguments are set (lines 2129 to 2151).\<close>

definition identityScopedState ::
  "Host \<Rightarrow> Graph \<Rightarrow> NodeId \<Rightarrow> RenderRoIArgs \<Rightarrow> RoILocals \<Rightarrow> int \<Rightarrow> int \<Rightarrow> State \<Rightarrow> State" where
  "identityScopedState h g n args l inputTimeIdentity inputNbIdentity s =
     (let ((firstFrame, lastFrame), s1) = getFrameRange_public h g n (l_nodeHash l) s;
          canonicalRoI = toCanonical_noClipping h (a_roi args) (a_mipMapLevel args) (l_par l);
          inputsRoI = [(getInput (g n) inputNbIdentity, canonicalRoI)]
      in ScopedRenderArgs_enter n inputsRoI (l_rod l) (a_roi args) (a_time args) (a_view args)
           (a_channelForAlpha args) True inputTimeIdentity inputNbIdentity [] firstFrame lastFrame s1)"

text \<open>Lines 2090 to 2166. The call of the node on itself is given a copy of the arguments
  with the time of the identity and the precomputed region of definition cleared (lines
  2121 to 2125); the call on the input is given a copy with the time of the identity
  (lines 2156 to 2159). The scoped arguments are left when the call on the input is over,
  however it ends.\<close>

definition identitySection ::
  "Host \<Rightarrow> Graph \<Rightarrow> RenderCall \<Rightarrow> NodeId \<Rightarrow> RenderRoIArgs \<Rightarrow> RoILocals \<Rightarrow> ImagePtr list \<Rightarrow> State \<Rightarrow>
   (((RenderRoIResult \<times> ImagePtr list) + RoILocals) \<times> State) option" where
  "identitySection h g rec n args l outputPlanes s =
     (case isIdentity_public h g n (l_nodeHash l) (a_time args) (l_renderMappedScale l) (l_rod l)
             (l_par l) (a_view args) s of
        (Throws, s') \<Rightarrow> Some (Inl (Returned eRenderRoIRetCodeFailed, outputPlanes), s')
      | (Returns (identity, inputTimeIdentity, inputNbIdentity), s') \<Rightarrow>
          (let l' = refreshSupportsRS n args s' l
           in if identity then
                (if inputNbIdentity = - 1
                 then Some (Inl (Returned eRenderRoIRetCodeFailed, outputPlanes), s')
                 else if inputNbIdentity = - 2 \<and> inputTimeIdentity \<noteq> a_time args
                 then (case rec n (args\<lparr>a_time := inputTimeIdentity, a_preComputedRoD := RectD_null\<rparr>)
                              outputPlanes s' of
                         None \<Rightarrow> None
                       | Some (r, s'') \<Rightarrow> Some (Inl r, s''))
                 else
                   (let s1 = identityScopedState h g n args l' inputTimeIdentity inputNbIdentity s'
                    in case getInput (g n) inputNbIdentity of
                         Some inputEffectIdentity \<Rightarrow>
                           (case rec inputEffectIdentity (args\<lparr>a_time := inputTimeIdentity\<rparr>)
                                   outputPlanes s1 of
                              None \<Rightarrow> None
                            | Some (r, s2) \<Rightarrow> Some (Inl r, ScopedRenderArgs_leave n s2))
                       | None \<Rightarrow>
                           Some (Inl (Returned eRenderRoIRetCodeFailed, outputPlanes),
                                 ScopedRenderArgs_leave n s1)))
              else Some (Inr l', s')))"


subsection \<open>Pass-through of planes\<close>

text \<open>The search of a requested plane among the available ones (lines 2191 to 2203).\<close>

fun findAvailable ::
  "Host \<Rightarrow> Effect \<Rightarrow> ImageComponents \<Rightarrow> (ImageComponents \<times> NodeId option) list \<Rightarrow>
   (ImageComponents \<times> NodeId option) option" where
  "findAvailable h e c [] = None"
| "findAvailable h e c (it2 # rest) =
     (if fst it2 = c then Some it2
      else if isColorPlane h c \<and> isColorPlane h (fst it2) \<and> isSupportedComponent e (- 1) (fst it2)
      then Some it2
      else findAvailable h e c rest)"

text \<open>The loop over the requested planes (lines 2185 to 2215), carrying
  \<open>requestedComponents\<close> and \<open>componentsToFetchUpstream\<close>. A plane that is not available
  anywhere is dropped.\<close>

fun splitRequested ::
  "Host \<Rightarrow> Effect \<Rightarrow> NodeId \<Rightarrow> (ImageComponents \<times> NodeId option) list \<Rightarrow> ImageComponents list \<Rightarrow>
   ImageComponents list \<Rightarrow> (ImageComponents \<times> NodeId option) list \<Rightarrow>
   ImageComponents list \<times> (ImageComponents \<times> NodeId option) list" where
  "splitRequested h e n componentsAvailables [] requestedComponents componentsToFetchUpstream =
     (requestedComponents, componentsToFetchUpstream)"
| "splitRequested h e n componentsAvailables (it # rest) requestedComponents componentsToFetchUpstream =
     (case findAvailable h e it componentsAvailables of
        None \<Rightarrow> splitRequested h e n componentsAvailables rest requestedComponents componentsToFetchUpstream
      | Some found \<Rightarrow>
          if snd found = Some n
          then splitRequested h e n componentsAvailables rest (requestedComponents @ [it])
                 componentsToFetchUpstream
          else splitRequested h e n componentsAvailables rest requestedComponents
                 (std_map_insert (ImageComponents_less h) it (snd found) componentsToFetchUpstream))"

text \<open>The loop that renders upstream the planes this node does not produce (lines 2218
  to 2232). A call upstream that ends otherwise than by returning ends this call the same
  way.\<close>

fun fetchUpstream ::
  "RenderCall \<Rightarrow> RenderRoIArgs \<Rightarrow> (ImageComponents \<times> NodeId option) list \<Rightarrow> ImagePtr list \<Rightarrow> State \<Rightarrow>
   (((RenderRoIResult \<times> ImagePtr list) + ImagePtr list) \<times> State) option" where
  "fetchUpstream rec args [] outputPlanes s = Some (Inr outputPlanes, s)"
| "fetchUpstream rec args ((c, None) # rest) outputPlanes s = fetchUpstream rec args rest outputPlanes s"
| "fetchUpstream rec args ((c, Some node) # rest) outputPlanes s =
     (case rec node (args\<lparr>a_components := [c]\<rparr>) [] s of
        None \<Rightarrow> None
      | Some ((Returned inputRetCode, inputPlanes), s') \<Rightarrow>
          if inputRetCode = eRenderRoIRetCodeAborted \<or> inputRetCode = eRenderRoIRetCodeFailed \<or>
             inputPlanes = []
          then Some (Inl (Returned inputRetCode, outputPlanes), s')
          else fetchUpstream rec args rest (outputPlanes @ [hd inputPlanes]) s'
      | Some ((other, inputPlanes), s') \<Rightarrow> Some (Inl (other, outputPlanes), s'))"

text \<open>Lines 2172 to 2237: what is left to render on this node, or the end of the call.\<close>

definition passThroughSection ::
  "Host \<Rightarrow> Graph \<Rightarrow> RenderCall \<Rightarrow> NodeId \<Rightarrow> RenderRoIArgs \<Rightarrow> ImagePtr list \<Rightarrow> State \<Rightarrow>
   (((RenderRoIResult \<times> ImagePtr list) + (ImageComponents list \<times> ImagePtr list)) \<times> State) option" where
  "passThroughSection h g rec n args outputPlanes s =
     (let componentsAvailables = getComponentsAvailable (g n) (a_time args);
          (requestedComponents, componentsToFetchUpstream) =
             splitRequested h (g n) n componentsAvailables (a_components args) [] []
      in case fetchUpstream rec args componentsToFetchUpstream outputPlanes s of
           None \<Rightarrow> None
         | Some (Inl r, s') \<Rightarrow> Some (Inl r, s')
         | Some (Inr outputPlanes', s') \<Rightarrow>
             if requestedComponents = []
             then Some (Inl (Returned eRenderRoIRetCodeFailed, outputPlanes'), s')
             else Some (Inr (requestedComponents, outputPlanes'), s'))"

subsection \<open>The region of interest\<close>

text \<open>The locals added from line 2266 on.\<close>

record RoIRender = RoILocals +
  r_roi :: RectI
  r_useImageAsOutput :: bool
  r_downscaledImageBounds :: RectI
  r_upscaledImageBounds :: RectI

text \<open>Lines 2266 to 2320, compiled without \<open>NATRON_ALWAYS_ALLOCATE_FULL_IMAGE_BOUNDS\<close>.
  \<open>None\<close>: the region of interest does not meet the bounds of the image and the call
  returns.\<close>

definition roiSection :: "Host \<Rightarrow> Graph \<Rightarrow> NodeId \<Rightarrow> RenderRoIArgs \<Rightarrow> RoILocals \<Rightarrow> RoIRender option" where
  "roiSection h g n args l =
     (let useImageAsOutput = (l_renderFullScaleThenDownscale l \<and>
                              l_renderScaleOneUpstreamIfRenderScaleSupportDisabled l);
          roi0 = (if useImageAsOutput
                  then toPixelEnclosing h (toCanonical h (a_roi args) (a_mipMapLevel args) (l_par l) (l_rod l))
                         0 (l_par l)
                  else a_roi args);
          downscaledImageBounds = toPixelEnclosing h (l_rod l) (a_mipMapLevel args) (l_par l);
          upscaledImageBounds = toPixelEnclosing h (l_rod l) 0 (l_par l)
      in if supportsTiles (g n) then
           (case RectI_intersect roi0 (if useImageAsOutput then upscaledImageBounds else downscaledImageBounds) of
              None \<Rightarrow> None
            | Some roi \<Rightarrow>
                Some (RoILocals.extend l
                  \<lparr>r_roi = roi, r_useImageAsOutput = useImageAsOutput,
                   r_downscaledImageBounds = (case RectI_intersect downscaledImageBounds (a_roi args) of
                                                Some b \<Rightarrow> b | None \<Rightarrow> downscaledImageBounds),
                   r_upscaledImageBounds = (case RectI_intersect upscaledImageBounds roi of
                                              Some b \<Rightarrow> b | None \<Rightarrow> upscaledImageBounds)\<rparr>))
         else
           Some (RoILocals.extend l
             \<lparr>r_roi = (if useImageAsOutput then upscaledImageBounds else downscaledImageBounds),
              r_useImageAsOutput = useImageAsOutput,
              r_downscaledImageBounds = downscaledImageBounds,
              r_upscaledImageBounds = upscaledImageBounds\<rparr>))"


subsection \<open>The cache look-up of renderRoI\<close>

text \<open>Modelled from the spec: eviction by hash (\<open>removeAllImagesFromCacheWithMatchingKey\<close>,
  \<open>removeFromNodeCache(key.getHash())\<close>) is not under \<open>src/\<close>; it removes every entry of
  the node hash, respectively of the key.\<close>

definition removeFromDiskCache_hash :: "U64 \<Rightarrow> 's ImageStore_scheme \<Rightarrow> 's ImageStore_scheme" where
  "removeFromDiskCache_hash hash s =
     s\<lparr>st_diskCache := filter (\<lambda>p. key_nodeHash (img_key (st_images s p)) \<noteq> hash) (st_diskCache s)\<rparr>"

definition removeFromNodeCache_key :: "ImageKey \<Rightarrow> 's ImageStore_scheme \<Rightarrow> 's ImageStore_scheme" where
  "removeFromNodeCache_key key s =
     s\<lparr>st_nodeCache := filter (\<lambda>p. img_key (st_images s p) \<noteq> key) (st_nodeCache s)\<rparr>"

text \<open>Lines 2337 to 2362.\<close>

definition evictLastRendered :: "NodeId \<Rightarrow> U64 \<Rightarrow> bool \<Rightarrow> State \<Rightarrow> State" where
  "evictLastRendered n nodeHash useDiskCacheNode s =
     (if st_lastPlanesRendered s n \<noteq> [] \<and> st_lastRenderHash s n \<noteq> nodeHash then
        (let s' = (if \<not> useDiskCacheNode then removeFromNodeCache_hash (st_lastRenderHash s n) s
                   else removeFromDiskCache_hash (st_lastRenderHash s n) s)
         in s'\<lparr>st_lastPlanesRendered := (st_lastPlanesRendered s')(n := [])\<rparr>)
      else s)"

definition PlaneToRender_new :: PlaneToRender where
  "PlaneToRender_new =
     \<lparr>fullscaleImage = None, downscaleImage = None, renderMappedImage = None, tmpImage = None,
      originalCachedImage = None, isAllocatedOnTheFly = False\<rparr>"

text \<open>The locals of the loop over the requested planes.\<close>

record CacheLookup =
  cl_byPassCache :: bool
  cl_attemptToLookupCache :: bool
  cl_rod :: RectD
  cl_framesNeeded :: FramesNeededMap
  cl_planes :: "(ImageComponents \<times> PlaneToRender) list"

text \<open>Lines 2440 to 2447: the planes found so far are dropped.\<close>

fun clearPreviousPlanes ::
  "(ImageComponents \<times> PlaneToRender) list \<Rightarrow> State \<Rightarrow> (ImageComponents \<times> PlaneToRender) list \<times> State" where
  "clearPreviousPlanes [] s = ([], s)"
| "clearPreviousPlanes ((c, plane) # rest) s =
     (let s' = (case fullscaleImage plane of Some p \<Rightarrow> removeFromNodeCache p s | None \<Rightarrow> s);
          (rest', s'') = clearPreviousPlanes rest s'
      in ((c, plane\<lparr>fullscaleImage := None, downscaleImage := None\<rparr>) # rest', s''))"

text \<open>The loop over \<open>requestedComponents\<close> (lines 2382 to 2454). \<open>None\<close>: no colour plane
  among the preferred components of the node, whose address is then dereferenced.\<close>

fun lookupPlanes ::
  "Host \<Rightarrow> Graph \<Rightarrow> NodeId \<Rightarrow> RenderRoIArgs \<Rightarrow> RoIRender \<Rightarrow> ImageKey \<Rightarrow> ImageComponents list \<Rightarrow>
   ImageBitDepthEnum \<Rightarrow> ImageComponents list \<Rightarrow> CacheLookup \<Rightarrow> State \<Rightarrow> CacheLookup option \<times> State" where
  "lookupPlanes h g n args r key outputComponents outputDepth [] cl s = (Some cl, s)"
| "lookupPlanes h g n args r key outputComponents outputDepth (it # rest) cl s =
     (case (if \<not> isColorPlane h it then Some it else find (isColorPlane h) outputComponents) of
        None \<Rightarrow> (None, s)
      | Some components \<Rightarrow>
          (let (found, s1) = getImageFromCacheAndConvertIfNeeded h (shouldCacheOutput (g n))
                               (isDiskCacheNode (g n)) key (l_renderMappedMipMapLevel r)
                               (if r_useImageAsOutput r then r_upscaledImageBounds r
                                else r_downscaledImageBounds r)
                               (cl_rod cl) (a_bitdepth args) it outputDepth components
                               (a_inputImagesList args) None s;
               (found2, s2) = (if cl_byPassCache cl \<and> found \<noteq> None
                               then (None, removeFromNodeCache_key key s1) else (found, s1));
               byPassCache' = (if cl_byPassCache cl \<and> isWriter (g n) then False else cl_byPassCache cl);
               (found3, cl3, s3) =
                 (case found2 of
                    Some p \<Rightarrow>
                      if \<not> cl_attemptToLookupCache cl then (None, cl, removeFromNodeCache p s2)
                      else (Some p,
                            cl\<lparr>cl_rod := (if \<not> supportsTiles (g n) then img_rod (st_images s2 p) else cl_rod cl),
                               cl_framesNeeded := img_framesNeeded (st_images s2 p)\<rparr>, s2)
                  | None \<Rightarrow>
                      if cl_attemptToLookupCache cl then
                        (let (planes', s') = clearPreviousPlanes (cl_planes cl) s2
                         in (None, cl\<lparr>cl_attemptToLookupCache := False, cl_planes := planes'\<rparr>, s'))
                      else (None, cl, s2));
               plane = PlaneToRender_new\<lparr>fullscaleImage := found3, downscaleImage := found3\<rparr>
           in lookupPlanes h g n args r key outputComponents outputDepth rest
                (cl3\<lparr>cl_byPassCache := byPassCache',
                     cl_planes := std_map_insert (ImageComponents_less h) it plane (cl_planes cl3)\<rparr>) s3))"

text \<open>What the rest of \<open>renderRoI\<close> (from line 2485 on: the planning of the rectangles,
  the render of the inputs, the allocation of the planes, the render itself and the
  conversions) starts from.\<close>

record RoIRest = RoIRender +
  x_key :: ImageKey
  x_outputDepth :: ImageBitDepthEnum
  x_outputComponents :: "ImageComponents list"
  x_requestedComponents :: "ImageComponents list"
  x_framesNeeded :: FramesNeededMap
  x_planes :: "(ImageComponents \<times> PlaneToRender) list"
  x_isPlaneCached :: "ImagePtr option"

type_synonym RestOfRenderRoI =
  "RenderCall \<Rightarrow> NodeId \<Rightarrow> RenderRoIArgs \<Rightarrow> RoIRest \<Rightarrow> ImagePtr list \<Rightarrow> State \<Rightarrow> RenderRoIOutcome"

text \<open>Lines 2330 to 2483: the key, the eviction of the planes rendered last, the look-up
  of every plane and the test of an empty region of interest.\<close>

definition lookupSection ::
  "Host \<Rightarrow> Graph \<Rightarrow> NodeId \<Rightarrow> RenderRoIArgs \<Rightarrow> RoIRender \<Rightarrow> ImageComponents list \<Rightarrow> ImagePtr list \<Rightarrow> State \<Rightarrow>
   ((RenderRoIResult \<times> ImagePtr list) + RoIRest) \<times> State" where
  "lookupSection h g n args r requestedComponents outputPlanes s =
     (let key = \<lparr>key_nodeHash = l_nodeHash r,
                 key_frameVaryingOrAnimated = isFrameVaryingOrAnimated_Recursive (g n),
                 key_time = a_time args, key_view = a_view args\<rparr>;
          s0 = evictLastRendered n (l_nodeHash r) (isDiskCacheNode (g n)) s;
          (outputComponents, outputDepth) = getPreferredDepthAndComponents (g n)
      in case lookupPlanes h g n args r key outputComponents outputDepth requestedComponents
                \<lparr>cl_byPassCache = l_byPassCache r, cl_attemptToLookupCache = True, cl_rod = l_rod r,
                 cl_framesNeeded = [], cl_planes = []\<rparr> s0 of
           (None, s1) \<Rightarrow> (Inl (NullDereference, outputPlanes), s1)
         | (Some cl, s1) \<Rightarrow>
             (let framesNeeded = (if cl_framesNeeded cl = [] then getFramesNeeded (g n) (a_time args) (a_view args)
                                  else cl_framesNeeded cl);
                  isPlaneCached = (case cl_planes cl of [] \<Rightarrow> None | (c, plane) # _ \<Rightarrow> fullscaleImage plane)
              in if isPlaneCached = None \<and> RectI_isNull (a_roi args)
                 then (Inl (Returned eRenderRoIRetCodeFailed, outputPlanes), s1)
                 else (Inr (RoIRender.extend (r\<lparr>l_rod := cl_rod cl, l_byPassCache := cl_byPassCache cl\<rparr>)
                         \<lparr>x_key = key, x_outputDepth = outputDepth, x_outputComponents = outputComponents,
                          x_requestedComponents = requestedComponents, x_framesNeeded = framesNeeded,
                          x_planes = cl_planes cl, x_isPlaneCached = isPlaneCached\<rparr>), s1)))"


subsection \<open>renderRoI as a whole\<close>

text \<open>
  \<open>renderRoI\<close> (lines 1986 to 2886), built without assertions (\<open>NDEBUG\<close>). The body takes
  the recursive call (\<open>rec\<close>), the call of \<open>getRegionOfDefinition_public\<close> (\<open>rodPub\<close>) and
  the rest of the function from line 2485 on (\<open>rest\<close>) as parameters. The concatenation of
  transforms (lines 2246 to 2255) reads the transforms upstream and reroutes the inputs
  for the render of the inputs; nothing before line 2485 depends on it and it is part of
  \<open>rest\<close>.
\<close>

definition renderRoI_body :: "Host \<Rightarrow> Graph \<Rightarrow> RestOfRenderRoI \<Rightarrow> RoDCall \<Rightarrow> RenderCall \<Rightarrow> RenderCall" where
  "renderRoI_body h g rest rodPub rec n args outputPlanes s =
     (if a_components args = [] then Some ((Returned eRenderRoIRetCodeFailed, outputPlanes), s)
      else
        let s0 = initFrameRenderArgs g n args s;
            l0 = initLocals h g n args s0
        in case getRoDSection rodPub n args l0 outputPlanes s0 of
             None \<Rightarrow> None
           | Some (Inl r, s1) \<Rightarrow> Some (r, s1)
           | Some (Inr l1, s1) \<Rightarrow>
               (case identitySection h g rec n args l1 outputPlanes s1 of
                  None \<Rightarrow> None
                | Some (Inl r, s2) \<Rightarrow> Some (r, s2)
                | Some (Inr l2, s2) \<Rightarrow>
                    (case passThroughSection h g rec n args outputPlanes s2 of
                       None \<Rightarrow> None
                     | Some (Inl r, s3) \<Rightarrow> Some (r, s3)
                     | Some (Inr (requestedComponents, outputPlanes'), s3) \<Rightarrow>
                         (case roiSection h g n args l2 of
                            None \<Rightarrow> Some ((Returned eRenderRoIRetCodeOk, outputPlanes'), s3)
                          | Some r \<Rightarrow>
                              (case lookupSection h g n args r requestedComponents outputPlanes' s3 of
                                 (Inl res, s4) \<Rightarrow> Some (res, s4)
                               | (Inr x, s4) \<Rightarrow> rest rec n args x outputPlanes' s4)))))"

primrec renderRoI :: "nat \<Rightarrow> Host \<Rightarrow> Graph \<Rightarrow> RestOfRenderRoI \<Rightarrow> RenderCall" where
  "renderRoI 0 h g rest = (\<lambda>n args outputPlanes s. None)"
| "renderRoI (Suc fuel) h g rest =
     renderRoI_body h g rest (getRegionOfDefinition_public (Suc fuel) h g) (renderRoI fuel h g rest)"

text \<open>The state and the locals with which \<open>renderRoI\<close> reaches line 2060.\<close>

definition stateAtRoD :: "Graph \<Rightarrow> NodeId \<Rightarrow> RenderRoIArgs \<Rightarrow> State \<Rightarrow> State" where
  "stateAtRoD g n args s = initFrameRenderArgs g n args s"

definition localsAtRoD :: "Host \<Rightarrow> Graph \<Rightarrow> NodeId \<Rightarrow> RenderRoIArgs \<Rightarrow> State \<Rightarrow> RoILocals" where
  "localsAtRoD h g n args s = initLocals h g n args (initFrameRenderArgs g n args s)"

subsection \<open>States that keep the images, and fixtures\<close>

text \<open>Two states have the same images and render calls: the images, the entries of the two
  caches and the calls of the render actions are the same.\<close>

definition sameStore :: "State \<Rightarrow> State \<Rightarrow> bool" where
  "sameStore s s' =
     (st_images s' = st_images s \<and> st_nextImage s' = st_nextImage s \<and>
      st_nodeCache s' = st_nodeCache s \<and> st_diskCache s' = st_diskCache s \<and>
      st_renderCalls s' = st_renderCalls s)"

text \<open>A call of \<open>getRegionOfDefinition_public\<close> that keeps the images and render calls.\<close>

definition rodCallKeepsStore :: "RoDCall \<Rightarrow> bool" where
  "rodCallKeepsStore rodPub =
     (\<forall>n hash t scale v rod s r s'. rodPub n hash t scale v rod s = Some (r, s') \<longrightarrow> sameStore s s')"

definition testArgs :: RenderRoIArgs where
  "testArgs =
     \<lparr>a_time = 5, a_scale = 1, a_mipMapLevel = 0, a_view = 0, a_byPassCache = False,
      a_roi = \<lparr>ix1 = 0, iy1 = 0, ix2 = 10, iy2 = 10\<rparr>, a_preComputedRoD = RectD_null,
      a_components = [RGBA], a_bitdepth = eImageBitDepthFloat, a_channelForAlpha = 3,
      a_inputImagesList = []\<rparr>"

text \<open>A rest of \<open>renderRoI\<close> for runs that do not reach it.\<close>

definition noRest :: RestOfRenderRoI where
  "noRest = (\<lambda>rec n args x outputPlanes s. None)"

text \<open>A graph whose node 0 has no region of definition.\<close>

definition failGraph :: Graph where
  "failGraph = (\<lambda>n. testEffect\<lparr>regionOfDefinitionAction :=
                                   Some (\<lambda>hash t scale v rs. (eStatusFailed, RectD_null, rs))\<rparr>)"

definition failState :: State where
  "failState =
     updActionsCache 0 (setRoDResult 5 0 0 RectD_null)
       (updActionsCache 0 (invalidateAll 7) (initFrameRenderArgs failGraph 0 testArgs testState))"

subsection \<open>renderRoI without a region of definition\<close>

lemma sameStore_refl [simp]: "sameStore s s"
  by (simp add: sameStore_def)

lemma sameStore_trans: "sameStore s s' \<Longrightarrow> sameStore s' s'' \<Longrightarrow> sameStore s s''"
  by (simp add: sameStore_def)

lemma sameStore_updActionsCache [simp]: "sameStore s (updActionsCache n f s') = sameStore s s'"
  by (simp add: sameStore_def updActionsCache_def)

lemma sameStore_supports [simp]:
  "sameStore s (s'\<lparr>st_supportsRenderScale := x\<rparr>) = sameStore s s'"
  by (simp add: sameStore_def)

lemma sameStore_renderArgs [simp]:
  "sameStore s (s'\<lparr>st_renderArgs := x\<rparr>) = sameStore s s'"
  by (simp add: sameStore_def)

lemma sameStore_frameRenderArgs [simp]:
  "sameStore s (s'\<lparr>st_frameRenderArgs := x\<rparr>) = sameStore s s'"
  by (simp add: sameStore_def)

lemma inputsUnionLoop_keeps:
  "rodCallKeepsStore rodPub \<Longrightarrow>
   inputsUnionLoop rodPub hash t scale v ins first U s = Some (U', s') \<Longrightarrow> sameStore s s'"
proof (induction ins arbitrary: first U s)
  case Nil
  then show ?case by simp
next
  case (Cons i ins)
  show ?case
  proof (cases i)
    case None
    with Cons show ?thesis by simp
  next
    case (Some inp)
    let ?sc = "if st_supportsRenderScale s inp = eSupportsNo then 1 else scale"
    from Cons.prems(2) Some obtain st inputRod ipf s1
      where call: "rodPub inp hash t ?sc v RectD_null s = Some ((st, inputRod, ipf), s1)"
      by (auto simp: Let_def split: option.splits)
    from Cons.prems(1) call have k: "sameStore s s1"
      unfolding rodCallKeepsStore_def by blast
    from Cons.prems(2) Some call
    obtain first' U1 where "inputsUnionLoop rodPub hash t scale v ins first' U1 s1 = Some (U', s')"
      by (auto simp: Let_def split: if_splits)
    from Cons.IH [OF Cons.prems(1) this] k show ?thesis by (rule sameStore_trans [rotated])
  qed
qed

lemma getRegionOfDefinition_inputs_keeps:
  "rodCallKeepsStore rodPub \<Longrightarrow>
   getRegionOfDefinition_inputs rodPub hash t scale v ins first rod s = Some (r, s') \<Longrightarrow> sameStore s s'"
proof (induction ins arbitrary: first rod s)
  case Nil
  then show ?case by simp
next
  case (Cons i ins)
  show ?case
  proof (cases i)
    case None
    with Cons show ?thesis by simp
  next
    case (Some inp)
    from Cons.prems(2) Some obtain st inputRod ipf s1
      where call: "rodPub inp hash t scale v RectD_null s = Some ((st, inputRod, ipf), s1)"
      by (auto split: option.splits)
    from Cons.prems(1) call have k: "sameStore s s1"
      unfolding rodCallKeepsStore_def by blast
    show ?thesis
    proof (cases "st = eStatusFailed")
      case True
      with Cons.prems(2) Some call k show ?thesis by simp
    next
      case False
      with Cons.prems(2) Some call
      obtain first' rod1 where "getRegionOfDefinition_inputs rodPub hash t scale v ins first' rod1 s1 = Some (r, s')"
        by (auto split: if_splits)
      from Cons.IH [OF Cons.prems(1) this] k show ?thesis by (rule sameStore_trans [rotated])
    qed
  qed
qed

lemma getRegionOfDefinition_keeps:
  "rodCallKeepsStore rodPub \<Longrightarrow>
   getRegionOfDefinition g rodPub n hash t scale v rod s = Some (r, s') \<Longrightarrow> sameStore s s'"
  by (auto simp: getRegionOfDefinition_def Let_def getRegionOfDefinition_inputs_keeps
      split: option.splits prod.splits)

lemma ifInfiniteApplyHeuristic_keeps:
  "rodCallKeepsStore rodPub \<Longrightarrow>
   ifInfiniteApplyHeuristic h g rodPub n hash t scale v rod s = Some (r, s') \<Longrightarrow> sameStore s s'"
  by (auto simp: ifInfiniteApplyHeuristic_def inputsUnionOf_def Let_def inputsUnionLoop_keeps
      split: option.splits prod.splits if_splits)

lemma getRegionOfDefinition_public_body_keeps:
  assumes k: "rodCallKeepsStore rodPub"
  shows "rodCallKeepsStore (getRegionOfDefinition_public_body h g rodPub)"
  unfolding rodCallKeepsStore_def
proof (intro allI impI)
  fix n hash t scale v rod s r s'
  assume run: "getRegionOfDefinition_public_body h g rodPub n hash t scale v rod s = Some (r, s')"
  show "sameStore s s'"
  proof (cases "\<not> isEffectCreated (g n) \<or>
                getRoDResult (st_actionsCache s n) hash (of_int t) v (getLevelFromScale h scale) \<noteq> None \<or>
                (isRenderThread h \<and> ra_validArgs (st_renderArgs s n))")
    case True
    with run show ?thesis
      by (auto simp: getRegionOfDefinition_public_body_def Let_def split: option.splits if_splits)
  next
    case False
    let ?sc = "if st_supportsRenderScale s n = eSupportsNo then 1 else scale"
    from False run obtain ret rod1 s1
      where a: "getRegionOfDefinition g rodPub n hash t ?sc v rod s = Some ((ret, rod1), s1)"
      by (auto simp: getRegionOfDefinition_public_body_def Let_def split: option.splits if_splits)
    from getRegionOfDefinition_keeps [OF k a] have k1: "sameStore s s1" .
    show ?thesis
    proof (cases "(ret \<noteq> eStatusOK \<and> ret \<noteq> eStatusReplyDefault) \<or> RectD_isNull rod1")
      case True
      with False run a k1 show ?thesis
        by (auto simp: getRegionOfDefinition_public_body_def Let_def split: option.splits if_splits)
    next
      case ok: False
      with False run a obtain ipf rod2 s2
        where b: "ifInfiniteApplyHeuristic h g rodPub n hash t scale v rod1 s1 = Some ((ipf, rod2), s2)"
          and c: "s' = updActionsCache n (setRoDResult (of_int t) v (getLevelFromScale h scale) rod2) s2"
        by (auto simp: getRegionOfDefinition_public_body_def Let_def split: option.splits if_splits)
      from ifInfiniteApplyHeuristic_keeps [OF k b] k1 have "sameStore s s2"
        by (rule sameStore_trans [rotated])
      with c show ?thesis by simp
    qed
  qed
qed

lemma getRegionOfDefinition_public_keeps:
  "rodCallKeepsStore (getRegionOfDefinition_public fuel h g)"
proof (induction fuel)
  case 0
  show ?case by (simp add: rodCallKeepsStore_def)
next
  case (Suc fuel)
  then show ?case by (simp add: getRegionOfDefinition_public_body_keeps)
qed

text \<open>
  Claim C9. A call with at least one requested plane and without a precomputed region of
  definition asks \<open>getRegionOfDefinition_public\<close> for it (with the hash of the frame
  arguments and the render-mapped scale). If the answer is a failure or a null rectangle,
  \<open>renderRoI\<close> returns \<open>eRenderRoIRetCodeOk\<close>, \<open>*outputPlanes\<close> is as it was passed in, and
  the images, the caches and the render calls are as before the call. Fuel that is enough
  for the query is enough for the call.
\<close>

theorem renderRoI_no_region_of_definition:
  assumes comps: "a_components args \<noteq> []"
    and nopre: "RectD_isNull (a_preComputedRoD args)"
    and rod: "getRegionOfDefinition_public (Suc fuel) h g n (l_nodeHash (localsAtRoD h g n args s))
                (a_time args) (l_renderMappedScale (localsAtRoD h g n args s)) (a_view args) RectD_null
                (stateAtRoD g n args s) = Some ((stat, rod, ipf), s')"
    and fail: "stat = eStatusFailed \<or> RectD_isNull rod"
  shows "renderRoI (Suc fuel) h g rest n args outputPlanes s =
           Some ((Returned eRenderRoIRetCodeOk, outputPlanes), s') \<and> sameStore s s'"
proof -
  have l: "l_rod (localsAtRoD h g n args s) = RectD_null"
    by (simp add: localsAtRoD_def initLocals_def Let_def)
  from rod fail nopre
  have sec: "getRoDSection (getRegionOfDefinition_public (Suc fuel) h g) n args (localsAtRoD h g n args s)
               outputPlanes (stateAtRoD g n args s)
             = Some (Inl (Returned eRenderRoIRetCodeOk, outputPlanes), s')"
    unfolding getRoDSection_def l by auto
  have run: "renderRoI (Suc fuel) h g rest n args outputPlanes s =
           Some ((Returned eRenderRoIRetCodeOk, outputPlanes), s')"
    using comps sec by (simp add: renderRoI_body_def localsAtRoD_def stateAtRoD_def Let_def)
  have "sameStore (stateAtRoD g n args s) s'"
    using getRegionOfDefinition_public_keeps [of "Suc fuel" h g] rod
    unfolding rodCallKeepsStore_def by blast
  then have "sameStore s s'"
    by (simp add: sameStore_def stateAtRoD_def initFrameRenderArgs_def)
  with run show ?thesis by simp
qed

text \<open>
  A run: the action of node 0 fails.
\<close>

theorem renderRoI_no_region_of_definition_witness:
  "a_components testArgs \<noteq> [] \<and> RectD_isNull (a_preComputedRoD testArgs)
   \<and> getRegionOfDefinition_public (Suc 0) testHost failGraph 0 (l_nodeHash (localsAtRoD testHost failGraph 0 testArgs testState))
        (a_time testArgs) (l_renderMappedScale (localsAtRoD testHost failGraph 0 testArgs testState)) (a_view testArgs)
        RectD_null (stateAtRoD failGraph 0 testArgs testState)
      = Some ((eStatusFailed, RectD_null, None), failState)
   \<and> renderRoI (Suc 0) testHost failGraph noRest 0 testArgs [] testState
      = Some ((Returned eRenderRoIRetCodeOk, []), failState)"
proof -
  have comps: "a_components testArgs \<noteq> []" by (simp add: testArgs_def)
  have nopre: "RectD_isNull (a_preComputedRoD testArgs)"
    by (simp add: testArgs_def RectD_null_def RectD_isNull_def)
  have rod: "getRegionOfDefinition_public (Suc 0) testHost failGraph 0 (l_nodeHash (localsAtRoD testHost failGraph 0 testArgs testState))
        (a_time testArgs) (l_renderMappedScale (localsAtRoD testHost failGraph 0 testArgs testState)) (a_view testArgs)
        RectD_null (stateAtRoD failGraph 0 testArgs testState)
      = Some ((eStatusFailed, RectD_null, None), failState)"
    by (simp add: getRegionOfDefinition_public_body_def localsAtRoD_def stateAtRoD_def initLocals_def
        initFrameRenderArgs_def testArgs_def testHost_def failGraph_def testEffect_def testState_def
        ParallelRenderArgs_new_def RenderArgs_new_def ActionsCache_new_def getRoDResult_def
        getRegionOfDefinition_def failState_def updActionsCache_def fun_eq_iff Let_def)
  from renderRoI_no_region_of_definition [OF comps nopre rod, of noRest "[]"]
  have "renderRoI (Suc 0) testHost failGraph noRest 0 testArgs [] testState
      = Some ((Returned eRenderRoIRetCodeOk, []), failState)"
    by simp
  with comps nopre rod show ?thesis by blast
qed

subsection \<open>Fixtures for the identity check\<close>

definition idArgs :: RenderRoIArgs where
  "idArgs = testArgs\<lparr>a_roi := \<lparr>ix1 = 100, iy1 = 100, ix2 = 150, iy2 = 150\<rparr>\<rparr>"

text \<open>A stand-in for the rest of \<open>renderRoI\<close> in runs: it records a call of the render
  action of the node on the region of interest, appends the image whose address is 10
  plus the number of the node, and returns ok.\<close>

definition stubRest :: RestOfRenderRoI where
  "stubRest = (\<lambda>rec n args x outputPlanes s.
     Some ((Returned eRenderRoIRetCodeOk, outputPlanes @ [10 + n]),
           s\<lparr>st_renderCalls := (n, a_time args, r_roi x) # st_renderCalls s\<rparr>))"

text \<open>Node 0 is an identity on its input 0, which is node 1, at time 7 whatever the time;
  node 1 produces the colour plane.\<close>

definition idGraph :: Graph where
  "idGraph = (\<lambda>n. if n = 0
     then testEffect\<lparr>inputs := [Some 1],
            isIdentityAction := (\<lambda>t scale rod par v rs. Returns (True, 7, 0, rs))\<rparr>
     else testEffect\<lparr>getComponentsAvailable := (\<lambda>t. [(RGBA, Some 1)])\<rparr>)"

definition idLocals :: RoILocals where
  "idLocals = (localsAtRoD testHost idGraph 0 idArgs testState)\<lparr>l_rod := R100, l_isProjectFormat := False\<rparr>"

definition idState1 :: State where
  "idState1 = updActionsCache 0 (setRoDResult 5 0 0 R100) (stateAtRoD idGraph 0 idArgs testState)"

definition idState2 :: State where
  "idState2 = updActionsCache 0 (setIdentityResult 5 0 0 0 7) idState1"

definition idStateIn :: State where
  "idStateIn = identityScopedState testHost idGraph 0 idArgs (refreshSupportsRS 0 idArgs idState2 idLocals) 7 0 idState2"

text \<open>Node 0 declares itself an identity of itself: at time 5 when asked at time 5, at
  time 9 when asked at another time; asked at time 9 it is no identity and produces the
  colour plane.\<close>

definition selfGraph :: Graph where
  "selfGraph = (\<lambda>n. testEffect
     \<lparr>isIdentityAction := (\<lambda>t scale rod par v rs.
         if t = 9 then Returns (False, 0, - 1, rs)
         else if t = 5 then Returns (True, 5, - 2, rs)
         else Returns (True, 9, - 2, rs)),
      getComponentsAvailable := (\<lambda>t. [(RGBA, Some 0)])\<rparr>)"

definition selfLocals :: "RenderRoIArgs \<Rightarrow> RoILocals" where
  "selfLocals args = (localsAtRoD testHost selfGraph 0 args testState)\<lparr>l_rod := R100, l_isProjectFormat := False\<rparr>"

definition selfState1 :: "RenderRoIArgs \<Rightarrow> State" where
  "selfState1 args =
     updActionsCache 0 (setRoDResult (of_int (a_time args)) 0 0 R100) (stateAtRoD selfGraph 0 args testState)"

definition selfState2 :: "RenderRoIArgs \<Rightarrow> State" where
  "selfState2 args = updActionsCache 0 (setIdentityResult (of_int (a_time args)) 0 0 (- 2) 5) (selfState1 args)"

text \<open>A call at time 4 that comes with a region of definition, which lies apart from the
  region of interest; and the state in which that call makes the identity check, and the
  one it leaves it in.\<close>

definition earlierRoD :: RectD where
  "earlierRoD = \<lparr>dx1 = 0, dy1 = 0, dx2 = 50, dy2 = 50\<rparr>"

definition earlierArgs :: RenderRoIArgs where
  "earlierArgs = idArgs\<lparr>a_time := 4, a_preComputedRoD := earlierRoD\<rparr>"

definition earlierLocals :: RoILocals where
  "earlierLocals = (localsAtRoD testHost selfGraph 0 earlierArgs testState)\<lparr>l_rod := earlierRoD\<rparr>"

definition earlierState1 :: State where
  "earlierState1 = stateAtRoD selfGraph 0 earlierArgs testState"

definition earlierState2 :: State where
  "earlierState2 =
     updActionsCache 0 (setIdentityResult 4 0 0 (- 2) 9) earlierState1"

subsection \<open>The identity check of renderRoI\<close>

lemma getRoDSection_keeps:
  "rodCallKeepsStore rodPub \<Longrightarrow>
   getRoDSection rodPub n args l outputPlanes s = Some (r, s') \<Longrightarrow> sameStore s s'"
  unfolding getRoDSection_def rodCallKeepsStore_def
  by (auto split: if_splits option.splits prod.splits)

lemma isIdentity_public_keeps:
  "isIdentity_public h g n hash t scale rod par v s = (r, s') \<Longrightarrow> sameStore s s'"
  by (auto simp: isIdentity_public_def Let_def split: option.splits if_splits ActionResult.splits prod.splits)

lemma getFrameRange_public_keeps:
  "getFrameRange_public h g n hash s = (r, s') \<Longrightarrow> sameStore s s'"
  by (auto simp: getFrameRange_public_def split: option.splits if_splits prod.splits)

lemma identityScopedState_keeps:
  "sameStore s (identityScopedState h g n args l t' i s)"
proof -
  obtain r s1 where fr: "getFrameRange_public h g n (l_nodeHash l) s = (r, s1)"
    by (cases "getFrameRange_public h g n (l_nodeHash l) s")
  from getFrameRange_public_keeps [OF fr] fr show ?thesis
    by (cases r) (simp add: identityScopedState_def ScopedRenderArgs_enter_def Let_def)
qed

lemma ScopedRenderArgs_leave_keeps: "sameStore s (ScopedRenderArgs_leave n s)"
  by (simp add: ScopedRenderArgs_leave_def)

lemma stateAtRoD_keeps: "sameStore s (stateAtRoD g n args s)"
  by (simp add: stateAtRoD_def initFrameRenderArgs_def)

text \<open>
  Claim C1. The call has reached the identity check (a plane is requested and the region
  of definition is known) and \<open>isIdentity_public\<close> declares the node an identity of its
  input \<open>i\<close> at time \<open>t'\<close>, input \<open>i\<close> being connected to node \<open>m\<close> (so \<open>0 \<le> i\<close>). Then the
  call ends as the call of \<open>renderRoI\<close> on \<open>m\<close> ends, with the same arguments but the time
  \<open>t'\<close> and the same \<open>*outputPlanes\<close>: same result, same planes; of the state the call on
  \<open>m\<close> leaves, only the scoped render arguments of the node are reset. Between the entry
  of the call and the entry of the call on \<open>m\<close> the images, the two caches and the list of
  render calls do not change, and leaving the scoped arguments does not change them
  either: the node renders nothing and stores no image.
\<close>

theorem renderRoI_identity_input:
  assumes comps: "a_components args \<noteq> []"
    and rod: "getRoDSection (getRegionOfDefinition_public (Suc fuel) h g) n args (localsAtRoD h g n args s)
                outputPlanes (stateAtRoD g n args s) = Some (Inr l, s1)"
    and ident: "isIdentity_public h g n (l_nodeHash l) (a_time args) (l_renderMappedScale l) (l_rod l)
                  (l_par l) (a_view args) s1 = (Returns (True, t', i), s2)"
    and inp: "getInput (g n) i = Some m"
  shows "renderRoI (Suc fuel) h g rest n args outputPlanes s =
           map_option (apsnd (ScopedRenderArgs_leave n))
             (renderRoI fuel h g rest m (args\<lparr>a_time := t'\<rparr>) outputPlanes
                (identityScopedState h g n args (refreshSupportsRS n args s2 l) t' i s2))
         \<and> sameStore s (identityScopedState h g n args (refreshSupportsRS n args s2 l) t' i s2)
         \<and> sameStore s3 (ScopedRenderArgs_leave n s3)
         \<and> 0 \<le> i"
proof -
  let ?sIn = "identityScopedState h g n args (refreshSupportsRS n args s2 l) t' i s2"
  let ?call = "renderRoI fuel h g rest m (args\<lparr>a_time := t'\<rparr>) outputPlanes ?sIn"
  from inp have i: "0 \<le> i" by (auto simp: getInput_def split: if_splits)
  then have ne: "i \<noteq> - 1" "i \<noteq> - 2" by auto
  have sec: "identitySection h g (renderRoI fuel h g rest) n args l outputPlanes s1 =
               (case ?call of None \<Rightarrow> None | Some (r, s2') \<Rightarrow> Some (Inl r, ScopedRenderArgs_leave n s2'))"
    using ident inp ne by (simp add: identitySection_def Let_def)
  have run: "renderRoI (Suc fuel) h g rest n args outputPlanes s =
               map_option (apsnd (ScopedRenderArgs_leave n)) ?call"
    using comps rod sec
    by (cases ?call) (auto simp: renderRoI_body_def localsAtRoD_def stateAtRoD_def Let_def)
  have k1: "sameStore s s1"
    using stateAtRoD_keeps [of s g n args]
      getRoDSection_keeps [OF getRegionOfDefinition_public_keeps rod]
    by (rule sameStore_trans)
  have k2: "sameStore s1 s2" using isIdentity_public_keeps [OF ident] .
  have k3: "sameStore s2 ?sIn" by (rule identityScopedState_keeps)
  have "sameStore s ?sIn"
    using k1 k2 k3 by (meson sameStore_trans)
  with run i ScopedRenderArgs_leave_keeps [of s3 n] show ?thesis by simp
qed

text \<open>
  Claim C5. The call has reached the identity check and \<open>isIdentity_public\<close> declares the
  node an identity of itself (input number \<open>-2\<close>) at time \<open>t'\<close>. If \<open>t'\<close> is the requested
  time, the call returns \<open>eRenderRoIRetCodeFailed\<close> without any recursive call (no input
  has the number \<open>-2\<close>), with \<open>*outputPlanes\<close> as passed in. Otherwise the call is the call of
  \<open>renderRoI\<close> on the same node with the same arguments but the time, which is \<open>t'\<close>, and
  the precomputed region of definition, which is cleared.
\<close>

theorem renderRoI_identity_self:
  assumes comps: "a_components args \<noteq> []"
    and rod: "getRoDSection (getRegionOfDefinition_public (Suc fuel) h g) n args (localsAtRoD h g n args s)
                outputPlanes (stateAtRoD g n args s) = Some (Inr l, s1)"
    and ident: "isIdentity_public h g n (l_nodeHash l) (a_time args) (l_renderMappedScale l) (l_rod l)
                  (l_par l) (a_view args) s1 = (Returns (True, t', - 2), s2)"
  shows "(t' = a_time args \<longrightarrow>
            renderRoI (Suc fuel) h g rest n args outputPlanes s =
              Some ((Returned eRenderRoIRetCodeFailed, outputPlanes),
                    ScopedRenderArgs_leave n
                      (identityScopedState h g n args (refreshSupportsRS n args s2 l) t' (- 2) s2)))
       \<and> (t' \<noteq> a_time args \<longrightarrow>
            renderRoI (Suc fuel) h g rest n args outputPlanes s =
              renderRoI fuel h g rest n (args\<lparr>a_time := t', a_preComputedRoD := RectD_null\<rparr>) outputPlanes s2)"
proof -
  have noinput: "getInput (g n) (- 2) = None" by (simp add: getInput_def)
  have same: "t' = a_time args \<longrightarrow>
      identitySection h g (renderRoI fuel h g rest) n args l outputPlanes s1 =
        Some (Inl (Returned eRenderRoIRetCodeFailed, outputPlanes),
              ScopedRenderArgs_leave n
                (identityScopedState h g n args (refreshSupportsRS n args s2 l) t' (- 2) s2))"
    using ident noinput by (simp add: identitySection_def Let_def)
  have other: "t' \<noteq> a_time args \<longrightarrow>
      identitySection h g (renderRoI fuel h g rest) n args l outputPlanes s1 =
        (case renderRoI fuel h g rest n (args\<lparr>a_time := t', a_preComputedRoD := RectD_null\<rparr>) outputPlanes s2 of
           None \<Rightarrow> None | Some (r, s'') \<Rightarrow> Some (Inl r, s''))"
    using ident by (simp add: identitySection_def Let_def)
  have a: "t' = a_time args \<longrightarrow>
            renderRoI (Suc fuel) h g rest n args outputPlanes s =
              Some ((Returned eRenderRoIRetCodeFailed, outputPlanes),
                    ScopedRenderArgs_leave n
                      (identityScopedState h g n args (refreshSupportsRS n args s2 l) t' (- 2) s2))"
    using comps rod same
    by (auto simp: renderRoI_body_def localsAtRoD_def stateAtRoD_def Let_def)
  have b: "t' \<noteq> a_time args \<longrightarrow>
            renderRoI (Suc fuel) h g rest n args outputPlanes s =
              renderRoI fuel h g rest n (args\<lparr>a_time := t', a_preComputedRoD := RectD_null\<rparr>) outputPlanes s2"
    using comps rod other
    by (cases "renderRoI fuel h g rest n (args\<lparr>a_time := t', a_preComputedRoD := RectD_null\<rparr>) outputPlanes s2")
       (auto simp: renderRoI_body_def localsAtRoD_def stateAtRoD_def Let_def)
  from a b show ?thesis by blast
qed

lemmas run_defs =
  renderRoI_body_def getRoDSection_def getRegionOfDefinition_public_body_def
  identitySection_def isIdentity_public_def passThroughSection_def roiSection_def lookupSection_def
  getImageFromCacheAndConvertIfNeeded_def cachedImagesOf_def getImageFromCache_def evictLastRendered_def
  identityScopedState_def getFrameRange_public_def
  ScopedRenderArgs_enter_def ScopedRenderArgs_leave_def getTimeDomainResult_def setTimeDomainResult_def
  localsAtRoD_def stateAtRoD_def initLocals_def initFrameRenderArgs_def
  testArgs_def testHost_def testEffect_def testState_def
  ParallelRenderArgs_new_def RenderArgs_new_def ActionsCache_new_def getRoDResult_def
  getRegionOfDefinition_def updActionsCache_def Let_def setRoDResult_def setIdentityResult_def
  getIdentityResult_def std_map_insert_def mkActionKey_def
  RectD_null_def RectD_isNull_def R100_def ifInfiniteApplyHeuristic_def inputsUnionOf_def
  x1Infinite_def x2Infinite_def y1Infinite_def y2Infinite_def clipInfiniteSides_def
  refreshSupportsRS_def RGBA_def RectI_intersect_def RectI_isNull_def getInput_def
  PlaneToRender_new_def invalidateAll_def RoILocals.defs RoIRender.defs

lemma id_rod:
  "getRoDSection (getRegionOfDefinition_public (Suc (Suc 0)) testHost idGraph) 0 idArgs
      (localsAtRoD testHost idGraph 0 idArgs testState) [] (stateAtRoD idGraph 0 idArgs testState)
     = Some (Inr idLocals, idState1)"
  by (simp add: getRoDSection_def getRegionOfDefinition_public_body_def localsAtRoD_def stateAtRoD_def
      initLocals_def initFrameRenderArgs_def idArgs_def testArgs_def testHost_def idGraph_def testEffect_def
      testState_def ParallelRenderArgs_new_def RenderArgs_new_def ActionsCache_new_def getRoDResult_def
      getRegionOfDefinition_def idLocals_def idState1_def updActionsCache_def fun_eq_iff Let_def
      RectD_null_def RectD_isNull_def R100_def ifInfiniteApplyHeuristic_def inputsUnionOf_def
      x1Infinite_def x2Infinite_def y1Infinite_def y2Infinite_def clipInfiniteSides_def
      refreshSupportsRS_def)

lemma id_ident:
  "isIdentity_public testHost idGraph 0 (l_nodeHash idLocals) (a_time idArgs) (l_renderMappedScale idLocals)
      (l_rod idLocals) (l_par idLocals) (a_view idArgs) idState1
     = (Returns (True, 7, 0), idState2)"
  by (simp add: isIdentity_public_def idLocals_def idState1_def idState2_def localsAtRoD_def stateAtRoD_def
      initLocals_def initFrameRenderArgs_def idArgs_def testArgs_def testHost_def idGraph_def testEffect_def
      testState_def ParallelRenderArgs_new_def RenderArgs_new_def ActionsCache_new_def
      getIdentityResult_def updActionsCache_def fun_eq_iff Let_def setRoDResult_def std_map_insert_def
      mkActionKey_def)

lemma id_inner:
  "map_option (\<lambda>r. (fst r, st_renderCalls (snd r)))
     (renderRoI (Suc 0) testHost idGraph stubRest 1 (idArgs\<lparr>a_time := 7\<rparr>) [] idStateIn)
   = Some ((Returned eRenderRoIRetCodeOk, [11]), [(1, 7, \<lparr>ix1 = 100, iy1 = 100, ix2 = 150, iy2 = 150\<rparr>)])"
  by (simp add: renderRoI_body_def getRoDSection_def getRegionOfDefinition_public_body_def
      identitySection_def isIdentity_public_def passThroughSection_def roiSection_def lookupSection_def
      getImageFromCacheAndConvertIfNeeded_def cachedImagesOf_def getImageFromCache_def evictLastRendered_def
      idStateIn_def identityScopedState_def getFrameRange_public_def
      ScopedRenderArgs_enter_def getTimeDomainResult_def setTimeDomainResult_def
      idLocals_def idState1_def idState2_def localsAtRoD_def stateAtRoD_def
      initLocals_def initFrameRenderArgs_def idArgs_def testArgs_def testHost_def idGraph_def testEffect_def
      testState_def ParallelRenderArgs_new_def RenderArgs_new_def ActionsCache_new_def getRoDResult_def
      getRegionOfDefinition_def updActionsCache_def Let_def setRoDResult_def setIdentityResult_def
      getIdentityResult_def std_map_insert_def mkActionKey_def
      RectD_null_def RectD_isNull_def R100_def ifInfiniteApplyHeuristic_def inputsUnionOf_def
      x1Infinite_def x2Infinite_def y1Infinite_def y2Infinite_def clipInfiniteSides_def
      refreshSupportsRS_def RGBA_def RectI_intersect_def RectI_isNull_def getInput_def
      PlaneToRender_new_def stubRest_def invalidateAll_def RoILocals.defs RoIRender.defs)

text \<open>
  A run on node 0 of \<open>idGraph\<close>, asked at time 5: the outcome, the plane and the one call
  of a render action are those of node 1 at time 7.
\<close>

theorem renderRoI_identity_input_witness:
  "a_components idArgs \<noteq> []
   \<and> a_time idArgs = 5
   \<and> getRoDSection (getRegionOfDefinition_public (Suc (Suc 0)) testHost idGraph) 0 idArgs
        (localsAtRoD testHost idGraph 0 idArgs testState) [] (stateAtRoD idGraph 0 idArgs testState)
      = Some (Inr idLocals, idState1)
   \<and> isIdentity_public testHost idGraph 0 (l_nodeHash idLocals) (a_time idArgs) (l_renderMappedScale idLocals)
        (l_rod idLocals) (l_par idLocals) (a_view idArgs) idState1
      = (Returns (True, 7, 0), idState2)
   \<and> getInput (idGraph 0) 0 = Some 1
   \<and> renderRoI (Suc (Suc 0)) testHost idGraph stubRest 0 idArgs [] testState
      = map_option (apsnd (ScopedRenderArgs_leave 0))
          (renderRoI (Suc 0) testHost idGraph stubRest 1 (idArgs\<lparr>a_time := 7\<rparr>) [] idStateIn)
   \<and> map_option (\<lambda>r. (fst r, st_renderCalls (snd r)))
        (renderRoI (Suc (Suc 0)) testHost idGraph stubRest 0 idArgs [] testState)
      = Some ((Returned eRenderRoIRetCodeOk, [11]), [(1, 7, \<lparr>ix1 = 100, iy1 = 100, ix2 = 150, iy2 = 150\<rparr>)])"
proof -
  have comps: "a_components idArgs \<noteq> []" by (simp add: idArgs_def testArgs_def)
  have time: "a_time idArgs = 5" by (simp add: idArgs_def testArgs_def)
  have inp: "getInput (idGraph 0) 0 = Some 1" by (simp add: getInput_def idGraph_def testEffect_def)
  from renderRoI_identity_input [OF comps id_rod id_ident inp, of stubRest]
  have eq: "renderRoI (Suc (Suc 0)) testHost idGraph stubRest 0 idArgs [] testState =
              map_option (apsnd (ScopedRenderArgs_leave 0))
                (renderRoI (Suc 0) testHost idGraph stubRest 1 (idArgs\<lparr>a_time := 7\<rparr>) [] idStateIn)"
    unfolding idStateIn_def by blast
  have "map_option (\<lambda>r. (fst r, st_renderCalls (snd r)))
        (renderRoI (Suc (Suc 0)) testHost idGraph stubRest 0 idArgs [] testState)
      = Some ((Returned eRenderRoIRetCodeOk, [11]), [(1, 7, \<lparr>ix1 = 100, iy1 = 100, ix2 = 150, iy2 = 150\<rparr>)])"
    using id_inner unfolding eq
    by (cases "renderRoI (Suc 0) testHost idGraph stubRest 1 (idArgs\<lparr>a_time := 7\<rparr>) [] idStateIn")
       (auto simp: ScopedRenderArgs_leave_def)
  with comps time id_rod id_ident inp eq show ?thesis by blast
qed

lemma self_rod_same:
  "getRoDSection (getRegionOfDefinition_public (Suc 0) testHost selfGraph) 0 idArgs
      (localsAtRoD testHost selfGraph 0 idArgs testState) [] (stateAtRoD selfGraph 0 idArgs testState)
     = Some (Inr (selfLocals idArgs), selfState1 idArgs)"
  by (simp add: run_defs idArgs_def selfGraph_def selfLocals_def selfState1_def fun_eq_iff)

lemma self_ident_same:
  "isIdentity_public testHost selfGraph 0 (l_nodeHash (selfLocals idArgs)) (a_time idArgs)
      (l_renderMappedScale (selfLocals idArgs)) (l_rod (selfLocals idArgs)) (l_par (selfLocals idArgs))
      (a_view idArgs) (selfState1 idArgs)
     = (Returns (True, a_time idArgs, - 2), selfState2 idArgs)"
  by (simp add: run_defs idArgs_def selfGraph_def selfLocals_def selfState1_def selfState2_def fun_eq_iff)

lemma self_rod_earlier:
  "getRoDSection (getRegionOfDefinition_public (Suc (Suc 0)) testHost selfGraph) 0 earlierArgs
      (localsAtRoD testHost selfGraph 0 earlierArgs testState) [] (stateAtRoD selfGraph 0 earlierArgs testState)
     = Some (Inr earlierLocals, earlierState1)"
  by (simp add: run_defs idArgs_def earlierArgs_def earlierRoD_def earlierLocals_def earlierState1_def
      selfGraph_def fun_eq_iff)

lemma self_ident_earlier:
  "isIdentity_public testHost selfGraph 0 (l_nodeHash earlierLocals) (a_time earlierArgs)
      (l_renderMappedScale earlierLocals) (l_rod earlierLocals) (l_par earlierLocals)
      (a_view earlierArgs) earlierState1
     = (Returns (True, 9, - 2), earlierState2)"
  by (simp add: run_defs idArgs_def earlierArgs_def earlierRoD_def earlierLocals_def earlierState1_def
      earlierState2_def selfGraph_def fun_eq_iff)

lemma self_inner:
  "map_option (\<lambda>r. (fst r, st_renderCalls (snd r)))
     (renderRoI (Suc 0) testHost selfGraph stubRest 0
        (earlierArgs\<lparr>a_time := 9, a_preComputedRoD := RectD_null\<rparr>) [] earlierState2)
   = Some ((Returned eRenderRoIRetCodeOk, [10]), [(0, 9, \<lparr>ix1 = 100, iy1 = 100, ix2 = 150, iy2 = 150\<rparr>)])"
  by (simp add: run_defs idArgs_def earlierArgs_def earlierRoD_def earlierLocals_def earlierState1_def
      earlierState2_def selfGraph_def stubRest_def)

lemma self_kept:
  "map_option (\<lambda>r. (fst r, st_renderCalls (snd r)))
     (renderRoI (Suc 0) testHost selfGraph stubRest 0 (earlierArgs\<lparr>a_time := 9\<rparr>) [] earlierState2)
   = Some ((Returned eRenderRoIRetCodeOk, []), [])"
  by (simp add: run_defs idArgs_def earlierArgs_def earlierRoD_def earlierLocals_def earlierState1_def
      earlierState2_def selfGraph_def stubRest_def)

text \<open>
  Two runs on node 0 of \<open>selfGraph\<close>. Asked at time 5 it is an identity of itself at time
  5: the call fails. Asked at time 4, with a precomputed region of definition, it is an
  identity of itself at time 9: the call re-enters at time 9 without the precomputed
  region of definition, where the node renders the region of interest. Had the
  precomputed region of definition been kept, the call at time 9 would have rendered
  nothing.
\<close>

theorem renderRoI_identity_self_witness:
  "a_components idArgs \<noteq> [] \<and> a_components earlierArgs \<noteq> []
   \<and> isIdentity_public testHost selfGraph 0 (l_nodeHash (selfLocals idArgs)) (a_time idArgs)
        (l_renderMappedScale (selfLocals idArgs)) (l_rod (selfLocals idArgs)) (l_par (selfLocals idArgs))
        (a_view idArgs) (selfState1 idArgs)
      = (Returns (True, a_time idArgs, - 2), selfState2 idArgs)
   \<and> map_option fst (renderRoI (Suc 0) testHost selfGraph noRest 0 idArgs [] testState)
      = Some (Returned eRenderRoIRetCodeFailed, [])
   \<and> isIdentity_public testHost selfGraph 0 (l_nodeHash earlierLocals) (a_time earlierArgs)
        (l_renderMappedScale earlierLocals) (l_rod earlierLocals) (l_par earlierLocals)
        (a_view earlierArgs) earlierState1
      = (Returns (True, 9, - 2), earlierState2)
   \<and> a_time earlierArgs = 4
   \<and> a_preComputedRoD earlierArgs = earlierRoD
   \<and> renderRoI (Suc (Suc 0)) testHost selfGraph stubRest 0 earlierArgs [] testState
      = renderRoI (Suc 0) testHost selfGraph stubRest 0
          (earlierArgs\<lparr>a_time := 9, a_preComputedRoD := RectD_null\<rparr>) [] earlierState2
   \<and> map_option (\<lambda>r. (fst r, st_renderCalls (snd r)))
        (renderRoI (Suc (Suc 0)) testHost selfGraph stubRest 0 earlierArgs [] testState)
      = Some ((Returned eRenderRoIRetCodeOk, [10]), [(0, 9, \<lparr>ix1 = 100, iy1 = 100, ix2 = 150, iy2 = 150\<rparr>)])
   \<and> map_option (\<lambda>r. (fst r, st_renderCalls (snd r)))
        (renderRoI (Suc 0) testHost selfGraph stubRest 0 (earlierArgs\<lparr>a_time := 9\<rparr>) [] earlierState2)
      = Some ((Returned eRenderRoIRetCodeOk, []), [])"
proof -
  have comps: "a_components idArgs \<noteq> []" by (simp add: idArgs_def testArgs_def)
  have comps': "a_components earlierArgs \<noteq> []" by (simp add: earlierArgs_def idArgs_def testArgs_def)
  have time: "a_time earlierArgs = 4" by (simp add: earlierArgs_def)
  have pre: "a_preComputedRoD earlierArgs = earlierRoD" by (simp add: earlierArgs_def)
  from time have ne: "9 \<noteq> a_time earlierArgs" by simp
  from renderRoI_identity_self [OF comps self_rod_same self_ident_same, of noRest]
  have a: "map_option fst (renderRoI (Suc 0) testHost selfGraph noRest 0 idArgs [] testState)
      = Some (Returned eRenderRoIRetCodeFailed, [])"
    by simp
  from renderRoI_identity_self [OF comps' self_rod_earlier self_ident_earlier, of stubRest] ne
  have b: "renderRoI (Suc (Suc 0)) testHost selfGraph stubRest 0 earlierArgs [] testState
      = renderRoI (Suc 0) testHost selfGraph stubRest 0
          (earlierArgs\<lparr>a_time := 9, a_preComputedRoD := RectD_null\<rparr>) [] earlierState2"
    by simp
  from b self_inner
  have c: "map_option (\<lambda>r. (fst r, st_renderCalls (snd r)))
        (renderRoI (Suc (Suc 0)) testHost selfGraph stubRest 0 earlierArgs [] testState)
      = Some ((Returned eRenderRoIRetCodeOk, [10]), [(0, 9, \<lparr>ix1 = 100, iy1 = 100, ix2 = 150, iy2 = 150\<rparr>)])"
    by simp
  from comps comps' self_ident_same self_ident_earlier time pre a b c self_kept show ?thesis by blast
qed

subsection \<open>Fixtures for the pass-through and the region of interest\<close>

text \<open>The planes the node must fetch upstream that have a node to be fetched from.\<close>

definition fetchable :: "(ImageComponents \<times> NodeId option) list \<Rightarrow> (ImageComponents \<times> NodeId option) list" where
  "fetchable toFetch = filter (\<lambda>x. snd x \<noteq> None) toFetch"

text \<open>
  The planes fetched upstream, in the words of the claim: every plane to fetch that has a
  node is asked of that node, alone, with an empty list of planes, in the order of the
  planes to fetch and each call in the state the call before left; every call returns ok
  with a plane, and the plane fetched is the first the call returned. \<open>None\<close> when a call
  does not return ok with a plane. It is the yardstick the loop of the source
  (\<open>fetchUpstream\<close>) is compared with.
\<close>

fun upstreamPlanes ::
  "RenderCall \<Rightarrow> RenderRoIArgs \<Rightarrow> (ImageComponents \<times> NodeId option) list \<Rightarrow> State \<Rightarrow>
   (ImagePtr list \<times> State) option" where
  "upstreamPlanes rec args [] s = Some ([], s)"
| "upstreamPlanes rec args ((c, None) # rest) s = upstreamPlanes rec args rest s"
| "upstreamPlanes rec args ((c, Some node) # rest) s =
     (case rec node (args\<lparr>a_components := [c]\<rparr>) [] s of
        None \<Rightarrow> None
      | Some ((code, inputPlanes), s') \<Rightarrow>
          if code = Returned eRenderRoIRetCodeOk \<and> inputPlanes \<noteq> []
          then (case upstreamPlanes rec args rest s' of
                  None \<Rightarrow> None
                | Some (fetched, s'') \<Rightarrow> Some (hd inputPlanes # fetched, s''))
          else None)"

text \<open>
  Node 0 produces no plane: the colour plane is available from node 1 and the depth plane
  from node 2, which produce them. Both planes are requested of node 0.
\<close>

definition Depth :: ImageComponents where
  "Depth = ImageComponents ''Depth'' [''Z'']"

definition passGraph :: Graph where
  "passGraph = (\<lambda>n. testEffect\<lparr>getComponentsAvailable :=
       (\<lambda>t. if n = 0 then [(RGBA, Some 1), (Depth, Some 2)]
            else if n = 1 then [(RGBA, Some 1)] else [(Depth, Some 2)])\<rparr>)"

definition passArgs :: RenderRoIArgs where
  "passArgs = idArgs\<lparr>a_components := [RGBA, Depth]\<rparr>"

definition passLocals :: RoILocals where
  "passLocals = (localsAtRoD testHost passGraph 0 passArgs testState)\<lparr>l_rod := R100, l_isProjectFormat := False\<rparr>"

definition passState1 :: State where
  "passState1 = updActionsCache 0 (setRoDResult 5 0 0 R100) (stateAtRoD passGraph 0 passArgs testState)"

definition passState2 :: State where
  "passState2 = updActionsCache 0 (setIdentityResult 5 0 0 (- 1) 5) passState1"

text \<open>The state a call on a node of \<open>passGraph\<close> leaves when the node renders with the
  stand-in: its frame arguments are set, its region of definition and its identity
  verdict are cached, and the call of its render action is recorded.\<close>

definition stubRendered :: "NodeId \<Rightarrow> State \<Rightarrow> State" where
  "stubRendered n s =
     (updActionsCache n (setIdentityResult 5 0 0 (- 1) 5)
        (updActionsCache n (setRoDResult 5 0 0 R100) (initFrameRenderArgs passGraph n passArgs s)))
       \<lparr>st_renderCalls := (n, 5, \<lparr>ix1 = 100, iy1 = 100, ix2 = 150, iy2 = 150\<rparr>) # st_renderCalls s\<rparr>"

definition passState3 :: State where
  "passState3 = stubRendered 1 (stubRendered 2 passState2)"

text \<open>An effect that does not support tiles and produces the colour plane, and a request
  with an empty rectangle.\<close>

definition untiledGraph :: Graph where
  "untiledGraph = (\<lambda>n. testEffect\<lparr>supportsTiles := False,
                                    getComponentsAvailable := (\<lambda>t. [(RGBA, Some n)])\<rparr>)"

definition tiledGraph :: Graph where
  "tiledGraph = (\<lambda>n. testEffect\<lparr>getComponentsAvailable := (\<lambda>t. [(RGBA, Some n)])\<rparr>)"

definition emptyArgs :: RenderRoIArgs where
  "emptyArgs = testArgs\<lparr>a_roi := RectI_null\<rparr>"

text \<open>The rendering of the whole function uses the image given as output when the effect
  renders at full scale and its inputs are asked at full scale too.\<close>

definition useImageAsOutput :: "RoILocals \<Rightarrow> bool" where
  "useImageAsOutput l =
     (l_renderFullScaleThenDownscale l \<and> l_renderScaleOneUpstreamIfRenderScaleSupportDisabled l)"

definition emptyLocals :: "Graph \<Rightarrow> RoILocals" where
  "emptyLocals g = (localsAtRoD testHost g 0 emptyArgs testState)\<lparr>l_rod := R100, l_isProjectFormat := False\<rparr>"

definition emptyState1 :: "Graph \<Rightarrow> State" where
  "emptyState1 g = updActionsCache 0 (setRoDResult 5 0 0 R100) (stateAtRoD g 0 emptyArgs testState)"

definition emptyState2 :: "Graph \<Rightarrow> State" where
  "emptyState2 g = updActionsCache 0 (setIdentityResult 5 0 0 (- 1) 5) (emptyState1 g)"

text \<open>An effect with tiles that does not support the render scale and wants its inputs at
  scale one, asked an empty rectangle at mipmap level 1: it renders at full scale and the
  full-scale image is the output.\<close>

definition fullGraph :: Graph where
  "fullGraph = (\<lambda>n. testEffect\<lparr>useScaleOneImagesWhenRenderScaleSupportIsDisabled := True,
                                 getComponentsAvailable := (\<lambda>t. [(RGBA, Some n)])\<rparr>)"

definition fullArgs :: RenderRoIArgs where
  "fullArgs = emptyArgs\<lparr>a_scale := 1 / 2, a_mipMapLevel := 1\<rparr>"

definition fullState :: State where
  "fullState = testState\<lparr>st_supportsRenderScale := (\<lambda>n. eSupportsNo)\<rparr>"

definition fullLocals :: RoILocals where
  "fullLocals = (localsAtRoD testHost fullGraph 0 fullArgs fullState)\<lparr>l_rod := R100, l_isProjectFormat := False\<rparr>"

definition fullState1 :: State where
  "fullState1 = updActionsCache 0 (setRoDResult 5 0 0 R100) (stateAtRoD fullGraph 0 fullArgs fullState)"

definition fullState2 :: State where
  "fullState2 = updActionsCache 0 (setIdentityResult 5 0 0 (- 1) 5) fullState1"

subsection \<open>Pass-through and empty region of interest\<close>

lemma fetchUpstream_upstreamPlanes:
  "upstreamPlanes rec args toFetch s = Some (fetched, s') \<Longrightarrow>
   fetchUpstream rec args toFetch outputPlanes s = Some (Inr (outputPlanes @ fetched), s')"
proof (induction rec args toFetch outputPlanes s arbitrary: fetched rule: fetchUpstream.induct)
  case (1 rec args outputPlanes s)
  then show ?case by simp
next
  case (2 rec args c rest outputPlanes s)
  then show ?case by simp
next
  case (3 rec args c node rest outputPlanes s)
  from "3.prems" obtain inputPlanes s1 more
    where call: "rec node (args\<lparr>a_components := [c]\<rparr>) [] s
                   = Some ((Returned eRenderRoIRetCodeOk, inputPlanes), s1)"
      and ne: "inputPlanes \<noteq> []"
      and more: "upstreamPlanes rec args rest s1 = Some (more, s')"
      and fetched: "fetched = hd inputPlanes # more"
    by (auto split: option.splits prod.splits if_splits)
  have ok: "\<not> (eRenderRoIRetCodeOk = eRenderRoIRetCodeAborted \<or> eRenderRoIRetCodeOk = eRenderRoIRetCodeFailed
               \<or> inputPlanes = [])"
    using ne by simp
  from "3.IH" [OF call refl refl refl ok more]
  have "fetchUpstream rec args rest (outputPlanes @ [hd inputPlanes]) s1
          = Some (Inr ((outputPlanes @ [hd inputPlanes]) @ more), s')" .
  with call ne fetched show ?case by simp
qed

lemma upstreamPlanes_length:
  "upstreamPlanes rec args toFetch s = Some (fetched, s') \<Longrightarrow> length fetched = length (fetchable toFetch)"
proof (induction rec args toFetch s arbitrary: fetched rule: upstreamPlanes.induct)
  case (1 rec args s)
  then show ?case by (simp add: fetchable_def)
next
  case (2 rec args c rest s)
  then show ?case by (simp add: fetchable_def)
next
  case (3 rec args c node rest s)
  from "3.prems" obtain code inputPlanes s1 more
    where call: "rec node (args\<lparr>a_components := [c]\<rparr>) [] s = Some ((code, inputPlanes), s1)"
      and ok: "code = Returned eRenderRoIRetCodeOk \<and> inputPlanes \<noteq> []"
      and more: "upstreamPlanes rec args rest s1 = Some (more, s')"
      and fetched: "fetched = hd inputPlanes # more"
    by (auto split: option.splits prod.splits if_splits)
  from "3.IH" [OF call refl refl ok more] fetched show ?case by (simp add: fetchable_def)
qed

text \<open>
  Claim C10. The call has reached the pass-through of planes (a plane is requested, the
  region of definition is known, the node is no identity). If the node produces none of
  the requested planes (\<open>requestedComponents\<close> stays empty) and every fetch upstream
  succeeds (\<open>upstreamPlanes\<close>: every plane to fetch is asked of its node, which returns ok
  with a plane), the call returns \<open>eRenderRoIRetCodeFailed\<close>, in the state the last call
  upstream left, and \<open>*outputPlanes\<close> holds, after the planes it came with, the planes the
  calls upstream returned, in the order of the calls, one for every plane to fetch that
  has a node.
\<close>

theorem renderRoI_only_pass_through:
  assumes comps: "a_components args \<noteq> []"
    and rod: "getRoDSection (getRegionOfDefinition_public (Suc fuel) h g) n args (localsAtRoD h g n args s)
                outputPlanes (stateAtRoD g n args s) = Some (Inr l1, s1)"
    and ident: "identitySection h g (renderRoI fuel h g rest) n args l1 outputPlanes s1 = Some (Inr l2, s2)"
    and split: "splitRequested h (g n) n (getComponentsAvailable (g n) (a_time args)) (a_components args) [] []
                  = ([], toFetch)"
    and fetch: "upstreamPlanes (renderRoI fuel h g rest) args toFetch s2 = Some (fetched, s3)"
  shows "renderRoI (Suc fuel) h g rest n args outputPlanes s =
           Some ((Returned eRenderRoIRetCodeFailed, outputPlanes @ fetched), s3)
         \<and> length fetched = length (fetchable toFetch)"
proof -
  have sec: "passThroughSection h g (renderRoI fuel h g rest) n args outputPlanes s2 =
               Some (Inl (Returned eRenderRoIRetCodeFailed, outputPlanes @ fetched), s3)"
    using split fetchUpstream_upstreamPlanes [OF fetch, of outputPlanes]
    by (simp add: passThroughSection_def)
  have "renderRoI (Suc fuel) h g rest n args outputPlanes s =
           Some ((Returned eRenderRoIRetCodeFailed, outputPlanes @ fetched), s3)"
    using comps rod ident sec
    by (simp add: renderRoI_body_def localsAtRoD_def stateAtRoD_def Let_def)
  with upstreamPlanes_length [OF fetch] show ?thesis by simp
qed

lemma pass_rod:
  "getRoDSection (getRegionOfDefinition_public (Suc (Suc 0)) testHost passGraph) 0 passArgs
      (localsAtRoD testHost passGraph 0 passArgs testState) [] (stateAtRoD passGraph 0 passArgs testState)
     = Some (Inr passLocals, passState1)"
  by (simp add: run_defs idArgs_def passArgs_def passGraph_def passLocals_def passState1_def fun_eq_iff)

lemma pass_ident:
  "identitySection testHost passGraph (renderRoI (Suc 0) testHost passGraph stubRest) 0 passArgs passLocals []
      passState1 = Some (Inr passLocals, passState2)"
  by (simp add: run_defs idArgs_def passArgs_def passGraph_def passLocals_def passState1_def passState2_def
      fun_eq_iff)

lemma pass_split:
  "splitRequested testHost (passGraph 0) 0 (getComponentsAvailable (passGraph 0) (a_time passArgs))
      (a_components passArgs) [] [] = ([], [(Depth, Some 2), (RGBA, Some 1)])"
  by (simp add: run_defs idArgs_def passArgs_def passGraph_def Depth_def)

lemma pass_call_depth:
  "renderRoI (Suc 0) testHost passGraph stubRest 2 (passArgs\<lparr>a_components := [Depth]\<rparr>) [] passState2
     = Some ((Returned eRenderRoIRetCodeOk, [12]), stubRendered 2 passState2)"
  by (simp add: run_defs idArgs_def passArgs_def passGraph_def Depth_def stubRest_def stubRendered_def
      passState2_def passState1_def getImageFromDiskCache_def fun_eq_iff)

lemma pass_call_colour:
  "renderRoI (Suc 0) testHost passGraph stubRest 1 (passArgs\<lparr>a_components := [RGBA]\<rparr>) []
      (stubRendered 2 passState2)
     = Some ((Returned eRenderRoIRetCodeOk, [11]), passState3)"
  by (simp add: run_defs idArgs_def passArgs_def passGraph_def Depth_def stubRest_def stubRendered_def
      passState3_def passState2_def passState1_def getImageFromDiskCache_def fun_eq_iff)

lemma pass_fetch:
  "upstreamPlanes (renderRoI (Suc 0) testHost passGraph stubRest) passArgs [(Depth, Some 2), (RGBA, Some 1)]
      passState2 = Some ([12, 11], passState3)"
  using pass_call_depth pass_call_colour by (simp del: renderRoI.simps)

text \<open>
  A run: node 0 is asked the colour plane and the depth plane. It fetches the depth plane
  from node 2 and then the colour plane from node 1, which render them as images 12 and
  11; the call on node 0 fails with these two planes appended, in that order, and the
  two calls of render actions are those of node 2 and of node 1.
\<close>

theorem renderRoI_only_pass_through_witness:
  "a_components passArgs \<noteq> []
   \<and> splitRequested testHost (passGraph 0) 0 (getComponentsAvailable (passGraph 0) (a_time passArgs))
        (a_components passArgs) [] [] = ([], [(Depth, Some 2), (RGBA, Some 1)])
   \<and> upstreamPlanes (renderRoI (Suc 0) testHost passGraph stubRest) passArgs
        [(Depth, Some 2), (RGBA, Some 1)] passState2 = Some ([12, 11], passState3)
   \<and> renderRoI (Suc 0) testHost passGraph stubRest 2 (passArgs\<lparr>a_components := [Depth]\<rparr>) [] passState2
      = Some ((Returned eRenderRoIRetCodeOk, [12]), stubRendered 2 passState2)
   \<and> renderRoI (Suc 0) testHost passGraph stubRest 1 (passArgs\<lparr>a_components := [RGBA]\<rparr>) []
        (stubRendered 2 passState2)
      = Some ((Returned eRenderRoIRetCodeOk, [11]), passState3)
   \<and> renderRoI (Suc (Suc 0)) testHost passGraph stubRest 0 passArgs [] testState
      = Some ((Returned eRenderRoIRetCodeFailed, [12, 11]), passState3)
   \<and> st_renderCalls passState3
      = [(1, 5, \<lparr>ix1 = 100, iy1 = 100, ix2 = 150, iy2 = 150\<rparr>), (2, 5, \<lparr>ix1 = 100, iy1 = 100, ix2 = 150, iy2 = 150\<rparr>)]"
proof -
  have comps: "a_components passArgs \<noteq> []" by (simp add: passArgs_def)
  have calls: "st_renderCalls passState3
      = [(1, 5, \<lparr>ix1 = 100, iy1 = 100, ix2 = 150, iy2 = 150\<rparr>), (2, 5, \<lparr>ix1 = 100, iy1 = 100, ix2 = 150, iy2 = 150\<rparr>)]"
    by (simp add: passState3_def stubRendered_def passState2_def passState1_def stateAtRoD_def
          initFrameRenderArgs_def updActionsCache_def testState_def)
  from renderRoI_only_pass_through [OF comps pass_rod pass_ident pass_split pass_fetch, THEN conjunct1]
  have "renderRoI (Suc (Suc 0)) testHost passGraph stubRest 0 passArgs [] testState
      = Some ((Returned eRenderRoIRetCodeFailed, [12, 11]), passState3)"
    by (simp del: renderRoI.simps)
  with comps pass_split pass_fetch pass_call_depth pass_call_colour calls show ?thesis by blast
qed

lemma fetchUpstream_nothing:
  "fetchable toFetch = [] \<Longrightarrow> fetchUpstream rec args toFetch outputPlanes s = Some (Inr outputPlanes, s)"
  by (induction rec args toFetch outputPlanes s rule: fetchUpstream.induct)
     (auto simp: fetchable_def)

lemma identitySection_goes_on:
  "identitySection h g rec n args l outputPlanes s = Some (Inr l', s') \<Longrightarrow> sameStore s s'"
proof -
  assume a: "identitySection h g rec n args l outputPlanes s = Some (Inr l', s')"
  obtain r s1 where i: "isIdentity_public h g n (l_nodeHash l) (a_time args) (l_renderMappedScale l) (l_rod l)
             (l_par l) (a_view args) s = (r, s1)"
    by (cases "isIdentity_public h g n (l_nodeHash l) (a_time args) (l_renderMappedScale l) (l_rod l)
             (l_par l) (a_view args) s")
  from a i have "s' = s1"
    by (auto simp: identitySection_def Let_def split: ActionResult.splits prod.splits if_splits option.splits)
  with isIdentity_public_keeps [OF i] show ?thesis by simp
qed

lemma roiSection_empty:
  "RectI_isNull (a_roi args) \<Longrightarrow> supportsTiles (g n) \<Longrightarrow> \<not> useImageAsOutput l \<Longrightarrow>
   roiSection h g n args l = None"
  by (auto simp: roiSection_def useImageAsOutput_def RectI_intersect_def Let_def)

lemma roiSection_untiled:
  "\<not> supportsTiles (g n) \<Longrightarrow> roiSection h g n args l \<noteq> None"
  by (simp add: roiSection_def Let_def)

lemma lookupSection_empty:
  "RectI_isNull (a_roi args) \<Longrightarrow>
   (case lookupSection h g n args r requested outputPlanes s of
      (Inl res, s') \<Rightarrow> res = (Returned eRenderRoIRetCodeFailed, outputPlanes) \<or>
                       res = (NullDereference, outputPlanes)
    | (Inr x, s') \<Rightarrow> x_isPlaneCached x \<noteq> None)"
  by (auto simp: lookupSection_def Let_def RoIRender.defs split: prod.splits option.splits list.splits)

lemma lookupPlanes_some:
  "\<forall>c \<in> set requested. isColorPlane h c \<longrightarrow> find (isColorPlane h) outputComponents \<noteq> None \<Longrightarrow>
   fst (lookupPlanes h g n args r key outputComponents outputDepth requested cl s) \<noteq> None"
proof (induction requested arbitrary: cl s)
  case Nil
  then show ?case by simp
next
  case (Cons it rest)
  from Cons.prems have rest: "\<forall>c \<in> set rest. isColorPlane h c \<longrightarrow> find (isColorPlane h) outputComponents \<noteq> None"
    by simp
  from Cons.prems obtain components where
    c: "(if \<not> isColorPlane h it then Some it else find (isColorPlane h) outputComponents) = Some components"
    by (cases "isColorPlane h it") auto
  show ?case
    unfolding lookupPlanes.simps c
    by (simp only: option.case Let_def split_def) (rule Cons.IH [OF rest])
qed

lemma lookupSection_fails:
  assumes "RectI_isNull (a_roi args)"
    and "\<forall>c \<in> set requested. isColorPlane h c \<longrightarrow>
           find (isColorPlane h) (fst (getPreferredDepthAndComponents (g n))) \<noteq> None"
  shows "case lookupSection h g n args r requested outputPlanes s of
           (Inl res, s') \<Rightarrow> res = (Returned eRenderRoIRetCodeFailed, outputPlanes)
         | (Inr x, s') \<Rightarrow> x_isPlaneCached x \<noteq> None"
proof -
  obtain outputComponents outputDepth
    where pref: "getPreferredDepthAndComponents (g n) = (outputComponents, outputDepth)"
    by (cases "getPreferredDepthAndComponents (g n)")
  let ?s0 = "evictLastRendered n (l_nodeHash r) (isDiskCacheNode (g n)) s"
  let ?key = "\<lparr>key_nodeHash = l_nodeHash r,
                 key_frameVaryingOrAnimated = isFrameVaryingOrAnimated_Recursive (g n),
                 key_time = a_time args, key_view = a_view args\<rparr>"
  let ?cl = "\<lparr>cl_byPassCache = l_byPassCache r, cl_attemptToLookupCache = True, cl_rod = l_rod r,
                 cl_framesNeeded = [], cl_planes = []\<rparr>"
  from assms(2) pref
  have "fst (lookupPlanes h g n args r ?key outputComponents outputDepth requested ?cl ?s0) \<noteq> None"
    by (intro lookupPlanes_some) simp
  then obtain cl s1
    where run: "lookupPlanes h g n args r ?key outputComponents outputDepth requested ?cl ?s0 = (Some cl, s1)"
    by (cases "lookupPlanes h g n args r ?key outputComponents outputDepth requested ?cl ?s0") auto
  from assms(1) pref run show ?thesis
    by (auto simp: lookupSection_def Let_def RoIRender.defs split: list.splits)
qed

text \<open>
  Claim C8, as the code has it. The requested rectangle is empty and the call has reached
  the clipping of the region of interest (the region of definition is known, the node is no
  identity and produces a requested plane). If the effect supports tiles, the call returns
  \<open>eRenderRoIRetCodeOk\<close> there, with the planes and the state the pass-through left: when
  it renders at the requested scale, and also when the full-scale image is the output,
  provided the requested rectangle is still empty once converted to the pixels of that
  image. This node then looks nothing up, allocates nothing and renders nothing; with no
  plane to fetch upstream the planes are the ones passed in and the images, caches and
  render calls are as at the entry. If the effect does not support tiles, the region of
  interest is the bounds of the image (the pixels enclosing the region of definition, at
  level 0 when the full-scale image is the output, else at the requested level) and the
  call goes on. Whenever the call goes on to the cache look-up, it ends there unless the
  first plane was found in the cache, and only then does it go on to the rest of the
  function: it returns \<open>eRenderRoIRetCodeFailed\<close> with the planes the pass-through left,
  or it dereferences a null pointer; it returns \<open>eRenderRoIRetCodeFailed\<close> when the
  preferred components of the node hold a colour plane or no colour plane is requested.
\<close>

theorem renderRoI_empty_roi:
  assumes comps: "a_components args \<noteq> []"
    and rod: "getRoDSection (getRegionOfDefinition_public (Suc fuel) h g) n args (localsAtRoD h g n args s)
                outputPlanes (stateAtRoD g n args s) = Some (Inr l1, s1)"
    and ident: "identitySection h g (renderRoI fuel h g rest) n args l1 outputPlanes s1 = Some (Inr l2, s2)"
    and pass: "passThroughSection h g (renderRoI fuel h g rest) n args outputPlanes s2
                 = Some (Inr (requested, outputPlanes'), s3)"
    and empty: "RectI_isNull (a_roi args)"
  shows "(supportsTiles (g n) \<and> \<not> useImageAsOutput l2 \<longrightarrow>
            renderRoI (Suc fuel) h g rest n args outputPlanes s =
              Some ((Returned eRenderRoIRetCodeOk, outputPlanes'), s3))
       \<and> (supportsTiles (g n) \<and> useImageAsOutput l2
          \<and> RectI_isNull (toPixelEnclosing h
                (toCanonical h (a_roi args) (a_mipMapLevel args) (l_par l2) (l_rod l2)) 0 (l_par l2)) \<longrightarrow>
            renderRoI (Suc fuel) h g rest n args outputPlanes s =
              Some ((Returned eRenderRoIRetCodeOk, outputPlanes'), s3))
       \<and> (\<not> supportsTiles (g n) \<longrightarrow>
            map_option r_roi (roiSection h g n args l2) =
              Some (toPixelEnclosing h (l_rod l2)
                      (if useImageAsOutput l2 then 0 else a_mipMapLevel args) (l_par l2)))
       \<and> (\<forall>r. roiSection h g n args l2 = Some r \<longrightarrow>
            (case lookupSection h g n args r requested outputPlanes' s3 of
               (Inl res, s4) \<Rightarrow>
                  renderRoI (Suc fuel) h g rest n args outputPlanes s = Some (res, s4) \<and>
                  (res = (Returned eRenderRoIRetCodeFailed, outputPlanes') \<or>
                   res = (NullDereference, outputPlanes')) \<and>
                  ((\<forall>c \<in> set requested. isColorPlane h c \<longrightarrow>
                       find (isColorPlane h) (fst (getPreferredDepthAndComponents (g n))) \<noteq> None) \<longrightarrow>
                   res = (Returned eRenderRoIRetCodeFailed, outputPlanes'))
             | (Inr x, s4) \<Rightarrow>
                  x_isPlaneCached x \<noteq> None \<and>
                  renderRoI (Suc fuel) h g rest n args outputPlanes s =
                    rest (renderRoI fuel h g rest) n args x outputPlanes' s4))
       \<and> (fetchable (snd (splitRequested h (g n) n (getComponentsAvailable (g n) (a_time args))
                             (a_components args) [] [])) = [] \<longrightarrow>
            outputPlanes' = outputPlanes \<and> sameStore s s3)"
proof -
  have body: "renderRoI (Suc fuel) h g rest n args outputPlanes s =
      (case roiSection h g n args l2 of
         None \<Rightarrow> Some ((Returned eRenderRoIRetCodeOk, outputPlanes'), s3)
       | Some r \<Rightarrow>
           (case lookupSection h g n args r requested outputPlanes' s3 of
              (Inl res, s4) \<Rightarrow> Some (res, s4)
            | (Inr x, s4) \<Rightarrow> rest (renderRoI fuel h g rest) n args x outputPlanes' s4))"
    using comps rod ident pass
    by (simp add: renderRoI_body_def localsAtRoD_def stateAtRoD_def Let_def)
  have a: "supportsTiles (g n) \<and> \<not> useImageAsOutput l2 \<longrightarrow>
            renderRoI (Suc fuel) h g rest n args outputPlanes s =
              Some ((Returned eRenderRoIRetCodeOk, outputPlanes'), s3)"
    using body roiSection_empty [OF empty] by simp
  have a': "supportsTiles (g n) \<and> useImageAsOutput l2
          \<and> RectI_isNull (toPixelEnclosing h
                (toCanonical h (a_roi args) (a_mipMapLevel args) (l_par l2) (l_rod l2)) 0 (l_par l2)) \<longrightarrow>
            renderRoI (Suc fuel) h g rest n args outputPlanes s =
              Some ((Returned eRenderRoIRetCodeOk, outputPlanes'), s3)"
  proof
    assume h: "supportsTiles (g n) \<and> useImageAsOutput l2
          \<and> RectI_isNull (toPixelEnclosing h
                (toCanonical h (a_roi args) (a_mipMapLevel args) (l_par l2) (l_rod l2)) 0 (l_par l2))"
    then have "roiSection h g n args l2 = None"
      by (simp add: roiSection_def useImageAsOutput_def RectI_intersect_def Let_def)
    with body show "renderRoI (Suc fuel) h g rest n args outputPlanes s =
              Some ((Returned eRenderRoIRetCodeOk, outputPlanes'), s3)"
      by simp
  qed
  have b: "\<not> supportsTiles (g n) \<longrightarrow>
            map_option r_roi (roiSection h g n args l2) =
              Some (toPixelEnclosing h (l_rod l2)
                      (if useImageAsOutput l2 then 0 else a_mipMapLevel args) (l_par l2))"
    by (simp add: roiSection_def useImageAsOutput_def Let_def RoILocals.defs RoIRender.defs)
  have c: "\<forall>r. roiSection h g n args l2 = Some r \<longrightarrow>
            (case lookupSection h g n args r requested outputPlanes' s3 of
               (Inl res, s4) \<Rightarrow>
                  renderRoI (Suc fuel) h g rest n args outputPlanes s = Some (res, s4) \<and>
                  (res = (Returned eRenderRoIRetCodeFailed, outputPlanes') \<or>
                   res = (NullDereference, outputPlanes')) \<and>
                  ((\<forall>c \<in> set requested. isColorPlane h c \<longrightarrow>
                       find (isColorPlane h) (fst (getPreferredDepthAndComponents (g n))) \<noteq> None) \<longrightarrow>
                   res = (Returned eRenderRoIRetCodeFailed, outputPlanes'))
             | (Inr x, s4) \<Rightarrow>
                  x_isPlaneCached x \<noteq> None \<and>
                  renderRoI (Suc fuel) h g rest n args outputPlanes s =
                    rest (renderRoI fuel h g rest) n args x outputPlanes' s4)"
  proof (intro allI impI)
    fix r assume r: "roiSection h g n args l2 = Some r"
    obtain y s4 where ls: "lookupSection h g n args r requested outputPlanes' s3 = (y, s4)"
      by (cases "lookupSection h g n args r requested outputPlanes' s3")
    show "case lookupSection h g n args r requested outputPlanes' s3 of
               (Inl res, s4) \<Rightarrow>
                  renderRoI (Suc fuel) h g rest n args outputPlanes s = Some (res, s4) \<and>
                  (res = (Returned eRenderRoIRetCodeFailed, outputPlanes') \<or>
                   res = (NullDereference, outputPlanes')) \<and>
                  ((\<forall>c \<in> set requested. isColorPlane h c \<longrightarrow>
                       find (isColorPlane h) (fst (getPreferredDepthAndComponents (g n))) \<noteq> None) \<longrightarrow>
                   res = (Returned eRenderRoIRetCodeFailed, outputPlanes'))
             | (Inr x, s4) \<Rightarrow>
                  x_isPlaneCached x \<noteq> None \<and>
                  renderRoI (Suc fuel) h g rest n args outputPlanes s =
                    rest (renderRoI fuel h g rest) n args x outputPlanes' s4"
    proof (cases y)
      case (Inl res)
      from lookupSection_empty [OF empty, where h = h and g = g and n = n and r = r and
          requested = requested and outputPlanes = outputPlanes' and s = s3] ls Inl
      have either: "res = (Returned eRenderRoIRetCodeFailed, outputPlanes') \<or>
                    res = (NullDereference, outputPlanes')"
        by simp
      have exact: "(\<forall>c \<in> set requested. isColorPlane h c \<longrightarrow>
                       find (isColorPlane h) (fst (getPreferredDepthAndComponents (g n))) \<noteq> None) \<longrightarrow>
                   res = (Returned eRenderRoIRetCodeFailed, outputPlanes')"
      proof
        assume col: "\<forall>c \<in> set requested. isColorPlane h c \<longrightarrow>
                       find (isColorPlane h) (fst (getPreferredDepthAndComponents (g n))) \<noteq> None"
        from lookupSection_fails [where h = h and g = g and n = n and r = r and
            outputPlanes = outputPlanes' and s = s3, OF empty col] ls Inl
        show "res = (Returned eRenderRoIRetCodeFailed, outputPlanes')" by simp
      qed
      from body r ls Inl have "renderRoI (Suc fuel) h g rest n args outputPlanes s = Some (res, s4)"
        by simp
      with either exact ls Inl show ?thesis by simp
    next
      case (Inr x)
      from lookupSection_empty [OF empty, where h = h and g = g and n = n and r = r and
          requested = requested and outputPlanes = outputPlanes' and s = s3] ls Inr
      have "x_isPlaneCached x \<noteq> None" by simp
      moreover from body r ls Inr
      have "renderRoI (Suc fuel) h g rest n args outputPlanes s =
              rest (renderRoI fuel h g rest) n args x outputPlanes' s4"
        by simp
      ultimately show ?thesis using ls Inr by simp
    qed
  qed
  have d: "fetchable (snd (splitRequested h (g n) n (getComponentsAvailable (g n) (a_time args))
                             (a_components args) [] [])) = [] \<longrightarrow>
            outputPlanes' = outputPlanes \<and> sameStore s s3"
  proof
    assume nofetch: "fetchable (snd (splitRequested h (g n) n (getComponentsAvailable (g n) (a_time args))
                             (a_components args) [] [])) = []"
    obtain req toFetch
      where sp: "splitRequested h (g n) n (getComponentsAvailable (g n) (a_time args))
                   (a_components args) [] [] = (req, toFetch)"
      by (cases "splitRequested h (g n) n (getComponentsAvailable (g n) (a_time args))
                   (a_components args) [] []")
    with nofetch have "fetchable toFetch = []" by simp
    then have "fetchUpstream (renderRoI fuel h g rest) args toFetch outputPlanes s2
                 = Some (Inr outputPlanes, s2)"
      by (rule fetchUpstream_nothing)
    with pass sp have "outputPlanes' = outputPlanes" "s3 = s2"
      by (simp_all add: passThroughSection_def split: if_splits)
    moreover have "sameStore s s2"
      using stateAtRoD_keeps [of s g n args]
        getRoDSection_keeps [OF getRegionOfDefinition_public_keeps rod]
        identitySection_goes_on [OF ident]
      by (meson sameStore_trans)
    ultimately show "outputPlanes' = outputPlanes \<and> sameStore s s3" by simp
  qed
  from a a' b c d show ?thesis by blast
qed

lemma empty_rod:
  "g = tiledGraph \<or> g = untiledGraph \<Longrightarrow>
   getRoDSection (getRegionOfDefinition_public (Suc 0) testHost g) 0 emptyArgs
      (localsAtRoD testHost g 0 emptyArgs testState) [] (stateAtRoD g 0 emptyArgs testState)
     = Some (Inr (emptyLocals g), emptyState1 g)"
  by (auto simp: run_defs emptyArgs_def tiledGraph_def untiledGraph_def emptyLocals_def emptyState1_def
      fun_eq_iff)

lemma empty_ident:
  "g = tiledGraph \<or> g = untiledGraph \<Longrightarrow>
   identitySection testHost g (renderRoI 0 testHost g noRest) 0 emptyArgs (emptyLocals g) [] (emptyState1 g)
     = Some (Inr (emptyLocals g), emptyState2 g)"
  by (auto simp: run_defs emptyArgs_def tiledGraph_def untiledGraph_def emptyLocals_def emptyState1_def
      emptyState2_def fun_eq_iff)

lemma empty_pass:
  "g = tiledGraph \<or> g = untiledGraph \<Longrightarrow>
   passThroughSection testHost g (renderRoI 0 testHost g noRest) 0 emptyArgs [] (emptyState2 g)
     = Some (Inr ([RGBA], []), emptyState2 g)"
  by (auto simp: run_defs emptyArgs_def tiledGraph_def untiledGraph_def)

lemma full_rod:
  "getRoDSection (getRegionOfDefinition_public (Suc 0) testHost fullGraph) 0 fullArgs
      (localsAtRoD testHost fullGraph 0 fullArgs fullState) [] (stateAtRoD fullGraph 0 fullArgs fullState)
     = Some (Inr fullLocals, fullState1)"
  by (simp add: run_defs emptyArgs_def fullArgs_def fullGraph_def fullState_def fullLocals_def fullState1_def
      fun_eq_iff)

lemma full_ident:
  "identitySection testHost fullGraph (renderRoI 0 testHost fullGraph noRest) 0 fullArgs fullLocals []
      fullState1 = Some (Inr fullLocals, fullState2)"
  by (simp add: run_defs emptyArgs_def fullArgs_def fullGraph_def fullState_def fullLocals_def fullState1_def
      fullState2_def fun_eq_iff)

lemma full_pass:
  "passThroughSection testHost fullGraph (renderRoI 0 testHost fullGraph noRest) 0 fullArgs [] fullState2
     = Some (Inr ([RGBA], []), fullState2)"
  by (simp add: run_defs emptyArgs_def fullArgs_def fullGraph_def)

lemma empty_untiled_run:
  "map_option fst (renderRoI (Suc 0) testHost untiledGraph noRest 0 emptyArgs [] testState)
     = Some (Returned eRenderRoIRetCodeFailed, [])"
  by (simp add: run_defs emptyArgs_def untiledGraph_def RectI_null_def
      getImageFromDiskCache_def)

text \<open>
  Three runs with an empty rectangle. On an effect with tiles that renders at the requested
  scale the call returns ok and the images are untouched. On an effect with tiles that
  renders at full scale the converted rectangle is empty too and the call returns ok. On
  an effect without tiles the region of interest is the bounds of the image, from (100,
  100) to (200, 200), and the call fails at the cache look-up.
\<close>

theorem renderRoI_empty_roi_witness:
  "a_components emptyArgs \<noteq> [] \<and> RectI_isNull (a_roi emptyArgs) \<and> RectI_isNull (a_roi fullArgs)
   \<and> supportsTiles (tiledGraph 0) \<and> \<not> useImageAsOutput (emptyLocals tiledGraph)
   \<and> renderRoI (Suc 0) testHost tiledGraph noRest 0 emptyArgs [] testState
      = Some ((Returned eRenderRoIRetCodeOk, []), emptyState2 tiledGraph)
   \<and> sameStore testState (emptyState2 tiledGraph)
   \<and> supportsTiles (fullGraph 0) \<and> useImageAsOutput fullLocals
   \<and> RectI_isNull (toPixelEnclosing testHost
        (toCanonical testHost (a_roi fullArgs) (a_mipMapLevel fullArgs) (l_par fullLocals) (l_rod fullLocals))
        0 (l_par fullLocals))
   \<and> renderRoI (Suc 0) testHost fullGraph noRest 0 fullArgs [] fullState
      = Some ((Returned eRenderRoIRetCodeOk, []), fullState2)
   \<and> \<not> supportsTiles (untiledGraph 0)
   \<and> map_option r_roi (roiSection testHost untiledGraph 0 emptyArgs (emptyLocals untiledGraph))
      = Some \<lparr>ix1 = 100, iy1 = 100, ix2 = 200, iy2 = 200\<rparr>
   \<and> map_option fst (renderRoI (Suc 0) testHost untiledGraph noRest 0 emptyArgs [] testState)
      = Some (Returned eRenderRoIRetCodeFailed, [])"
proof -
  have comps: "a_components emptyArgs \<noteq> []" by (simp add: emptyArgs_def testArgs_def)
  have comps': "a_components fullArgs \<noteq> []" by (simp add: fullArgs_def emptyArgs_def testArgs_def)
  have empty: "RectI_isNull (a_roi emptyArgs)"
    by (simp add: emptyArgs_def RectI_null_def RectI_isNull_def)
  have empty': "RectI_isNull (a_roi fullArgs)"
    by (simp add: fullArgs_def emptyArgs_def RectI_null_def RectI_isNull_def)
  have tiles: "supportsTiles (tiledGraph 0)" "\<not> supportsTiles (untiledGraph 0)" "supportsTiles (fullGraph 0)"
    by (simp_all add: tiledGraph_def untiledGraph_def fullGraph_def testEffect_def)
  have scale: "\<not> useImageAsOutput (emptyLocals tiledGraph)"
    by (simp add: useImageAsOutput_def emptyLocals_def localsAtRoD_def initLocals_def Let_def
        initFrameRenderArgs_def testState_def emptyArgs_def testArgs_def)
  have scale': "useImageAsOutput fullLocals"
    by (simp add: useImageAsOutput_def fullLocals_def localsAtRoD_def initLocals_def Let_def
        initFrameRenderArgs_def testState_def fullState_def fullArgs_def emptyArgs_def testArgs_def
        fullGraph_def testEffect_def)
  have conv: "RectI_isNull (toPixelEnclosing testHost
        (toCanonical testHost (a_roi fullArgs) (a_mipMapLevel fullArgs) (l_par fullLocals) (l_rod fullLocals))
        0 (l_par fullLocals))"
    by (simp add: testHost_def fullArgs_def emptyArgs_def RectI_null_def RectI_isNull_def)
  have nofetch: "fetchable (snd (splitRequested testHost (tiledGraph 0) 0
                   (getComponentsAvailable (tiledGraph 0) (a_time emptyArgs)) (a_components emptyArgs) [] [])) = []"
    by (simp add: fetchable_def tiledGraph_def testEffect_def emptyArgs_def testArgs_def)
  note tiled = renderRoI_empty_roi [OF comps empty_rod [OF disjI1 [OF refl]]
      empty_ident [OF disjI1 [OF refl]] empty_pass [OF disjI1 [OF refl]] empty]
  note untiled = renderRoI_empty_roi [OF comps empty_rod [OF disjI2 [OF refl]]
      empty_ident [OF disjI2 [OF refl]] empty_pass [OF disjI2 [OF refl]] empty]
  note full = renderRoI_empty_roi [OF comps' full_rod full_ident full_pass empty']
  from tiled tiles scale nofetch
  have a: "renderRoI (Suc 0) testHost tiledGraph noRest 0 emptyArgs [] testState
      = Some ((Returned eRenderRoIRetCodeOk, []), emptyState2 tiledGraph)"
    and b: "sameStore testState (emptyState2 tiledGraph)"
    by blast+
  from full tiles scale' conv
  have c: "renderRoI (Suc 0) testHost fullGraph noRest 0 fullArgs [] fullState
      = Some ((Returned eRenderRoIRetCodeOk, []), fullState2)"
    by blast
  from untiled tiles
  have "map_option r_roi (roiSection testHost untiledGraph 0 emptyArgs (emptyLocals untiledGraph))
      = Some (toPixelEnclosing testHost (l_rod (emptyLocals untiledGraph))
                (if useImageAsOutput (emptyLocals untiledGraph) then 0 else a_mipMapLevel emptyArgs)
                (l_par (emptyLocals untiledGraph)))"
    by blast
  then have d: "map_option r_roi (roiSection testHost untiledGraph 0 emptyArgs (emptyLocals untiledGraph))
      = Some \<lparr>ix1 = 100, iy1 = 100, ix2 = 200, iy2 = 200\<rparr>"
    by (simp add: testHost_def emptyLocals_def R100_def emptyArgs_def testArgs_def)
  from comps empty empty' tiles scale scale' conv a b c d empty_untiled_run show ?thesis by blast
qed

text \<open>
  The claim as stated fails on the third run: the rectangle is empty, nothing is in the
  cache, and the call returns \<open>eRenderRoIRetCodeFailed\<close> (line 2482).
\<close>

theorem renderRoI_empty_roi_fails:
  "RectI_isNull (a_roi emptyArgs)
   \<and> \<not> supportsTiles (untiledGraph 0)
   \<and> map_option fst (renderRoI (Suc 0) testHost untiledGraph noRest 0 emptyArgs [] testState)
      = Some (Returned eRenderRoIRetCodeFailed, [])"
  using empty_untiled_run
  by (simp add: emptyArgs_def RectI_null_def RectI_isNull_def untiledGraph_def testEffect_def)

section \<open>The render of one rectangle\<close>

text \<open>
  \<open>tiledRenderingFunctor\<close> (lines 3521 to 3819) renders one rectangle of the planes of a
  node: it calls the render action of the plug-in and marks the bitmaps of the images.
  The code is read with \<open>NATRON_ENABLE_TRIMAP\<close> set: the other branches name variables
  (\<open>renderMappedImage\<close>, \<open>downscaledImage\<close>) that the function does not declare.
\<close>

datatype RenderingFunctorRetEnum =
  eRenderingFunctorRetFailed | eRenderingFunctorRetOK | eRenderingFunctorRetTakeImageLock
  | eRenderingFunctorRetAborted

type_synonym Planes = "(ImageComponents \<times> PlaneToRender) list"

text \<open>The cells of a bitmap that a rectangle covers: the upper bounds are excluded.\<close>

definition RectI_covers :: "RectI \<Rightarrow> int \<times> int \<Rightarrow> bool" where
  "RectI_covers r c = (ix1 r \<le> fst c \<and> fst c < ix2 r \<and> iy1 r \<le> snd c \<and> snd c < iy2 r)"

text \<open>
  Modelled from the spec: the class \<open>Image\<close> is not under \<open>src/\<close>. \<open>markForRendering\<close> sets
  the cells a rectangle covers from unrendered to rendering, \<open>markForRendered\<close> sets them
  to rendered, and \<open>clearBitmap\<close> reverts the rendering ones to unrendered.
\<close>

definition markForRendering :: "RectI \<Rightarrow> Image \<Rightarrow> Image" where
  "markForRendering r img =
     img\<lparr>img_bitmap := (\<lambda>c. if RectI_covers r c \<and> img_bitmap img c = Unrendered then Rendering
                             else img_bitmap img c)\<rparr>"

definition markForRendered :: "RectI \<Rightarrow> Image \<Rightarrow> Image" where
  "markForRendered r img =
     img\<lparr>img_bitmap := (\<lambda>c. if RectI_covers r c then Rendered else img_bitmap img c)\<rparr>"

definition clearBitmap :: "RectI \<Rightarrow> Image \<Rightarrow> Image" where
  "clearBitmap r img =
     img\<lparr>img_bitmap := (\<lambda>c. if RectI_covers r c \<and> img_bitmap img c = Rendering then Unrendered
                             else img_bitmap img c)\<rparr>"

text \<open>A call of a method that changes the image a pointer refers to.\<close>

definition onImage :: "ImagePtr \<Rightarrow> (Image \<Rightarrow> Image) \<Rightarrow> State \<Rightarrow> State" where
  "onImage p f s = s\<lparr>st_images := (st_images s)(p := f (st_images s p))\<rparr>"

text \<open>
  What the worker asks of an image that is not under \<open>src/\<close> and that the bitmap alone
  does not decide is taken as a parameter: the smallest rectangle left to render within a
  rectangle, and the same with the flag telling that a part is being rendered elsewhere.
\<close>

record ImageQueries =
  getMinimalRect :: "RectI \<Rightarrow> Image \<Rightarrow> RectI"
  getMinimalRect_trimap :: "RectI \<Rightarrow> Image \<Rightarrow> RectI \<times> bool"

text \<open>
  The render action of the plug-in, reached through \<open>render_public\<close> (line 4392): it is
  given the time, the two scales, the rectangle, the view, the two flags and the images
  to render into; it returns a status and may change the state (it may allocate planes
  with \<open>allocateImagePlaneAndSetInThreadLocalStorage\<close>). \<open>aborted\<close> (line 828) reads flags
  of the application that are not modelled.
\<close>

type_synonym RenderAction =
  "NodeId \<Rightarrow> int \<Rightarrow> real \<Rightarrow> real \<Rightarrow> RectI \<Rightarrow> int \<Rightarrow> bool \<Rightarrow> bool \<Rightarrow> ImagePtr list \<Rightarrow> State \<Rightarrow> StatusEnum \<times> State"

text \<open>
  The loop that gives every plane its temporary image (lines 3570 to 3588 and 3683 to
  3702): a new image without a bitmap over the rectangle when the render-mapped image
  uses a bitmap, else the render-mapped image itself. The fields the constructor is not
  given are left as in the render-mapped image; they are not read.
\<close>

fun allocTmpImages :: "RectI \<Rightarrow> Planes \<Rightarrow> State \<Rightarrow> (Planes \<times> ImagePtr list \<times> State) option" where
  "allocTmpImages r [] s = Some ([], [], s)"
| "allocTmpImages r ((c, p) # ps) s =
     (case renderMappedImage p of
        None \<Rightarrow> None
      | Some m \<Rightarrow>
          (let (tmp, s1) =
                 (if img_usesBitMap (st_images s m)
                  then newImage ((st_images s m)\<lparr>img_bounds := r, img_usesBitMap := False,
                                                  img_bitmap := (\<lambda>c. Unrendered)\<rparr>) s
                  else (m, s))
           in case allocTmpImages r ps s1 of
                None \<Rightarrow> None
              | Some (ps', tmps, s2) \<Rightarrow> Some ((c, p\<lparr>tmpImage := Some tmp\<rparr>) # ps', tmp # tmps, s2)))"

text \<open>A rectangle of the downscaled image, in the pixels of the render-mapped image
  (lines 3601 to 3604).\<close>

definition toRenderMapped :: "Host \<Rightarrow> RectI \<Rightarrow> nat \<Rightarrow> real \<Rightarrow> RectD \<Rightarrow> RectI \<Rightarrow> RectI" where
  "toRenderMapped h r mipMapLevel par rod bounds =
     (let renderRectToRender = toPixelEnclosing h (toCanonical h r mipMapLevel par rod) 0 par
      in case RectI_intersect renderRectToRender bounds of
           Some x \<Rightarrow> x
         | None \<Rightarrow> renderRectToRender)"

text \<open>
  The rectangle to render of a worker launched on another thread (lines 3598 to 3671):
  the bitmap is read again, and a rectangle that grew meanwhile is not taken. It is
  returned with \<open>isBeingRenderedElseWhere\<close>.
\<close>

definition recomputeRect ::
  "Host \<Rightarrow> ImageQueries \<Rightarrow> ParallelRenderArgs \<Rightarrow> bool \<Rightarrow> bool \<Rightarrow> RectI \<Rightarrow> real \<Rightarrow> RectD \<Rightarrow> nat \<Rightarrow>
   Image \<Rightarrow> Image \<Rightarrow> RectI \<times> bool" where
  "recomputeRect h q frameArgs renderFullScaleThenDownscale renderUseScaleOneInputs
       downscaledRectToRender par rod mipMapLevel mapped down =
     (if renderFullScaleThenDownscale \<and> renderUseScaleOneInputs then
        (let initialRenderRect = toRenderMapped h downscaledRectToRender mipMapLevel par rod (img_bounds mapped);
             (minimal, elsewhere) =
               (if \<not> pa_canAbort frameArgs \<and> pa_isRenderResponseToUserInteraction frameArgs
                then getMinimalRect_trimap q initialRenderRect mapped
                else (getMinimalRect q initialRenderRect mapped, False))
         in (if \<not> RectI_contains initialRenderRect minimal then initialRenderRect else minimal, elsewhere))
      else
        (let (downscaledRectToRenderMinimal, elsewhere) =
               (if \<not> pa_canAbort frameArgs \<and> pa_isRenderResponseToUserInteraction frameArgs
                then getMinimalRect_trimap q downscaledRectToRender down
                else (getMinimalRect q downscaledRectToRender down, False))
         in if renderFullScaleThenDownscale then
              (if RectI_contains downscaledRectToRender downscaledRectToRenderMinimal
               then (toRenderMapped h downscaledRectToRenderMinimal mipMapLevel par rod (img_bounds mapped),
                     elsewhere)
               else (toRenderMapped h downscaledRectToRender mipMapLevel par rod (img_bounds mapped),
                     elsewhere))
            else
              (if RectI_contains downscaledRectToRender downscaledRectToRenderMinimal
               then (downscaledRectToRenderMinimal, elsewhere)
               else (downscaledRectToRender, elsewhere))))"

text \<open>
  The call of the render action the worker is about to make: its arguments, the state it
  is made in, and what the rest of the worker needs (the planes the caller is left with,
  \<open>isBeingRenderedElseWhere\<close>, the mipmap level of the downscaled image, and whether the
  worker holds a \<open>ScopedRenderArgs\<close> whose destructor runs when it returns).
\<close>

record RenderCallArgs =
  rc_time :: int
  rc_originalScale :: real
  rc_renderMappedScale :: real
  rc_renderRectToRender :: RectI
  rc_view :: int
  rc_tmpPlanes :: "ImagePtr list"
  rc_state :: State
  rc_planes :: Planes
  rc_isBeingRenderedElseWhere :: bool
  rc_mipMapLevel :: nat
  rc_scoped :: bool

text \<open>
  The worker up to the render action (lines 3535 to 3708). \<open>args\<close> is a reference: with
  an empty \<open>frameTLS\<close> the worker runs on the thread of \<open>renderRoIInternal\<close>, which passes
  its thread-local record (line 3261), and the planes are written there; else \<open>args\<close> is
  the record of the thread that launched the worker, and a copy of it becomes the
  thread-local record of the worker. \<open>Image::getScale\<close> is the scale of the mipmap level,
  which the marking in between does not change.
  The thread-local frame arguments of the other nodes and the input images, which the
  worker sets for the render action, are not modelled. \<open>None\<close> is undefined behaviour: no
  plane, or a null image pointer that the code dereferences.
\<close>

definition setUpSection ::
  "Host \<Rightarrow> ImageQueries \<Rightarrow> NodeId \<Rightarrow> RenderArgs \<Rightarrow> ParallelRenderArgs \<Rightarrow> (NodeId \<times> ParallelRenderArgs) list \<Rightarrow>
   bool \<Rightarrow> bool \<Rightarrow> RectI \<Rightarrow> real \<Rightarrow> Planes \<Rightarrow> State \<Rightarrow> (RenderingFunctorRetEnum + RenderCallArgs) option" where
  "setUpSection h q n args frameArgs frameTLS renderFullScaleThenDownscale renderUseScaleOneInputs
       downscaledRectToRender par planes s =
     (case planes of
        [] \<Rightarrow> None
      | (c, firstPlane) # others \<Rightarrow>
          (case (downscaleImage firstPlane, renderMappedImage firstPlane) of
             (Some down, Some mapped) \<Rightarrow>
               (let mipMapLevel = img_mipMapLevel (st_images s down);
                    renderMappedScale = getScaleFromMipMapLevel h (img_mipMapLevel (st_images s mapped));
                    originalScale = getScaleFromMipMapLevel h mipMapLevel
                in if frameTLS = [] then
                     (let local = st_renderArgs s n;
                          renderRectToRender = ra_renderWindowPixel local
                      in case allocTmpImages renderRectToRender planes s of
                           None \<Rightarrow> None
                         | Some (planes1, tmpPlanes, s1) \<Rightarrow>
                             Some (Inr \<lparr>rc_time = ra_time local, rc_originalScale = originalScale,
                                 rc_renderMappedScale = renderMappedScale,
                                 rc_renderRectToRender = renderRectToRender, rc_view = ra_view local,
                                 rc_tmpPlanes = tmpPlanes,
                                 rc_state = s1\<lparr>st_renderArgs := (st_renderArgs s1)
                                               (n := local\<lparr>ra_outputPlanes := planes1\<rparr>)\<rparr>,
                                 rc_planes = planes1, rc_isBeingRenderedElseWhere = False,
                                 rc_mipMapLevel = mipMapLevel, rc_scoped = False\<rparr>))
                   else
                     (let (renderRectToRender, isBeingRenderedElseWhere) =
                            recomputeRect h q frameArgs renderFullScaleThenDownscale renderUseScaleOneInputs
                              downscaledRectToRender par (ra_rod args) mipMapLevel (st_images s mapped)
                              (st_images s down)
                      in if RectI_isNull renderRectToRender then
                           Some (Inl (if isBeingRenderedElseWhere then eRenderingFunctorRetTakeImageLock
                                      else eRenderingFunctorRetOK))
                         else
                           (case allocTmpImages renderRectToRender planes s of
                              None \<Rightarrow> None
                            | Some (planes1, tmpPlanes, s1) \<Rightarrow>
                                Some (Inr \<lparr>rc_time = ra_time args, rc_originalScale = originalScale,
                                    rc_renderMappedScale = renderMappedScale,
                                    rc_renderRectToRender = renderRectToRender, rc_view = ra_view args,
                                    rc_tmpPlanes = tmpPlanes,
                                    rc_state = s1\<lparr>st_renderArgs := (st_renderArgs s1)
                                                  (n := args\<lparr>ra_renderWindowPixel := renderRectToRender,
                                                            ra_outputPlanes := planes1,
                                                            ra_validArgs := True\<rparr>)\<rparr>,
                                    rc_planes = planes, rc_isBeingRenderedElseWhere = isBeingRenderedElseWhere,
                                    rc_mipMapLevel = mipMapLevel, rc_scoped = True\<rparr>))))
           | _ \<Rightarrow> None))"

text \<open>
  The marking of the rectangle on the image of the first plane (lines 3711 to 3719),
  made when the render cannot be aborted and answers the user: the tri-map is in use.
\<close>

definition markSection ::
  "ParallelRenderArgs \<Rightarrow> bool \<Rightarrow> bool \<Rightarrow> RectI \<Rightarrow> PlaneToRender \<Rightarrow> RectI \<Rightarrow> State \<Rightarrow> State option" where
  "markSection frameArgs renderFullScaleThenDownscale renderUseScaleOneInputs downscaledRectToRender
       firstPlane renderRectToRender s =
     (if \<not> pa_canAbort frameArgs \<and> pa_isRenderResponseToUserInteraction frameArgs then
        (if renderFullScaleThenDownscale \<and> renderUseScaleOneInputs then
           (case fullscaleImage firstPlane of
              None \<Rightarrow> None
            | Some i \<Rightarrow> Some (onImage i (markForRendering renderRectToRender) s))
         else
           (case downscaleImage firstPlane of
              None \<Rightarrow> None
            | Some i \<Rightarrow> Some (onImage i (markForRendering downscaledRectToRender) s)))
      else Some s)"

text \<open>The worker up to the render action, marking included.\<close>

definition beforeRender ::
  "Host \<Rightarrow> ImageQueries \<Rightarrow> NodeId \<Rightarrow> RenderArgs \<Rightarrow> ParallelRenderArgs \<Rightarrow> (NodeId \<times> ParallelRenderArgs) list \<Rightarrow>
   bool \<Rightarrow> bool \<Rightarrow> RectI \<Rightarrow> real \<Rightarrow> Planes \<Rightarrow> State \<Rightarrow> (RenderingFunctorRetEnum + RenderCallArgs) option" where
  "beforeRender h q n args frameArgs frameTLS renderFullScaleThenDownscale renderUseScaleOneInputs
       downscaledRectToRender par planes s =
     (case setUpSection h q n args frameArgs frameTLS renderFullScaleThenDownscale renderUseScaleOneInputs
             downscaledRectToRender par planes s of
        None \<Rightarrow> None
      | Some (Inl ret) \<Rightarrow> Some (Inl ret)
      | Some (Inr c) \<Rightarrow>
          (case markSection frameArgs renderFullScaleThenDownscale renderUseScaleOneInputs
                  downscaledRectToRender (snd (hd planes)) (rc_renderRectToRender c) (rc_state c) of
             None \<Rightarrow> None
           | Some s2 \<Rightarrow> Some (Inr (c\<lparr>rc_state := s2\<rparr>))))"

text \<open>The loop over the output planes when the render action failed (lines 3753 to 3759).\<close>

fun clearPlanes :: "bool \<Rightarrow> bool \<Rightarrow> RectI \<Rightarrow> RectI \<Rightarrow> Planes \<Rightarrow> State \<Rightarrow> State option" where
  "clearPlanes renderFullScaleThenDownscale renderUseScaleOneInputs renderRectToRender
       downscaledRectToRender [] s = Some s"
| "clearPlanes renderFullScaleThenDownscale renderUseScaleOneInputs renderRectToRender
       downscaledRectToRender ((c, p) # ps) s =
     (if renderFullScaleThenDownscale \<and> renderUseScaleOneInputs then
        (case fullscaleImage p of
           None \<Rightarrow> None
         | Some i \<Rightarrow> clearPlanes renderFullScaleThenDownscale renderUseScaleOneInputs renderRectToRender
                      downscaledRectToRender ps (onImage i (clearBitmap renderRectToRender) s))
      else
        (case downscaleImage p of
           None \<Rightarrow> None
         | Some i \<Rightarrow> clearPlanes renderFullScaleThenDownscale renderUseScaleOneInputs renderRectToRender
                      downscaledRectToRender ps (onImage i (clearBitmap downscaledRectToRender) s)))"

text \<open>
  The loop over the output planes when the render action succeeded (lines 3772 to 3813).
  \<open>pasteFrom\<close> and \<open>checkForNaNs\<close> read and write pixel values only.
\<close>

fun finishPlanes :: "Host \<Rightarrow> bool \<Rightarrow> bool \<Rightarrow> nat \<Rightarrow> RectI \<Rightarrow> RectI \<Rightarrow> Planes \<Rightarrow> State \<Rightarrow> State option" where
  "finishPlanes h renderFullScaleThenDownscale renderUseScaleOneInputs mipMapLevel renderRectToRender
       downscaledRectToRender [] s = Some s"
| "finishPlanes h renderFullScaleThenDownscale renderUseScaleOneInputs mipMapLevel renderRectToRender
       downscaledRectToRender ((c, p) # ps) s =
     (case tmpImage p of
        None \<Rightarrow> None
      | Some tmp \<Rightarrow>
          (if isAllocatedOnTheFly p then
             (case renderMappedImage p of
                None \<Rightarrow> None
              | Some m \<Rightarrow> finishPlanes h renderFullScaleThenDownscale renderUseScaleOneInputs mipMapLevel
                           renderRectToRender downscaledRectToRender ps
                           (onImage m (markForRendered renderRectToRender) s))
           else if renderFullScaleThenDownscale then
             (if mipMapLevel \<noteq> 0 \<and> \<not> renderUseScaleOneInputs then
                (case downscaleImage p of
                   None \<Rightarrow> None
                 | Some d \<Rightarrow> finishPlanes h renderFullScaleThenDownscale renderUseScaleOneInputs mipMapLevel
                              renderRectToRender downscaledRectToRender ps
                              (onImage d (markForRendered downscaledRectToRender)
                                 (onImage d (downscaleMipMap h (img_rod (st_images s tmp)) renderRectToRender
                                               0 mipMapLevel False (st_images s tmp)) s)))
              else
                (case fullscaleImage p of
                   None \<Rightarrow> None
                 | Some f \<Rightarrow> finishPlanes h renderFullScaleThenDownscale renderUseScaleOneInputs mipMapLevel
                              renderRectToRender downscaledRectToRender ps
                              (onImage f (markForRendered renderRectToRender) s)))
           else
             (case downscaleImage p of
                None \<Rightarrow> None
              | Some d \<Rightarrow> finishPlanes h renderFullScaleThenDownscale renderUseScaleOneInputs mipMapLevel
                           renderRectToRender downscaledRectToRender ps
                           (onImage d (markForRendered downscaledRectToRender) s))))"

text \<open>
  The worker from the return of the render action (lines 3735 to 3818). The planes are
  read again from the thread-local record, where the render action may have added some.
  A worker that holds a \<open>ScopedRenderArgs\<close> runs its destructor on every return.
\<close>

definition afterRender ::
  "Host \<Rightarrow> (NodeId \<Rightarrow> State \<Rightarrow> bool) \<Rightarrow> NodeId \<Rightarrow> ParallelRenderArgs \<Rightarrow> bool \<Rightarrow> bool \<Rightarrow> RectI \<Rightarrow>
   RenderCallArgs \<Rightarrow> StatusEnum \<times> State \<Rightarrow> (RenderingFunctorRetEnum \<times> Planes \<times> State) option" where
  "afterRender h aborted n frameArgs renderFullScaleThenDownscale renderUseScaleOneInputs
       downscaledRectToRender c res =
     (let (st, s3) = res;
          renderAborted = aborted n s3;
          outputPlanes = ra_outputPlanes (st_renderArgs s3 n);
          leave = (\<lambda>s. if rc_scoped c then ScopedRenderArgs_leave n s else s)
      in if st \<noteq> eStatusOK then
           (if \<not> pa_canAbort frameArgs \<and> pa_isRenderResponseToUserInteraction frameArgs then
              (case clearPlanes renderFullScaleThenDownscale renderUseScaleOneInputs
                      (rc_renderRectToRender c) downscaledRectToRender outputPlanes s3 of
                 None \<Rightarrow> None
               | Some s4 \<Rightarrow> Some (eRenderingFunctorRetFailed, rc_planes c, leave s4))
            else Some (eRenderingFunctorRetFailed, rc_planes c, leave s3))
         else if renderAborted then Some (eRenderingFunctorRetAborted, rc_planes c, leave s3)
         else
           (case finishPlanes h renderFullScaleThenDownscale renderUseScaleOneInputs (rc_mipMapLevel c)
                   (rc_renderRectToRender c) downscaledRectToRender outputPlanes s3 of
              None \<Rightarrow> None
            | Some s4 \<Rightarrow>
                Some (if rc_isBeingRenderedElseWhere c then eRenderingFunctorRetTakeImageLock
                      else eRenderingFunctorRetOK, rc_planes c, leave s4)))"

text \<open>\<open>tiledRenderingFunctor\<close>: it returns its code, the planes of the caller and the state.\<close>

definition tiledRenderingFunctor ::
  "Host \<Rightarrow> ImageQueries \<Rightarrow> RenderAction \<Rightarrow> (NodeId \<Rightarrow> State \<Rightarrow> bool) \<Rightarrow> NodeId \<Rightarrow> RenderArgs \<Rightarrow>
   ParallelRenderArgs \<Rightarrow> (NodeId \<times> ParallelRenderArgs) list \<Rightarrow> bool \<Rightarrow> bool \<Rightarrow> bool \<Rightarrow> bool \<Rightarrow> RectI \<Rightarrow> real \<Rightarrow>
   Planes \<Rightarrow> State \<Rightarrow> (RenderingFunctorRetEnum \<times> Planes \<times> State) option" where
  "tiledRenderingFunctor h q render aborted n args frameArgs frameTLS renderFullScaleThenDownscale
       renderUseScaleOneInputs isSequentialRender isRenderResponseToUserInteraction
       downscaledRectToRender par planes s =
     (case beforeRender h q n args frameArgs frameTLS renderFullScaleThenDownscale
             renderUseScaleOneInputs downscaledRectToRender par planes s of
        None \<Rightarrow> None
      | Some (Inl ret) \<Rightarrow> Some (ret, planes, s)
      | Some (Inr c) \<Rightarrow>
          afterRender h aborted n frameArgs renderFullScaleThenDownscale renderUseScaleOneInputs
            downscaledRectToRender c
            (render n (rc_time c) (rc_originalScale c) (rc_renderMappedScale c) (rc_renderRectToRender c)
               (rc_view c) isSequentialRender isRenderResponseToUserInteraction (rc_tmpPlanes c)
               (rc_state c)))"

text \<open>The image of a plane whose bitmap the worker clears, and the rectangle it clears
  (lines 3754 to 3758).\<close>

definition imageToClear :: "bool \<Rightarrow> bool \<Rightarrow> PlaneToRender \<Rightarrow> ImagePtr option" where
  "imageToClear renderFullScaleThenDownscale renderUseScaleOneInputs p =
     (if renderFullScaleThenDownscale \<and> renderUseScaleOneInputs then fullscaleImage p
      else downscaleImage p)"

definition rectToClear :: "bool \<Rightarrow> bool \<Rightarrow> RectI \<Rightarrow> RectI \<Rightarrow> RectI" where
  "rectToClear renderFullScaleThenDownscale renderUseScaleOneInputs renderRectToRender
       downscaledRectToRender =
     (if renderFullScaleThenDownscale \<and> renderUseScaleOneInputs then renderRectToRender
      else downscaledRectToRender)"

text \<open>The code a call returned, and the state of a cell of an image after it.\<close>

definition returnedCode ::
  "(RenderingFunctorRetEnum \<times> Planes \<times> State) option \<Rightarrow> RenderingFunctorRetEnum option" where
  "returnedCode r = map_option fst r"

definition cellAfter ::
  "(RenderingFunctorRetEnum \<times> Planes \<times> State) option \<Rightarrow> ImagePtr \<Rightarrow> int \<times> int \<Rightarrow> CellState option" where
  "cellAfter r i cell = map_option (\<lambda>x. img_bitmap (st_images (snd (snd x)) i) cell) r"

subsection \<open>Fixtures for the worker\<close>

text \<open>
  One plane whose three images are image 0, over the rectangle from (0, 0) to (10, 10).
  The cell (0, 0) of image 0 is being rendered by another render; every other cell is
  unrendered. The render action fails.
\<close>

definition tileRect :: RectI where
  "tileRect = \<lparr>ix1 = 0, iy1 = 0, ix2 = 10, iy2 = 10\<rparr>"

definition tilePlane :: PlaneToRender where
  "tilePlane = \<lparr>fullscaleImage = Some 0, downscaleImage = Some 0, renderMappedImage = Some 0,
                 tmpImage = None, originalCachedImage = None, isAllocatedOnTheFly = False\<rparr>"

definition tileImage :: Image where
  "tileImage = (testImage 0 eImageBitDepthFloat)
                 \<lparr>img_bitmap := (\<lambda>c. if c = (0, 0) then Rendering else Unrendered)\<rparr>"

definition tileState :: State where
  "tileState = testState
     \<lparr>st_images := (\<lambda>p. tileImage), st_nextImage := 1,
      st_renderArgs := (\<lambda>n. RenderArgs_new\<lparr>ra_renderWindowPixel := tileRect, ra_validArgs := True\<rparr>)\<rparr>"

definition failingRender :: RenderAction where
  "failingRender n t originalScale mappedScale roi v isSequentialRender
       isRenderResponseToUserInteraction outputPlanes s =
     (eStatusFailed, s\<lparr>st_renderCalls := (n, t, roi) # st_renderCalls s\<rparr>)"

definition neverAborted :: "NodeId \<Rightarrow> State \<Rightarrow> bool" where
  "neverAborted n s = False"

definition wholeRect :: ImageQueries where
  "wholeRect = \<lparr>getMinimalRect = (\<lambda>r img. r), getMinimalRect_trimap = (\<lambda>r img. (r, False))\<rparr>"

text \<open>The frame arguments of a render that answers the user: one that cannot be
  aborted, and one that can.\<close>

definition interactiveArgs :: ParallelRenderArgs where
  "interactiveArgs = ParallelRenderArgs_new\<lparr>pa_isRenderResponseToUserInteraction := True\<rparr>"

definition abortableArgs :: ParallelRenderArgs where
  "abortableArgs = interactiveArgs\<lparr>pa_canAbort := True\<rparr>"

text \<open>The planes with their temporary image, and the state the render action is called
  in when the tri-map is in use, and when it is not.\<close>

definition tilePlanes1 :: Planes where
  "tilePlanes1 = [(RGBA, tilePlane\<lparr>tmpImage := Some 1\<rparr>)]"

definition tileState1 :: State where
  "tileState1 = tileState
     \<lparr>st_images := (st_images tileState)
        (1 := tileImage\<lparr>img_bounds := tileRect, img_usesBitMap := False, img_bitmap := (\<lambda>c. Unrendered)\<rparr>),
      st_nextImage := 2,
      st_renderArgs := (st_renderArgs tileState)
        (0 := (st_renderArgs tileState 0)\<lparr>ra_outputPlanes := tilePlanes1\<rparr>)\<rparr>"

definition tileCall :: "State \<Rightarrow> RenderCallArgs" where
  "tileCall s =
     \<lparr>rc_time = 0, rc_originalScale = 1, rc_renderMappedScale = 1, rc_renderRectToRender = tileRect,
      rc_view = 0, rc_tmpPlanes = [1], rc_state = s, rc_planes = tilePlanes1,
      rc_isBeingRenderedElseWhere = False, rc_mipMapLevel = 0, rc_scoped = False\<rparr>"

subsection \<open>Failure of the render action\<close>

lemma clearBitmap_twice: "clearBitmap r (clearBitmap r img) = clearBitmap r img"
  by (simp add: clearBitmap_def fun_eq_iff)

lemma clearPlanes_images:
  assumes "\<forall>p \<in> set ps. imageToClear fd so (snd p) \<noteq> None"
  shows "\<exists>s'. clearPlanes fd so rr dr ps s = Some s' \<and>
           (\<forall>i. st_images s' i =
                  (if Some i \<in> (\<lambda>p. imageToClear fd so (snd p)) ` set ps
                   then clearBitmap (rectToClear fd so rr dr) (st_images s i)
                   else st_images s i))"
  using assms
proof (induction ps arbitrary: s)
  case Nil
  then show ?case by simp
next
  case (Cons a ps)
  obtain c p where a: "a = (c, p)" by (cases a)
  from Cons.prems a obtain i where i: "imageToClear fd so p = Some i" by auto
  let ?r = "rectToClear fd so rr dr"
  let ?s1 = "onImage i (clearBitmap ?r) s"
  have step: "clearPlanes fd so rr dr (a # ps) s = clearPlanes fd so rr dr ps ?s1"
    using a i by (auto simp: imageToClear_def rectToClear_def)
  from Cons.prems have "\<forall>p \<in> set ps. imageToClear fd so (snd p) \<noteq> None" by simp
  from Cons.IH [OF this, of ?s1] obtain s' where
    run: "clearPlanes fd so rr dr ps ?s1 = Some s'" and
    imgs: "\<forall>j. st_images s' j =
                  (if Some j \<in> (\<lambda>p. imageToClear fd so (snd p)) ` set ps
                   then clearBitmap ?r (st_images ?s1 j)
                   else st_images ?s1 j)"
    by blast
  have "\<forall>j. st_images s' j =
                  (if Some j \<in> (\<lambda>p. imageToClear fd so (snd p)) ` set (a # ps)
                   then clearBitmap ?r (st_images s j)
                   else st_images s j)"
  proof
    fix j
    show "st_images s' j =
                  (if Some j \<in> (\<lambda>p. imageToClear fd so (snd p)) ` set (a # ps)
                   then clearBitmap ?r (st_images s j)
                   else st_images s j)"
      using imgs [rule_format, of j] a i
      by (cases "j = i") (auto simp: onImage_def clearBitmap_twice)
  qed
  with step run show ?case by simp
qed

lemma clearBitmap_cell:
  "img_bitmap (clearBitmap r img) cell =
     (if RectI_covers r cell \<and> img_bitmap img cell = Rendering then Unrendered else img_bitmap img cell)"
  by (simp add: clearBitmap_def)

lemma allocTmpImages_keeps:
  "allocTmpImages r planes s = Some (planes1, tmps, s1) \<Longrightarrow>
   st_nextImage s \<le> st_nextImage s1 \<and> (\<forall>i < st_nextImage s. st_images s1 i = st_images s i)"
proof (induction r planes s arbitrary: planes1 tmps s1 rule: allocTmpImages.induct)
  case (1 r s)
  then show ?case by simp
next
  case (2 r c p ps s)
  from "2.prems" obtain m where m: "renderMappedImage p = Some m"
    by (auto split: option.splits)
  obtain tmp sa where alloc:
    "(if img_usesBitMap (st_images s m)
      then newImage ((st_images s m)\<lparr>img_bounds := r, img_usesBitMap := False,
                                      img_bitmap := (\<lambda>c. Unrendered)\<rparr>) s
      else (m, s)) = (tmp, sa)"
    by (cases "if img_usesBitMap (st_images s m)
      then newImage ((st_images s m)\<lparr>img_bounds := r, img_usesBitMap := False,
                                      img_bitmap := (\<lambda>c. Unrendered)\<rparr>) s
      else (m, s)")
  then have step: "st_nextImage s \<le> st_nextImage sa \<and> (\<forall>i < st_nextImage s. st_images sa i = st_images s i)"
    by (auto simp: newImage_def split: if_splits)
  from "2.prems" m alloc obtain ps' tmps'
    where rest: "allocTmpImages r ps sa = Some (ps', tmps', s1)"
    by (auto split: option.splits prod.splits)
  from "2.IH" [OF m alloc [symmetric] refl rest] step show ?case by auto
qed

lemma setUpSection_images:
  assumes "setUpSection h q n args frameArgs frameTLS fd so dr par planes s = Some (Inr c0)"
  shows "\<forall>i < st_nextImage s. st_images (rc_state c0) i = st_images s i"
proof -
  from assms obtain r planes1 tmps s1
    where alloc: "allocTmpImages r planes s = Some (planes1, tmps, s1)"
      and st: "st_images (rc_state c0) = st_images s1"
    by (auto simp: setUpSection_def Let_def simp del: allocTmpImages.simps
        split: list.splits option.splits prod.splits if_splits)
  from allocTmpImages_keeps [OF alloc] st show ?thesis by simp
qed

lemma beforeRender_images:
  assumes "beforeRender h q n args frameArgs frameTLS fd so dr par planes s = Some (Inr c)"
  shows "\<forall>i < st_nextImage s. st_images (rc_state c) i =
           (if \<not> pa_canAbort frameArgs \<and> pa_isRenderResponseToUserInteraction frameArgs
               \<and> imageToClear fd so (snd (hd planes)) = Some i
            then markForRendering (rectToClear fd so (rc_renderRectToRender c) dr) (st_images s i)
            else st_images s i)"
proof -
  from assms obtain c0 s2
    where su: "setUpSection h q n args frameArgs frameTLS fd so dr par planes s = Some (Inr c0)"
      and mark: "markSection frameArgs fd so dr (snd (hd planes)) (rc_renderRectToRender c0) (rc_state c0) = Some s2"
      and c: "c = c0\<lparr>rc_state := s2\<rparr>"
    by (auto simp: beforeRender_def split: option.splits sum.splits)
  from setUpSection_images [OF su]
  have keep: "\<forall>i < st_nextImage s. st_images (rc_state c0) i = st_images s i" .
  show ?thesis
  proof (intro allI impI)
    fix i assume i: "i < st_nextImage s"
    with keep have k: "st_images (rc_state c0) i = st_images s i" by simp
    from mark c k show "st_images (rc_state c) i =
           (if \<not> pa_canAbort frameArgs \<and> pa_isRenderResponseToUserInteraction frameArgs
               \<and> imageToClear fd so (snd (hd planes)) = Some i
            then markForRendering (rectToClear fd so (rc_renderRectToRender c) dr) (st_images s i)
            else st_images s i)"
      by (auto simp: markSection_def imageToClear_def rectToClear_def onImage_def
          split: if_splits option.splits)
  qed
qed

text \<open>
  Claim C7. The worker has reached the render action, and the action returns a status
  other than \<open>eStatusOK\<close>. Then the worker returns \<open>eRenderingFunctorRetFailed\<close>. When the
  tri-map is in use (the render cannot be aborted and answers the user), on the image of
  every output plane (the full-scale image over \<open>renderRectToRender\<close> when the render is
  made at full scale from inputs at scale one, else the downscaled image over
  \<open>downscaledRectToRender\<close>; none of them a null pointer) every cell the rectangle covers
  that was rendering is unrendered, and the other cells it covers are as the render
  action left them. When the tri-map is not in use the images are as the render action
  left them. Up to the call of the render action the worker changes no image that exists
  at the entry (an address below the next free one), but for the marking when the tri-map
  is in use: the unrendered cells the rectangle covers on that image of the first plane
  are set to rendering. When the tri-map is not in use it marks no cell.
\<close>

theorem tiledRenderingFunctor_render_failed:
  assumes call: "beforeRender h q n args frameArgs frameTLS renderFullScaleThenDownscale
                   renderUseScaleOneInputs downscaledRectToRender par planes s = Some (Inr c)"
    and res: "render n (rc_time c) (rc_originalScale c) (rc_renderMappedScale c) (rc_renderRectToRender c)
                (rc_view c) isSequentialRender isRenderResponseToUserInteraction (rc_tmpPlanes c)
                (rc_state c) = (st, s3)"
    and fail: "st \<noteq> eStatusOK"
    and nonnull: "\<not> pa_canAbort frameArgs \<and> pa_isRenderResponseToUserInteraction frameArgs \<longrightarrow>
                  (\<forall>p \<in> set (ra_outputPlanes (st_renderArgs s3 n)).
                     imageToClear renderFullScaleThenDownscale renderUseScaleOneInputs (snd p) \<noteq> None)"
  shows "\<exists>s'. tiledRenderingFunctor h q render aborted n args frameArgs frameTLS
                 renderFullScaleThenDownscale renderUseScaleOneInputs isSequentialRender
                 isRenderResponseToUserInteraction downscaledRectToRender par planes s
               = Some (eRenderingFunctorRetFailed, rc_planes c, s')
          \<and> (\<not> pa_canAbort frameArgs \<and> pa_isRenderResponseToUserInteraction frameArgs \<longrightarrow>
               (\<forall>p \<in> set (ra_outputPlanes (st_renderArgs s3 n)). \<forall>i cell.
                   imageToClear renderFullScaleThenDownscale renderUseScaleOneInputs (snd p) = Some i
                   \<and> RectI_covers (rectToClear renderFullScaleThenDownscale renderUseScaleOneInputs
                                     (rc_renderRectToRender c) downscaledRectToRender) cell
                   \<longrightarrow> img_bitmap (st_images s' i) cell =
                         (if img_bitmap (st_images s3 i) cell = Rendering then Unrendered
                          else img_bitmap (st_images s3 i) cell)))
          \<and> (pa_canAbort frameArgs \<or> \<not> pa_isRenderResponseToUserInteraction frameArgs \<longrightarrow>
               st_images s' = st_images s3
               \<and> (\<forall>i < st_nextImage s. st_images (rc_state c) i = st_images s i))
          \<and> (\<forall>i < st_nextImage s. st_images (rc_state c) i =
               (if \<not> pa_canAbort frameArgs \<and> pa_isRenderResponseToUserInteraction frameArgs
                   \<and> imageToClear renderFullScaleThenDownscale renderUseScaleOneInputs (snd (hd planes))
                       = Some i
                then markForRendering
                       (rectToClear renderFullScaleThenDownscale renderUseScaleOneInputs
                          (rc_renderRectToRender c) downscaledRectToRender) (st_images s i)
                else st_images s i))"
proof (cases "\<not> pa_canAbort frameArgs \<and> pa_isRenderResponseToUserInteraction frameArgs")
  case True
  let ?planes = "ra_outputPlanes (st_renderArgs s3 n)"
  let ?r = "rectToClear renderFullScaleThenDownscale renderUseScaleOneInputs
              (rc_renderRectToRender c) downscaledRectToRender"
  from True nonnull
  have "\<forall>p \<in> set ?planes. imageToClear renderFullScaleThenDownscale renderUseScaleOneInputs (snd p) \<noteq> None"
    by blast
  from clearPlanes_images [OF this, of "rc_renderRectToRender c" downscaledRectToRender s3]
  obtain s4 where
    run: "clearPlanes renderFullScaleThenDownscale renderUseScaleOneInputs (rc_renderRectToRender c)
            downscaledRectToRender ?planes s3 = Some s4" and
    imgs: "\<forall>i. st_images s4 i =
             (if Some i \<in> (\<lambda>p. imageToClear renderFullScaleThenDownscale renderUseScaleOneInputs (snd p))
                            ` set ?planes
              then clearBitmap ?r (st_images s3 i) else st_images s3 i)"
    by blast
  let ?s' = "if rc_scoped c then ScopedRenderArgs_leave n s4 else s4"
  have same: "st_images ?s' = st_images s4" by (simp add: ScopedRenderArgs_leave_def)
  have ret: "tiledRenderingFunctor h q render aborted n args frameArgs frameTLS
                 renderFullScaleThenDownscale renderUseScaleOneInputs isSequentialRender
                 isRenderResponseToUserInteraction downscaledRectToRender par planes s
               = Some (eRenderingFunctorRetFailed, rc_planes c, ?s')"
    using call res fail True run by (simp add: tiledRenderingFunctor_def afterRender_def)
  have cells: "\<forall>p \<in> set ?planes. \<forall>i cell.
                   imageToClear renderFullScaleThenDownscale renderUseScaleOneInputs (snd p) = Some i
                   \<and> RectI_covers ?r cell
                   \<longrightarrow> img_bitmap (st_images ?s' i) cell =
                         (if img_bitmap (st_images s3 i) cell = Rendering then Unrendered
                          else img_bitmap (st_images s3 i) cell)"
  proof (intro ballI allI impI)
    fix p i cell
    assume p: "p \<in> set ?planes"
      and "imageToClear renderFullScaleThenDownscale renderUseScaleOneInputs (snd p) = Some i
           \<and> RectI_covers ?r cell"
    then have i: "imageToClear renderFullScaleThenDownscale renderUseScaleOneInputs (snd p) = Some i"
      and cov: "RectI_covers ?r cell" by blast+
    from p i
    have "Some i \<in> (\<lambda>p. imageToClear renderFullScaleThenDownscale renderUseScaleOneInputs (snd p))
                     ` set ?planes"
      by force
    with imgs have "st_images s4 i = clearBitmap ?r (st_images s3 i)" by simp
    with cov same show "img_bitmap (st_images ?s' i) cell =
                         (if img_bitmap (st_images s3 i) cell = Rendering then Unrendered
                          else img_bitmap (st_images s3 i) cell)"
      by (simp add: clearBitmap_cell)
  qed
  from ret cells True beforeRender_images [OF call] show ?thesis by blast
next
  case False
  let ?s' = "if rc_scoped c then ScopedRenderArgs_leave n s3 else s3"
  have same: "st_images ?s' = st_images s3" by (simp add: ScopedRenderArgs_leave_def)
  have ret: "tiledRenderingFunctor h q render aborted n args frameArgs frameTLS
                 renderFullScaleThenDownscale renderUseScaleOneInputs isSequentialRender
                 isRenderResponseToUserInteraction downscaledRectToRender par planes s
               = Some (eRenderingFunctorRetFailed, rc_planes c, ?s')"
    using call res fail False by (auto simp: tiledRenderingFunctor_def afterRender_def)
  from beforeRender_images [OF call] False
  have unmarked: "\<forall>i < st_nextImage s. st_images (rc_state c) i = st_images s i"
    by auto
  from ret same False unmarked beforeRender_images [OF call] show ?thesis by blast
qed

lemmas tile_defs =
  beforeRender_def setUpSection_def markSection_def afterRender_def tiledRenderingFunctor_def
  onImage_def newImage_def markForRendering_def clearBitmap_def RectI_covers_def
  tileRect_def tilePlane_def tileImage_def tileState_def tileState1_def tilePlanes1_def tileCall_def
  failingRender_def neverAborted_def wholeRect_def interactiveArgs_def abortableArgs_def
  testState_def testImage_def testHost_def ParallelRenderArgs_new_def RenderArgs_new_def
  imageToClear_def rectToClear_def returnedCode_def cellAfter_def Let_def

lemma tile_call_trimap:
  "beforeRender testHost wholeRect 0 RenderArgs_new interactiveArgs [] False False tileRect 1
     [(RGBA, tilePlane)] tileState
   = Some (Inr (tileCall (onImage 0 (markForRendering tileRect) tileState1)))"
  by (simp add: tile_defs fun_eq_iff)

lemma tile_call_abortable:
  "beforeRender testHost wholeRect 0 RenderArgs_new abortableArgs [] False False tileRect 1
     [(RGBA, tilePlane)] tileState
   = Some (Inr (tileCall tileState1))"
  by (simp add: tile_defs fun_eq_iff)

text \<open>
  A run with the tri-map in use: the cell (5, 5) is unrendered before the call, rendering
  when the render action is called, and unrendered again after the failure; the cell
  (0, 0), which was rendering before the call, is unrendered too.
\<close>

theorem tiledRenderingFunctor_render_failed_witness:
  "beforeRender testHost wholeRect 0 RenderArgs_new interactiveArgs [] False False tileRect 1
     [(RGBA, tilePlane)] tileState
   = Some (Inr (tileCall (onImage 0 (markForRendering tileRect) tileState1)))
   \<and> fst (failingRender 0 0 1 1 tileRect 0 False True [1]
             (onImage 0 (markForRendering tileRect) tileState1)) = eStatusFailed
   \<and> \<not> pa_canAbort interactiveArgs \<and> pa_isRenderResponseToUserInteraction interactiveArgs
   \<and> RectI_covers tileRect (5, 5) \<and> RectI_covers tileRect (0, 0)
   \<and> img_bitmap (st_images tileState 0) (5, 5) = Unrendered
   \<and> img_bitmap (st_images tileState 0) (0, 0) = Rendering
   \<and> img_bitmap (st_images (onImage 0 (markForRendering tileRect) tileState1) 0) (5, 5) = Rendering
   \<and> returnedCode (tiledRenderingFunctor testHost wholeRect failingRender neverAborted 0 RenderArgs_new
        interactiveArgs [] False False False True tileRect 1 [(RGBA, tilePlane)] tileState)
      = Some eRenderingFunctorRetFailed
   \<and> cellAfter (tiledRenderingFunctor testHost wholeRect failingRender neverAborted 0 RenderArgs_new
        interactiveArgs [] False False False True tileRect 1 [(RGBA, tilePlane)] tileState) 0 (5, 5)
      = Some Unrendered
   \<and> cellAfter (tiledRenderingFunctor testHost wholeRect failingRender neverAborted 0 RenderArgs_new
        interactiveArgs [] False False False True tileRect 1 [(RGBA, tilePlane)] tileState) 0 (0, 0)
      = Some Unrendered"
proof -
  let ?s2 = "onImage 0 (markForRendering tileRect) tileState1"
  let ?s3 = "?s2\<lparr>st_renderCalls := (0, 0, tileRect) # st_renderCalls ?s2\<rparr>"
  let ?run = "tiledRenderingFunctor testHost wholeRect failingRender neverAborted 0 RenderArgs_new
        interactiveArgs [] False False False True tileRect 1 [(RGBA, tilePlane)] tileState"
  have res: "failingRender 0 (rc_time (tileCall ?s2)) (rc_originalScale (tileCall ?s2))
               (rc_renderMappedScale (tileCall ?s2)) (rc_renderRectToRender (tileCall ?s2))
               (rc_view (tileCall ?s2)) False True (rc_tmpPlanes (tileCall ?s2)) (rc_state (tileCall ?s2))
             = (eStatusFailed, ?s3)"
    by (simp add: failingRender_def tileCall_def)
  have failed: "fst (failingRender 0 0 1 1 tileRect 0 False True [1] ?s2) = eStatusFailed"
    by (simp add: failingRender_def)
  have gate: "\<not> pa_canAbort interactiveArgs \<and> pa_isRenderResponseToUserInteraction interactiveArgs"
    by (simp add: interactiveArgs_def ParallelRenderArgs_new_def)
  have planes: "ra_outputPlanes (st_renderArgs ?s3 0) = tilePlanes1"
    by (simp add: tile_defs)
  have nonnull: "\<not> pa_canAbort interactiveArgs \<and> pa_isRenderResponseToUserInteraction interactiveArgs \<longrightarrow>
                  (\<forall>p \<in> set (ra_outputPlanes (st_renderArgs ?s3 0)). imageToClear False False (snd p) \<noteq> None)"
    unfolding planes by (simp add: tilePlanes1_def tilePlane_def imageToClear_def)
  have covers: "RectI_covers tileRect (5, 5)" "RectI_covers tileRect (0, 0)"
    by (simp_all add: RectI_covers_def tileRect_def)
  have before: "img_bitmap (st_images tileState 0) (5, 5) = Unrendered"
    "img_bitmap (st_images tileState 0) (0, 0) = Rendering"
    by (simp_all add: tileState_def tileImage_def)
  have marked: "img_bitmap (st_images ?s3 0) (5, 5) = Rendering"
    "img_bitmap (st_images ?s3 0) (0, 0) = Rendering"
    by (simp_all add: tile_defs)
  have marked2: "img_bitmap (st_images ?s2 0) (5, 5) = Rendering"
    by (simp add: tile_defs)
  have fail: "eStatusFailed \<noteq> eStatusOK" by simp
  from tiledRenderingFunctor_render_failed
         [where render = failingRender and aborted = neverAborted, OF tile_call_trimap res fail nonnull]
  obtain s' where run: "?run = Some (eRenderingFunctorRetFailed, rc_planes (tileCall ?s2), s')"
    and cells: "\<forall>p \<in> set (ra_outputPlanes (st_renderArgs ?s3 0)). \<forall>i cell.
                   imageToClear False False (snd p) = Some i
                   \<and> RectI_covers (rectToClear False False (rc_renderRectToRender (tileCall ?s2)) tileRect) cell
                   \<longrightarrow> img_bitmap (st_images s' i) cell =
                         (if img_bitmap (st_images ?s3 i) cell = Rendering then Unrendered
                          else img_bitmap (st_images ?s3 i) cell)"
    using gate by blast
  have p: "(RGBA, tilePlane\<lparr>tmpImage := Some 1\<rparr>) \<in> set (ra_outputPlanes (st_renderArgs ?s3 0))"
    unfolding planes by (simp add: tilePlanes1_def)
  have img: "imageToClear False False (snd (RGBA, tilePlane\<lparr>tmpImage := Some 1\<rparr>)) = Some 0"
    by (simp add: imageToClear_def tilePlane_def)
  have rect: "rectToClear False False (rc_renderRectToRender (tileCall ?s2)) tileRect = tileRect"
    by (simp add: rectToClear_def)
  from cells [rule_format, OF p, of 0 "(5, 5)"] img rect covers marked
  have c1: "img_bitmap (st_images s' 0) (5, 5) = Unrendered" by simp
  from cells [rule_format, OF p, of 0 "(0, 0)"] img rect covers marked
  have c2: "img_bitmap (st_images s' 0) (0, 0) = Unrendered" by simp
  from run have r1: "returnedCode ?run = Some eRenderingFunctorRetFailed"
    by (simp add: returnedCode_def)
  from run c1 have r2: "cellAfter ?run 0 (5, 5) = Some Unrendered"
    by (simp add: cellAfter_def)
  from run c2 have r3: "cellAfter ?run 0 (0, 0) = Some Unrendered"
    by (simp add: cellAfter_def)
  from tile_call_trimap failed gate covers before marked2 r1 r2 r3 show ?thesis by blast
qed

text \<open>
  The claim as stated fails on the same run made by a render that can be aborted: the
  worker marks no cell (the cell (5, 5) is unrendered when the render action is called),
  it returns \<open>eRenderingFunctorRetFailed\<close> and the bitmap is not cleared (line 3750): the
  cell (0, 0) of the rectangle is still rendering.
\<close>

theorem tiledRenderingFunctor_abortable_keeps_bitmap:
  "pa_canAbort abortableArgs
   \<and> RectI_covers tileRect (0, 0)
   \<and> img_bitmap (st_images tileState 0) (0, 0) = Rendering
   \<and> beforeRender testHost wholeRect 0 RenderArgs_new abortableArgs [] False False tileRect 1
        [(RGBA, tilePlane)] tileState
      = Some (Inr (tileCall tileState1))
   \<and> img_bitmap (st_images tileState1 0) (5, 5) = Unrendered
   \<and> fst (failingRender 0 0 1 1 tileRect 0 False True [1] tileState1) = eStatusFailed
   \<and> returnedCode (tiledRenderingFunctor testHost wholeRect failingRender neverAborted 0 RenderArgs_new
        abortableArgs [] False False False True tileRect 1 [(RGBA, tilePlane)] tileState)
      = Some eRenderingFunctorRetFailed
   \<and> cellAfter (tiledRenderingFunctor testHost wholeRect failingRender neverAborted 0 RenderArgs_new
        abortableArgs [] False False False True tileRect 1 [(RGBA, tilePlane)] tileState) 0 (0, 0)
      = Some Rendering"
proof -
  have run: "tiledRenderingFunctor testHost wholeRect failingRender neverAborted 0 RenderArgs_new
        abortableArgs [] False False False True tileRect 1 [(RGBA, tilePlane)] tileState
      = Some (eRenderingFunctorRetFailed, tilePlanes1,
              tileState1\<lparr>st_renderCalls := (0, 0, tileRect) # st_renderCalls tileState1\<rparr>)"
    using tile_call_abortable
    by (simp add: tiledRenderingFunctor_def afterRender_def failingRender_def tileCall_def
        abortableArgs_def interactiveArgs_def)
  have a: "pa_canAbort abortableArgs" by (simp add: abortableArgs_def)
  have b: "RectI_covers tileRect (0, 0)" by (simp add: RectI_covers_def tileRect_def)
  have c: "img_bitmap (st_images tileState 0) (0, 0) = Rendering"
    by (simp add: tileState_def tileImage_def)
  have d: "fst (failingRender 0 0 1 1 tileRect 0 False True [1] tileState1) = eStatusFailed"
    by (simp add: failingRender_def)
  from run have e: "returnedCode (tiledRenderingFunctor testHost wholeRect failingRender neverAborted 0
        RenderArgs_new abortableArgs [] False False False True tileRect 1 [(RGBA, tilePlane)] tileState)
      = Some eRenderingFunctorRetFailed"
    by (simp add: returnedCode_def)
  from run have f: "cellAfter (tiledRenderingFunctor testHost wholeRect failingRender neverAborted 0
        RenderArgs_new abortableArgs [] False False False True tileRect 1 [(RGBA, tilePlane)] tileState)
        0 (0, 0) = Some Rendering"
    by (simp add: cellAfter_def tileState1_def tileState_def tileImage_def)
  have g: "img_bitmap (st_images tileState1 0) (5, 5) = Unrendered"
    by (simp add: tileState1_def tileState_def tileImage_def)
  from a b c d e f g tile_call_abortable show ?thesis by blast
qed

end
